(* ===== verification/Prelude.thy ===== *)
theory Prelude
  imports Complex_Main "HOL-Library.Word"
begin

text \<open>
  Shared vocabulary of the development: Python's exceptions as an error datatype and
  results as a sum, Python list indexing (negative indices, IndexError), Python's
  \<open>int()\<close> on floats, clamping, and the lemma collections the component theories
  fill. Floats are modelled as exact reals throughout; rounding is not modelled.
\<close>

section \<open>Exceptions and results\<close>

text \<open>The exceptions the sources can raise, one constructor each.\<close>

datatype py_error =
    IndexError
  | ZeroDivisionError
  | AttributeError
  | StructError
  | ValueError
  | UnicodeEncodeError

type_synonym 'a result = "py_error + 'a"

text \<open>Sequencing of two computations that may raise: the first exception wins.\<close>

fun rbind :: "'a result \<Rightarrow> ('a \<Rightarrow> 'b result) \<Rightarrow> 'b result" where
  "rbind (Inl e) f = Inl e"
| "rbind (Inr a) f = f a"

named_theorems model_simps "equations of the model unfolded by the component proofs"

lemma rbind_Inr_iff [simp]:
  "rbind m f = Inr b \<longleftrightarrow> (\<exists>a. m = Inr a \<and> f a = Inr b)"
  by (cases m) auto

lemma rbind_Inl_iff:
  "rbind m f = Inl e \<longleftrightarrow> m = Inl e \<or> (\<exists>a. m = Inr a \<and> f a = Inl e)"
  by (cases m) auto

section \<open>Python list indexing\<close>

text \<open>
  \<open>xs[i]\<close> in Python: a negative index counts from the end, anything outside
  \<open>-len(xs) .. len(xs)-1\<close> raises IndexError. \<open>py_idx\<close> gives the position read.
\<close>

definition py_idx :: "nat \<Rightarrow> int \<Rightarrow> nat option" where
  "py_idx n i = (let j = (if i < 0 then int n + i else i)
                 in if 0 \<le> j \<and> j < int n then Some (nat j) else None)"

definition py_get :: "'a list \<Rightarrow> int \<Rightarrow> 'a result" where
  "py_get xs i = (case py_idx (length xs) i of None \<Rightarrow> Inl IndexError | Some j \<Rightarrow> Inr (xs ! j))"

definition py_set :: "'a list \<Rightarrow> int \<Rightarrow> 'a \<Rightarrow> 'a list result" where
  "py_set xs i v = (case py_idx (length xs) i of None \<Rightarrow> Inl IndexError | Some j \<Rightarrow> Inr (xs[j := v]))"

lemma py_idx_nonneg [simp]:
  "0 \<le> i \<Longrightarrow> py_idx n i = (if i < int n then Some (nat i) else None)"
  by (simp add: py_idx_def)

lemma py_idx_nat [simp]: "py_idx n (int i) = (if i < n then Some i else None)"
  by (simp add: py_idx_def)

lemma py_idx_neg [simp]:
  "i < 0 \<Longrightarrow> py_idx n i = (if 0 \<le> int n + i then Some (nat (int n + i)) else None)"
  by (simp add: py_idx_def)

lemma py_idx_Some_less: "py_idx n i = Some j \<Longrightarrow> j < n"
  by (auto simp: py_idx_def Let_def split: if_splits)

lemma py_get_nat [simp]: "py_get xs (int i) = (if i < length xs then Inr (xs ! i) else Inl IndexError)"
  by (simp add: py_get_def)

lemma py_get_0 [simp]: "py_get xs 0 = (if xs = [] then Inl IndexError else Inr (xs ! 0))"
  by (simp add: py_get_def)

lemma py_set_nat [simp]:
  "py_set xs (int i) v = (if i < length xs then Inr (xs[i := v]) else Inl IndexError)"
  by (simp add: py_set_def)

lemma py_set_length: "py_set xs i v = Inr ys \<Longrightarrow> length ys = length xs"
  by (auto simp: py_set_def split: option.splits)

lemma rbind_assoc: "rbind (rbind m f) g = rbind m (\<lambda>a. rbind (f a) g)"
  by (cases m) auto

lemma map_update_self: "i < length xs \<Longrightarrow> (map f xs)[i := f (xs ! i)] = map f xs"
  by (metis length_map list_update_id nth_map)

lemma map_length_update:
  "j < length xss \<Longrightarrow> length ys = length (xss ! j) \<Longrightarrow> map length (xss[j := ys]) = map length xss"
  by (metis length_map list_update_id map_update nth_map)

lemma py_set_after_get:
  assumes "py_get xss i = Inr row" and "length row' = length row" and "py_set xss i row' = Inr xss'"
  shows "map length xss' = map length xss"
proof -
  obtain j where j: "py_idx (length xss) i = Some j" "row = xss ! j"
    using assms(1) by (auto simp: py_get_def split: option.splits)
  have "xss' = xss[j := row']" using assms(3) j(1) by (simp add: py_set_def)
  moreover have "j < length xss" using j(1) by (rule py_idx_Some_less)
  ultimately show ?thesis using assms(2) j(2) by (simp add: map_length_update)
qed

section \<open>Python numbers\<close>

text \<open>\<open>int(f)\<close> on a float truncates towards zero.\<close>

definition py_int :: "real \<Rightarrow> int" where
  "py_int r = (if 0 \<le> r then \<lfloor>r\<rfloor> else \<lceil>r\<rceil>)"

text \<open>
  \<open>b ** e\<close> for the non-negative bases \<open>max(0, _)\<close> produces: zero to a negative power
  raises ZeroDivisionError, \<open>0 ** 0\<close> is 1, zero to a positive power is 0, and a positive
  base gives the real power.
\<close>

definition py_pow :: "real \<Rightarrow> real \<Rightarrow> real result" where
  "py_pow b e = (if b = 0 then (if e < 0 then Inl ZeroDivisionError else if e = 0 then Inr 1 else Inr 0)
                 else Inr (b powr e))"

text \<open>\<open>max(lo, min(x, hi))\<close>, the clamp of \<open>color.toBytes\<close>.\<close>

definition clamp :: "real \<Rightarrow> real \<Rightarrow> real \<Rightarrow> real" where
  "clamp lo hi v = max (min v hi) lo"

lemma clamp_bounds: "lo \<le> hi \<Longrightarrow> lo \<le> clamp lo hi v \<and> clamp lo hi v \<le> hi"
  by (auto simp: clamp_def)

lemma clamp_idem [simp]: "lo \<le> hi \<Longrightarrow> clamp lo hi (clamp lo hi v) = clamp lo hi v"
  by (auto simp: clamp_def)

lemma clamp_id: "lo \<le> v \<Longrightarrow> v \<le> hi \<Longrightarrow> clamp lo hi v = v"
  by (auto simp: clamp_def)

lemma py_pow_defined: "0 \<le> e \<Longrightarrow> py_pow b e = Inr (if b = 0 then (if e = 0 then 1 else 0) else b powr e)"
  by (simp add: py_pow_def)

lemma py_pow_zero_neg: "e < 0 \<Longrightarrow> py_pow 0 e = Inl ZeroDivisionError"
  by (simp add: py_pow_def)

lemma py_int_nonneg: "0 \<le> r \<Longrightarrow> py_int r = \<lfloor>r\<rfloor>"
  by (simp add: py_int_def)

lemma py_int_of_int [simp]: "py_int (real_of_int k) = k"
  by (simp add: py_int_def)

lemma py_int_clamp_range:
  "0 \<le> py_int (clamp 0 255 v) \<and> py_int (clamp 0 255 v) \<le> 255"
proof -
  have b: "0 \<le> clamp 0 255 v \<and> clamp 0 255 v \<le> 255" by (rule clamp_bounds) simp
  then have "py_int (clamp 0 255 v) = \<lfloor>clamp 0 255 v\<rfloor>" by (simp add: py_int_nonneg)
  with b show ?thesis by (auto intro: floor_mono [of _ 255, simplified] simp: le_floor_iff)
qed

end
