(* ===== verification/Vec.thy ===== *)
theory Vec
  imports Prelude
begin

text \<open>
  Vector math of \<open>src/lib.py\<close>: the classes \<open>V3\<close> and \<open>V2\<close>, the free functions
  \<open>sum\<close>, \<open>sub\<close>, \<open>mul\<close>, \<open>dot\<close>, \<open>length\<close>, \<open>norm\<close>, \<open>bbox\<close>, \<open>cross\<close>,
  \<open>barycentric\<close>, \<open>multMatriz\<close>, \<open>reflect\<close> and \<open>refract\<close>. Names that clash with
  HOL constants get a \<open>v\<close> prefix (\<open>vsum\<close>, \<open>vlength\<close>, \<open>vnorm\<close>). The lemmas
  show that \<open>norm\<close> returns unit vectors (and the zero vector for zero),
  that \<open>reflect\<close> is an involution up to normalisation, the refraction cases of
  Snell's law, the reconstruction property of \<open>barycentric\<close>, and that
  \<open>multMatriz\<close> computes the matrix product.
\<close>

section \<open>Vectors\<close>

text \<open>\<open>V3(x, y, z)\<close> and \<open>V2(x, y)\<close>; the numpy-matrix branch of the constructors is not modelled.\<close>

datatype V3 = V3 (vx: real) (vy: real) (vz: real)

datatype V2 = V2 (wx: real) (wy: real)

definition vsum :: "V3 \<Rightarrow> V3 \<Rightarrow> V3" where
  "vsum v0 v1 = V3 (vx v0 + vx v1) (vy v0 + vy v1) (vz v0 + vz v1)"

definition sub :: "V3 \<Rightarrow> V3 \<Rightarrow> V3" where
  "sub v0 v1 = V3 (vx v0 - vx v1) (vy v0 - vy v1) (vz v0 - vz v1)"

definition mul :: "V3 \<Rightarrow> real \<Rightarrow> V3" where
  "mul v0 k = V3 (vx v0 * k) (vy v0 * k) (vz v0 * k)"

definition dot :: "V3 \<Rightarrow> V3 \<Rightarrow> real" where
  "dot v0 v1 = vx v0 * vx v1 + vy v0 * vy v1 + vz v0 * vz v1"

text \<open>\<open>(x**2 + y**2 + z**2)**0.5\<close>: the base is never negative, so \<open>**0.5\<close> is \<open>sqrt\<close>.\<close>

definition vlength :: "V3 \<Rightarrow> real" where
  "vlength v0 = sqrt ((vx v0)\<^sup>2 + (vy v0)\<^sup>2 + (vz v0)\<^sup>2)"

definition vnorm :: "V3 \<Rightarrow> V3" where
  "vnorm v0 = (let l = vlength v0 in
     if l = 0 then V3 0 0 0 else V3 (vx v0 / l) (vy v0 / l) (vz v0 / l))"

text \<open>\<open>bbox(*vertices)\<close>: \<open>max\<close> and \<open>min\<close> of an empty sequence raise ValueError.\<close>

definition py_max :: "real list \<Rightarrow> real result" where
  "py_max xs = (case xs of [] \<Rightarrow> Inl ValueError | a # as \<Rightarrow> Inr (fold max as a))"

definition py_min :: "real list \<Rightarrow> real result" where
  "py_min xs = (case xs of [] \<Rightarrow> Inl ValueError | a # as \<Rightarrow> Inr (fold min as a))"

definition bbox :: "V3 list \<Rightarrow> (real \<times> real \<times> real \<times> real) result" where
  "bbox vertices = (let xs = map vx vertices; ys = map vy vertices in
     rbind (py_max xs) (\<lambda>mx. rbind (py_max ys) (\<lambda>my.
     rbind (py_min xs) (\<lambda>nx. rbind (py_min ys) (\<lambda>ny. Inr (mx, my, nx, ny))))))"

definition cross :: "V3 \<Rightarrow> V3 \<Rightarrow> V3" where
  "cross v1 v2 = V3 (vy v1 * vz v2 - vz v1 * vy v2)
                    (vz v1 * vx v2 - vx v1 * vz v2)
                    (vx v1 * vy v2 - vy v1 * vx v2)"

text \<open>
  \<open>barycentric(A, B, C, P)\<close>: \<open>(-1, -1, -1)\<close> when \<open>|bc.z| < 1\<close>, else
  \<open>(w, v, u)\<close>. Only the \<open>x\<close> and \<open>y\<close> coordinates are read.
\<close>

definition barycentric :: "V3 \<Rightarrow> V3 \<Rightarrow> V3 \<Rightarrow> V3 \<Rightarrow> real \<times> real \<times> real" where
  "barycentric A B C P =
    (let bc = cross (V3 (vx B - vx A) (vx C - vx A) (vx A - vx P))
                    (V3 (vy B - vy A) (vy C - vy A) (vy A - vy P))
     in if \<bar>vz bc\<bar> < 1 then (-1, -1, -1)
        else (let u = vx bc / vz bc; v = vy bc / vz bc; w = 1 - (vx bc + vy bc) / vz bc
              in (w, v, u)))"

section \<open>Reflection and refraction\<close>

definition reflect :: "V3 \<Rightarrow> V3 \<Rightarrow> V3" where
  "reflect I N = (let Lm = mul I (-1); n = mul N (2 * dot Lm N) in vnorm (sub Lm n))"

text \<open>
  \<open>refract(I, N, refractive_index)\<close>. \<open>etai/etat\<close> raises ZeroDivisionError when the
  divisor is zero; total internal reflection returns the sentinel \<open>V3(1, 0, 0)\<close>.
\<close>

definition refract :: "V3 \<Rightarrow> V3 \<Rightarrow> real \<Rightarrow> V3 result" where
  "refract I N refractive_index =
    (let cosi0 = - max (-1) (min 1 (dot I N));
         (cosi, etai, etat, N') = (if cosi0 < 0 then (- cosi0, refractive_index, 1, mul N (-1))
                                   else (cosi0, 1, refractive_index, N))
     in if etat = 0 then Inl ZeroDivisionError
        else (let eta = etai / etat; k = 1 - eta\<^sup>2 * (1 - cosi\<^sup>2)
              in if k < 0 then Inr (V3 1 0 0)
                 else Inr (vnorm (vsum (mul I eta) (mul N' (eta * cosi - sqrt k))))))"

section \<open>Matrices\<close>

text \<open>
  \<open>multMatriz(a, b)\<close>: three nested loops over Python lists. Each read \<open>a[i][k]\<close>,
  \<open>b[k][j]\<close> and \<open>b[0]\<close> raises IndexError out of range; \<open>len(b[0])\<close> is read once per
  row of \<open>a\<close> and \<open>len(a[0])\<close> once per column.
\<close>

fun mm_sum :: "real list list \<Rightarrow> real list list \<Rightarrow> nat \<Rightarrow> nat \<Rightarrow> nat list \<Rightarrow> real \<Rightarrow> real result" where
  "mm_sum a b i j [] s = Inr s"
| "mm_sum a b i j (k # ks) s =
     rbind (py_get a (int i)) (\<lambda>ai. rbind (py_get ai (int k)) (\<lambda>aik.
     rbind (py_get b (int k)) (\<lambda>bk. rbind (py_get bk (int j)) (\<lambda>bkj.
     mm_sum a b i j ks (s + aik * bkj)))))"

fun mm_row :: "real list list \<Rightarrow> real list list \<Rightarrow> nat \<Rightarrow> nat list \<Rightarrow> real list \<Rightarrow> real list result" where
  "mm_row a b i [] temp = Inr temp"
| "mm_row a b i (j # js) temp =
     rbind (py_get a 0) (\<lambda>a0. rbind (mm_sum a b i j [0..<length a0] 0) (\<lambda>s.
     mm_row a b i js (temp @ [s])))"

fun mm_rows :: "real list list \<Rightarrow> real list list \<Rightarrow> nat list \<Rightarrow> real list list \<Rightarrow> real list list result" where
  "mm_rows a b [] c = Inr c"
| "mm_rows a b (i # is) c =
     rbind (py_get b 0) (\<lambda>b0. rbind (mm_row a b i [0..<length b0] []) (\<lambda>temp.
     mm_rows a b is (c @ [temp])))"

definition multMatriz :: "real list list \<Rightarrow> real list list \<Rightarrow> real list list result" where
  "multMatriz a b = mm_rows a b [0..<length a] []"

text \<open>The reference: the \<open>m \<times> p\<close> product of an \<open>m \<times> n\<close> and an \<open>n \<times> p\<close> matrix.\<close>

definition mat_product :: "real list list \<Rightarrow> real list list \<Rightarrow> real list list" where
  "mat_product a b = map (\<lambda>i. map (\<lambda>j. sum_list (map (\<lambda>k. a ! i ! k * b ! k ! j) [0..<length (hd a)]))
                                  [0..<length (hd b)]) [0..<length a]"

definition is_matrix :: "nat \<Rightarrow> nat \<Rightarrow> real list list \<Rightarrow> bool" where
  "is_matrix m n a \<longleftrightarrow> length a = m \<and> list_all (\<lambda>r. length r = n) a"

text \<open>Auxiliary, for the proofs: the mirror map \<open>v - 2 (v \<cdot> N) N\<close> inside \<open>reflect\<close>.\<close>

definition householder :: "V3 \<Rightarrow> V3 \<Rightarrow> V3" where
  "householder v N = sub v (mul N (2 * dot v N))"

section \<open>Lemmas\<close>


lemma V3_eq_iff: "(v = w) \<longleftrightarrow> vx v = vx w \<and> vy v = vy w \<and> vz v = vz w"
  by (cases v; cases w) auto

lemma vlength_nonneg: "0 \<le> vlength v"
  by (simp add: vlength_def)

lemma vlength_sq: "(vlength v)\<^sup>2 = (vx v)\<^sup>2 + (vy v)\<^sup>2 + (vz v)\<^sup>2"
  by (simp add: vlength_def)

lemma vlength_eq_0_iff: "vlength v = 0 \<longleftrightarrow> v = V3 0 0 0"
  by (cases v) (simp add: vlength_def add_nonneg_eq_0_iff)

lemma vnorm_eq_mul: "v \<noteq> V3 0 0 0 \<Longrightarrow> vnorm v = mul v (1 / vlength v)"
  by (simp add: vnorm_def mul_def vlength_eq_0_iff Let_def)

lemma vlength_mul: "vlength (mul v c) = \<bar>c\<bar> * vlength v"
proof -
  have "(vx v * c)\<^sup>2 + (vy v * c)\<^sup>2 + (vz v * c)\<^sup>2 = c\<^sup>2 * ((vx v)\<^sup>2 + (vy v)\<^sup>2 + (vz v)\<^sup>2)"
    by (simp add: power_mult_distrib algebra_simps)
  then show ?thesis by (simp add: vlength_def mul_def real_sqrt_mult)
qed

lemma vlength_vnorm: "v \<noteq> V3 0 0 0 \<Longrightarrow> vlength (vnorm v) = 1"
proof -
  assume v: "v \<noteq> V3 0 0 0"
  then have "0 < vlength v" using vlength_nonneg [of v] vlength_eq_0_iff [of v] by linarith
  with v show ?thesis by (simp add: vnorm_eq_mul vlength_mul)
qed

lemma vnorm_zero: "vnorm (V3 0 0 0) = V3 0 0 0"
  by (simp add: vnorm_def vlength_def)

lemma mul_mul: "mul (mul v a) b = mul v (a * b)"
  by (simp add: mul_def mult.assoc)

lemma mul_eq_zero_iff: "mul v c = V3 0 0 0 \<longleftrightarrow> c = 0 \<or> v = V3 0 0 0"
  by (cases v) (auto simp: mul_def)

lemma vnorm_mul_pos: "0 < c \<Longrightarrow> vnorm (mul v c) = vnorm v"
proof (cases "v = V3 0 0 0")
  case True
  then show ?thesis by (simp add: mul_def)
next
  case False
  assume c: "0 < c"
  with False have "mul v c \<noteq> V3 0 0 0" by (simp add: mul_eq_zero_iff)
  with False c show ?thesis
    by (simp add: vnorm_eq_mul vlength_mul mul_mul)
qed


lemma reflect_householder: "reflect I N = vnorm (householder (mul I (-1)) N)"
  by (simp add: reflect_def householder_def Let_def)

lemma householder_mul: "householder (mul v c) N = mul (householder v N) c"
  by (simp add: householder_def mul_def sub_def dot_def algebra_simps)

lemma dot_self: "dot N N = (vlength N)\<^sup>2"
  using vlength_sq [of N] by (simp add: dot_def power2_eq_square)

lemma dot_householder: "dot (householder v N) N = dot v N - 2 * dot v N * dot N N"
  by (simp add: householder_def sub_def mul_def dot_def algebra_simps)

lemma householder_twice: "vlength N = 1 \<Longrightarrow> householder (householder v N) N = v"
proof -
  assume "vlength N = 1"
  then have "dot N N = 1" by (simp add: dot_self)
  then have "dot (householder v N) N = - dot v N" by (simp add: dot_householder)
  then show ?thesis
    by (simp add: householder_def [of "householder v N"]) (simp add: householder_def sub_def mul_def)
qed

lemma vlength_householder: "vlength N = 1 \<Longrightarrow> vlength (householder v N) = vlength v"
proof -
  assume "vlength N = 1"
  then have n: "dot N N = 1" by (simp add: dot_self)
  have "(vlength (householder v N))\<^sup>2 = dot (householder v N) (householder v N)"
    by (simp add: dot_self)
  also have "\<dots> = dot v v - 4 * (dot v N)\<^sup>2 + 4 * (dot v N)\<^sup>2 * dot N N"
    by (simp add: householder_def sub_def mul_def dot_def power2_eq_square algebra_simps)
  also have "\<dots> = (vlength v)\<^sup>2" using n by (simp add: dot_self)
  finally show ?thesis using vlength_nonneg [of v] vlength_nonneg [of "householder v N"]
    by (simp add: power2_eq_iff_nonneg)
qed

lemma householder_zero: "householder (V3 0 0 0) N = V3 0 0 0"
  by (simp add: householder_def sub_def mul_def dot_def)

text \<open>C10: Reflecting twice about the same unit normal gives back the normalised original direction: reflect is an involution on directions.\<close>

theorem reflect_reflect: "vlength N = 1 \<Longrightarrow> reflect (reflect I N) N = vnorm I"
proof (cases "I = V3 0 0 0")
  case True
  then show ?thesis by (simp add: reflect_householder mul_def householder_zero vnorm_zero)
next
  case False
  assume N: "vlength N = 1"
  define h where "h = householder (mul I (-1)) N"
  have lh: "vlength h = vlength I" using N by (simp add: h_def vlength_householder vlength_mul)
  with False have pos: "0 < vlength h"
    using vlength_nonneg [of I] vlength_eq_0_iff [of I] by linarith
  then have "h \<noteq> V3 0 0 0" using vlength_eq_0_iff [of h] by auto
  then have "reflect I N = mul h (1 / vlength I)"
    by (simp add: reflect_householder vnorm_eq_mul lh flip: h_def)
  then have "reflect (reflect I N) N = vnorm (mul (householder h N) (- (1 / vlength I)))"
    by (simp add: reflect_householder mul_mul householder_mul)
  also have "householder h N = mul I (-1)" using N by (simp add: h_def householder_twice)
  also have "vnorm (mul (mul I (-1)) (- (1 / vlength I))) = vnorm I"
    using pos lh by (simp add: mul_mul vnorm_mul_pos)
  finally show ?thesis .
qed

theorem reflect_reflect_witness:
  "vlength (V3 0 0 1) = 1 \<and> reflect (reflect (V3 0 0 2) (V3 0 0 1)) (V3 0 0 1) = vnorm (V3 0 0 2)"
proof -
  have n: "vlength (V3 0 0 1) = 1" by (simp add: vlength_def)
  show ?thesis using n reflect_reflect [OF n, of "V3 0 0 2"] by simp
qed

text \<open>C13: With refractive index 1 the ray is not bent: refract returns the normalised incoming direction, from either side of the surface.\<close>

theorem refract_index_one: "refract I N 1 = Inr (vnorm I)"
proof -
  have m: "vsum (mul I 1) (mul M 0) = I" for M
    by (cases I) (simp add: vsum_def mul_def)
  show ?thesis
    by (auto simp: refract_def Let_def m abs_if max_def min_def)
qed

text \<open>C11: Snell refraction from outside into a medium at least as dense (refractive index at least 1, ray against the normal) never hits the total-internal-reflection sentinel nor raises: it returns the normalised refracted direction eta*I + (eta*cosi - sqrt k)*N with eta = 1/n.\<close>

theorem refract_entering:
  "1 \<le> n \<Longrightarrow> dot I N \<le> 0 \<Longrightarrow>
   refract I N n = (let c = min 1 (- dot I N)
     in Inr (vnorm (vsum (mul I (1 / n)) (mul N (1 / n * c - sqrt (1 - (1 / n)\<^sup>2 * (1 - c\<^sup>2)))))))"
proof -
  assume n: "1 \<le> n" and d: "dot I N \<le> 0"
  define c where "c = min 1 (- dot I N)"
  have c: "0 \<le> c" "c \<le> 1" using d by (auto simp: c_def)
  have cos: "- max (-1) (min 1 (dot I N)) = c" using d by (simp add: c_def max_def min_def)
  have "(1 / n)\<^sup>2 \<le> 1" using n by (simp add: power_le_one)
  moreover have "0 \<le> 1 - c\<^sup>2" "1 - c\<^sup>2 \<le> 1" using c by (simp_all add: power_le_one abs_square_le_1)
  ultimately have "(1 / n)\<^sup>2 * (1 - c\<^sup>2) \<le> 1" by (simp add: mult_le_one)
  then have k: "\<not> 1 - (1 / n)\<^sup>2 * (1 - c\<^sup>2) < 0" by simp
  have "n \<noteq> 0" using n by simp
  with c k show ?thesis by (simp add: refract_def cos Let_def flip: c_def)
qed

theorem refract_entering_witness:
  "1 \<le> (2::real) \<and> dot (V3 0 0 (-1)) (V3 0 0 1) \<le> 0 \<and>
   refract (V3 0 0 (-1)) (V3 0 0 1) 2 =
     (let c = min 1 (- dot (V3 0 0 (-1)) (V3 0 0 1))
      in Inr (vnorm (vsum (mul (V3 0 0 (-1)) (1 / 2)) (mul (V3 0 0 1) (1 / 2 * c - sqrt (1 - (1 / 2)\<^sup>2 * (1 - c\<^sup>2)))))))"
proof -
  have h: "1 \<le> (2::real)" "dot (V3 0 0 (-1)) (V3 0 0 1) \<le> 0" by (simp_all add: dot_def)
  show ?thesis using h refract_entering [OF h] by simp
qed

text \<open>C12: Leaving a denser medium (ray along the normal) at an angle where k = 1 - n^2 (1 - cos^2) < 0, refract returns the sentinel direction V3(1, 0, 0) instead of signalling total internal reflection.\<close>

theorem refract_total_internal:
  assumes "0 < dot I N" and "1 - n\<^sup>2 * (1 - (min 1 (dot I N))\<^sup>2) < 0"
  shows "refract I N n = Inr (V3 1 0 0)"
proof -
  have "n \<noteq> 0" using assms(2) by auto
  with assms show ?thesis by (simp add: refract_def Let_def max_def min_def)
qed

theorem refract_total_internal_witness:
  "0 < dot (V3 0.8 0 0.6) (V3 0 0 1) \<and> 1 - 2\<^sup>2 * (1 - (min 1 (dot (V3 0.8 0 0.6) (V3 0 0 1)))\<^sup>2) < 0 \<and>
   refract (V3 0.8 0 0.6) (V3 0 0 1) 2 = Inr (V3 1 0 0)"
proof -
  have h: "0 < dot (V3 0.8 0 0.6) (V3 0 0 1)"
    "1 - 2\<^sup>2 * (1 - (min 1 (dot (V3 0.8 0 0.6) (V3 0 0 1)))\<^sup>2) < (0::real)"
    by (simp_all add: dot_def power2_eq_square)
  show ?thesis using h refract_total_internal [OF h] by simp
qed

lemma refract_defined: "ri \<noteq> 0 \<Longrightarrow> \<exists>v. refract I N ri = Inr v"
  by (simp add: refract_def Let_def split: prod.splits)

text \<open>C14: A refractive index of 0 makes etai/etat divide by zero for a ray arriving against the normal: refract raises ZeroDivisionError.\<close>

theorem refract_zero_index: "dot I N \<le> 0 \<Longrightarrow> refract I N 0 = Inl ZeroDivisionError"
  by (simp add: refract_def Let_def max_def min_def)

theorem refract_zero_index_witness:
  "dot (V3 0 0 (-1)) (V3 0 0 1) \<le> 0 \<and> refract (V3 0 0 (-1)) (V3 0 0 1) 0 = Inl ZeroDivisionError"
proof -
  have h: "dot (V3 0 0 (-1)) (V3 0 0 1) \<le> 0" by (simp add: dot_def)
  show ?thesis using h refract_zero_index [OF h] by simp
qed

text \<open>C16: For a degenerate or near-degenerate triangle (doubled signed area below 1 in absolute value) barycentric returns the sentinel (-1, -1, -1).\<close>

theorem barycentric_degenerate:
  "\<bar>(vx B - vx A) * (vy C - vy A) - (vx C - vx A) * (vy B - vy A)\<bar> < 1 \<Longrightarrow>
   barycentric A B C P = (-1, -1, -1)"
  by (simp add: barycentric_def cross_def)

theorem barycentric_degenerate_witness:
  "\<bar>(vx (V3 1 1 0) - vx (V3 0 0 0)) * (vy (V3 2 2 0) - vy (V3 0 0 0)) -
     (vx (V3 2 2 0) - vx (V3 0 0 0)) * (vy (V3 1 1 0) - vy (V3 0 0 0))\<bar> < 1 \<and>
   barycentric (V3 0 0 0) (V3 1 1 0) (V3 2 2 0) (V3 5 5 0) = (-1, -1, -1)"
proof -
  have h: "\<bar>(vx (V3 1 1 0) - vx (V3 0 0 0)) * (vy (V3 2 2 0) - vy (V3 0 0 0)) -
     (vx (V3 2 2 0) - vx (V3 0 0 0)) * (vy (V3 1 1 0) - vy (V3 0 0 0))\<bar> < (1::real)" by simp
  show ?thesis using h barycentric_degenerate [OF h, of "V3 5 5 0"] by simp
qed

text \<open>C15: For a triangle whose doubled signed area is at least 1 in absolute value, barycentric returns (w, v, u) with w + v + u = 1 and P = w*A + u*B + v*C in x and y: the first weight belongs to A, the third to B and the second to C.\<close>

theorem barycentric_weights:
  assumes "1 \<le> \<bar>(vx B - vx A) * (vy C - vy A) - (vx C - vx A) * (vy B - vy A)\<bar>"
  shows "case barycentric A B C P of (w, v, u) \<Rightarrow>
           w + v + u = 1 \<and> vx P = w * vx A + u * vx B + v * vx C \<and>
           vy P = w * vy A + u * vy B + v * vy C"
proof -
  define d where "d = (vx B - vx A) * (vy C - vy A) - (vx C - vx A) * (vy B - vy A)"
  define X where "X = (vx C - vx A) * (vy A - vy P) - (vx A - vx P) * (vy C - vy A)"
  define Y where "Y = (vx A - vx P) * (vy B - vy A) - (vx B - vx A) * (vy A - vy P)"
  have d0: "d \<noteq> 0" and nd: "\<not> \<bar>d\<bar> < 1" using assms by (auto simp: d_def)
  have ex: "d * (vx P - vx A) = X * (vx B - vx A) + Y * (vx C - vx A)"
    by (simp add: d_def X_def Y_def algebra_simps)
  have ey: "d * (vy P - vy A) = X * (vy B - vy A) + Y * (vy C - vy A)"
    by (simp add: d_def X_def Y_def algebra_simps)
  have px: "vx P = (1 - (X + Y) / d) * vx A + X / d * vx B + Y / d * vx C"
    using d0 ex by (simp add: field_simps)
  have py: "vy P = (1 - (X + Y) / d) * vy A + X / d * vy B + Y / d * vy C"
    using d0 ey by (simp add: field_simps)
  have b: "barycentric A B C P = (1 - (X + Y) / d, Y / d, X / d)"
    using nd unfolding barycentric_def cross_def Let_def d_def X_def Y_def by simp
  show ?thesis
    by (simp only: b prod.case) (intro conjI px py, simp add: add_divide_distrib)
qed

theorem barycentric_weights_witness:
  "1 \<le> \<bar>(vx (V3 2 0 0) - vx (V3 0 0 0)) * (vy (V3 0 2 0) - vy (V3 0 0 0)) -
        (vx (V3 0 2 0) - vx (V3 0 0 0)) * (vy (V3 2 0 0) - vy (V3 0 0 0))\<bar> \<and>
   barycentric (V3 0 0 0) (V3 2 0 0) (V3 0 2 0) (V3 1 1 0) = (0, 1 / 2, 1 / 2) \<and>
   (case barycentric (V3 0 0 0) (V3 2 0 0) (V3 0 2 0) (V3 1 1 0) of (w, v, u) \<Rightarrow>
      w + v + u = 1 \<and> vx (V3 1 1 0) = w * vx (V3 0 0 0) + u * vx (V3 2 0 0) + v * vx (V3 0 2 0) \<and>
      vy (V3 1 1 0) = w * vy (V3 0 0 0) + u * vy (V3 2 0 0) + v * vy (V3 0 2 0))"
proof -
  have h: "1 \<le> \<bar>(vx (V3 2 0 0) - vx (V3 0 0 0)) * (vy (V3 0 2 0) - vy (V3 0 0 0)) -
        (vx (V3 0 2 0) - vx (V3 0 0 0)) * (vy (V3 2 0 0) - vy (V3 0 0 0))\<bar>" by simp
  have b: "barycentric (V3 0 0 0) (V3 2 0 0) (V3 0 2 0) (V3 1 1 0) = (0, 1 / 2, 1 / 2)"
    by (simp add: barycentric_def cross_def)
  show ?thesis using h b barycentric_weights [OF h, of "V3 1 1 0"] by blast
qed

lemma mm_sum_ok:
  "i < length a \<Longrightarrow> \<forall>k\<in>set ks. k < length (a ! i) \<and> k < length b \<and> j < length (b ! k) \<Longrightarrow>
   mm_sum a b i j ks s = Inr (s + sum_list (map (\<lambda>k. a ! i ! k * b ! k ! j) ks))"
  by (induction ks arbitrary: s) (auto simp: algebra_simps)

lemma mm_row_ok:
  "a \<noteq> [] \<Longrightarrow> i < length a \<Longrightarrow>
   \<forall>j\<in>set js. \<forall>k<length (a ! 0). k < length (a ! i) \<and> k < length b \<and> j < length (b ! k) \<Longrightarrow>
   mm_row a b i js temp =
     Inr (temp @ map (\<lambda>j. sum_list (map (\<lambda>k. a ! i ! k * b ! k ! j) [0..<length (a ! 0)])) js)"
  by (induction js arbitrary: temp) (auto simp: mm_sum_ok)

lemma mm_rows_ok:
  "b \<noteq> [] \<Longrightarrow> \<forall>i\<in>set is. i < length a \<Longrightarrow>
   \<forall>i\<in>set is. \<forall>j<length (b ! 0). \<forall>k<length (a ! 0). k < length (a ! i) \<and> k < length b \<and> j < length (b ! k) \<Longrightarrow>
   mm_rows a b is c = Inr (c @ map (\<lambda>i. map (\<lambda>j. sum_list (map (\<lambda>k. a ! i ! k * b ! k ! j)
                           [0..<length (a ! 0)])) [0..<length (b ! 0)]) is)"
proof (induction "is" arbitrary: c)
  case Nil
  then show ?case by simp
next
  case (Cons i "is")
  then have "a \<noteq> []" by auto
  with Cons show ?case by (simp add: mm_row_ok)
qed

lemma is_matrix_nth: "is_matrix m n a \<Longrightarrow> i < m \<Longrightarrow> length (a ! i) = n"
  by (simp add: is_matrix_def list_all_length)

text \<open>C17: multMatriz, three nested loops over Python lists, computes the matrix product of an m x n and an n x p matrix (n > 0) and raises nothing.\<close>

theorem multMatriz_product:
  assumes a: "is_matrix m n a" and b: "is_matrix n p b" and n: "0 < n"
  shows "multMatriz a b = Inr (mat_product a b)"
proof (cases "a = []")
  case True
  then show ?thesis by (simp add: multMatriz_def mat_product_def)
next
  case False
  have bne: "b \<noteq> []" using b n by (auto simp: is_matrix_def)
  have ra: "\<forall>i<length a. length (a ! i) = n" and rb: "\<forall>k<length b. length (b ! k) = p"
    and lb: "length b = n" using a b by (auto simp: is_matrix_def list_all_length)
  then have a0: "length (a ! 0) = n" and b0: "length (b ! 0) = p" using False bne by auto
  have "mm_rows a b [0..<length a] [] = Inr (map (\<lambda>i. map (\<lambda>j. sum_list (map (\<lambda>k. a ! i ! k * b ! k ! j)
                           [0..<length (a ! 0)])) [0..<length (b ! 0)]) [0..<length a])"
    using bne ra rb lb a0 b0 by (subst mm_rows_ok) auto
  then show ?thesis using False bne by (simp add: multMatriz_def mat_product_def hd_conv_nth)
qed

theorem multMatriz_product_witness:
  "is_matrix 1 2 [[1, 2]] \<and> is_matrix 2 1 [[3], [4]] \<and> (0::nat) < 2 \<and>
   multMatriz [[1, 2]] [[3], [4]] = Inr (mat_product [[1, 2]] [[3], [4]]) \<and>
   mat_product [[1, 2]] [[3], [4]] = [[11]]"
proof -
  have h: "is_matrix 1 2 [[1, 2]]" "is_matrix 2 1 [[3], [4]]" by (simp_all add: is_matrix_def)
  have p: "mat_product [[1, 2]] [[3], [4]] = [[11]]" by (simp add: mat_product_def upt_rec)
  show ?thesis using h p multMatriz_product [OF h] by simp
qed

text \<open>Multiplying a nonempty matrix by the empty list raises IndexError at \<open>len(b[0])\<close>.\<close>

theorem multMatriz_empty_right: "a \<noteq> [] \<Longrightarrow> multMatriz a [] = Inl IndexError"
  by (simp add: multMatriz_def upt_conv_Cons del: upt_Suc)

theorem multMatriz_empty_right_witness: "[[1]] \<noteq> [] \<and> multMatriz [[1]] [] = Inl IndexError"
  using multMatriz_empty_right [of "[[1]]"] by simp

text \<open>C9: norm returns a vector of length exactly 1 for every nonzero vector (and the zero vector for the zero vector, vnorm_zero).\<close>

theorem vnorm_unit: "v \<noteq> V3 0 0 0 \<Longrightarrow> vlength (vnorm v) = 1"
  by (rule vlength_vnorm)

theorem vnorm_unit_witness: "V3 0 0 2 \<noteq> V3 0 0 0 \<and> vlength (vnorm (V3 0 0 2)) = 1"
  using vnorm_unit [of "V3 0 0 2"] by simp

lemma py_max_Max: "xs \<noteq> [] \<Longrightarrow> py_max xs = Inr (Max (set xs))"
proof (cases xs)
  case (Cons a as)
  then show ?thesis using Max.set_eq_fold [of a as] by (simp add: py_max_def)
qed simp

lemma py_min_Min: "xs \<noteq> [] \<Longrightarrow> py_min xs = Inr (Min (set xs))"
proof (cases xs)
  case (Cons a as)
  then show ?thesis using Min.set_eq_fold [of a as] by (simp add: py_min_def)
qed simp

text \<open>C40: bbox(*vertices) returns (max x, max y, min x, min y) over the vertices, the corners of their axis-aligned bounding rectangle, and raises ValueError when called with no vertices.\<close>

theorem bbox_spec:
  "bbox vs = (if vs = [] then Inl ValueError
              else Inr (Max (vx ` set vs), Max (vy ` set vs), Min (vx ` set vs), Min (vy ` set vs)))"
proof (cases vs)
  case Nil
  then show ?thesis by (simp add: bbox_def py_max_def)
next
  case (Cons v vs')
  then show ?thesis by (simp add: bbox_def Let_def py_max_Max py_min_Min del: list.map)
qed

end
