(* ===== verification/Color.thy ===== *)
theory Color
  imports Prelude
begin

text \<open>
  The class \<open>color\<close> of \<open>src/lib.py\<close> and the color constants of \<open>src/ray.py\<close>.
  Channels are unbounded reals during arithmetic; \<open>toBytes\<close> clamps each to
  \<open>[0, 255]\<close>, truncates it with \<open>int()\<close>, writes the result back into the object
  and returns the bytes \<open>(b, g, r)\<close>. \<open>__eq__\<close> compares all three channels of
  \<open>self\<close> with the red channel of \<open>other\<close>; the lemmas show where that matters.
  The earlier module-level function \<open>color(r, g, b)\<close> (lines 129--130) is shadowed by
  the class at line 132 and is never called.
\<close>

section \<open>Colors\<close>

datatype color = color (cr: real) (cg: real) (cb: real)

definition color_add :: "color \<Rightarrow> color \<Rightarrow> color" where
  "color_add c other = color (cr c + cr other) (cg c + cg other) (cb c + cb other)"

text \<open>\<open>__mul__\<close>: scaling by a number.\<close>

definition color_mul :: "color \<Rightarrow> real \<Rightarrow> color" where
  "color_mul c k = color (cr c * k) (cg c * k) (cb c * k)"

text \<open>\<open>__rmul__ = __mul__\<close>: \<open>k * c\<close> calls \<open>c.__mul__(k)\<close>, which commutes.\<close>

definition color_rmul :: "real \<Rightarrow> color \<Rightarrow> color" where
  "color_rmul k c = color_mul c k"

text \<open>\<open>__truediv__\<close>; division by zero raises.\<close>

definition color_div :: "color \<Rightarrow> real \<Rightarrow> color result" where
  "color_div c k = (if k = 0 then Inl ZeroDivisionError else Inr (color (cr c / k) (cg c / k) (cb c / k)))"

text \<open>
  \<open>__rtruediv__ = __truediv__\<close>: \<open>k / c\<close> calls \<open>c.__truediv__(k)\<close>, so it
  computes \<open>c / k\<close>.
\<close>

definition color_rdiv :: "real \<Rightarrow> color \<Rightarrow> color result" where
  "color_rdiv k c = color_div c k"

text \<open>
  The module-level function \<open>color(r, g, b)\<close> of line 129, \<open>bytes([b, g, r])\<close>: a value
  outside \<open>[0, 255]\<close> raises ValueError. The class defined right after it rebinds the
  name, so no caller can reach it; \<open>toBytes\<close> builds its result the same way.
\<close>

definition color_fn :: "int \<Rightarrow> int \<Rightarrow> int \<Rightarrow> 8 word list result" where
  "color_fn r g b = (if list_all (\<lambda>v. 0 \<le> v \<and> v < 256) [b, g, r]
                     then Inr [word_of_int b, word_of_int g, word_of_int r] else Inl ValueError)"

text \<open>
  \<open>toBytes\<close>: the returned bytes and the object as mutated by the call.
  The clamped channels are integers in \<open>[0, 255]\<close>, so \<open>bytes([...])\<close> never raises.
\<close>

definition toBytes :: "color \<Rightarrow> 8 word list \<times> color" where
  "toBytes c = (let r = py_int (clamp 0 255 (cr c));
                    g = py_int (clamp 0 255 (cg c));
                    b = py_int (clamp 0 255 (cb c))
                in ([word_of_int b, word_of_int g, word_of_int r],
                    color (of_int r) (of_int g) (of_int b)))"

text \<open>
  \<open>__eq__\<close>: \<open>other\<close> is \<open>None\<close> or an object of another class gives False;
  otherwise \<open>(self.r, self.g, self.b) == (other.r, other.r, other.r)\<close>.
  Python 3's default \<open>__ne__\<close> negates it.
\<close>

definition color_eq :: "color \<Rightarrow> color option \<Rightarrow> bool" where
  "color_eq c other = (case other of None \<Rightarrow> False
                        | Some other_c \<Rightarrow> cr c = cr other_c \<and> cg c = cr other_c \<and> cb c = cr other_c)"

definition color_ne :: "color \<Rightarrow> color option \<Rightarrow> bool" where
  "color_ne c other = (\<not> color_eq c other)"

text \<open>Module constants of \<open>ray.py\<close>.\<close>

definition BLACK :: color where "BLACK = color 0 0 0"
definition WHITE :: color where "WHITE = color 255 255 255"
definition BACKGROUND :: color where "BACKGROUND = color 200 200 190"

text \<open>A color whose channels are Python ints in [0, 255], the form toBytes leaves an object in.\<close>

definition byte_channel :: "real \<Rightarrow> bool" where
  "byte_channel v \<longleftrightarrow> v = of_int \<lfloor>v\<rfloor> \<and> 0 \<le> v \<and> v \<le> 255"

definition is_byte_color :: "color \<Rightarrow> bool" where
  "is_byte_color c \<longleftrightarrow> byte_channel (cr c) \<and> byte_channel (cg c) \<and> byte_channel (cb c)"

section \<open>Lemmas\<close>

lemma toBytes_int_channel:
  "0 \<le> py_int (clamp 0 255 v) \<and> py_int (clamp 0 255 v) < 256"
  using py_int_clamp_range [of v] by simp

text \<open>
  The bytes \<open>toBytes\<close> returns are \<open>bytes([b, g, r])\<close> of the clamped channels, and that
  call cannot raise: its ValueError branch is unreachable from \<open>toBytes\<close>.
\<close>

lemma toBytes_color_fn:
  "color_fn (py_int (clamp 0 255 (cr c))) (py_int (clamp 0 255 (cg c))) (py_int (clamp 0 255 (cb c))) =
   Inr (fst (toBytes c))"
  using toBytes_int_channel [of "cr c"] toBytes_int_channel [of "cg c"] toBytes_int_channel [of "cb c"]
  by (simp add: color_fn_def toBytes_def Let_def)

lemma color_fn_out_of_range: "\<not> (0 \<le> v \<and> v < 256) \<Longrightarrow> color_fn v g b = Inl ValueError"
  by (simp add: color_fn_def)

lemma uint_word_of_int_byte: "0 \<le> k \<Longrightarrow> k < 256 \<Longrightarrow> uint (word_of_int k :: 8 word) = k"
  by (simp add: uint_word_of_int_eq take_bit_int_eq_self)

lemmas toBytes_byte_simps = uint_word_of_int_byte [OF conjunct1 [OF toBytes_int_channel]
                                                      conjunct2 [OF toBytes_int_channel]]

text \<open>The bytes are the clamped, truncated channels, blue first, with no wrap-around.\<close>

text \<open>C19: toBytes returns the bytes (b, g, r), each the channel clamped to [0, 255] and truncated by int(), so every byte is the clamped value itself, with no wrap-around.\<close>

theorem toBytes_bytes:
  "map uint (fst (toBytes c)) =
     [py_int (clamp 0 255 (cb c)), py_int (clamp 0 255 (cg c)), py_int (clamp 0 255 (cr c))]"
  by (simp add: toBytes_def Let_def toBytes_byte_simps)

lemma toBytes_range: "\<forall>byte \<in> set (fst (toBytes c)). 0 \<le> uint byte \<and> uint byte \<le> 255"
  using py_int_clamp_range by (simp add: toBytes_def Let_def toBytes_byte_simps)

lemma clamp_of_py_int: "clamp 0 255 (of_int (py_int (clamp 0 255 v))) = of_int (py_int (clamp 0 255 v))"
  using py_int_clamp_range [of v] by (intro clamp_id) simp_all

text \<open>
  Serialising a color twice gives the same bytes and the same object: the write-back
  of \<open>toBytes\<close> is idempotent, so a color object shared by several pixels (as
  \<open>glClear\<close> shares \<open>background_color\<close>) is written identically each time.
\<close>

lemma toBytes_snd: "toBytes (snd (toBytes c)) = toBytes c"
  by (simp add: toBytes_def Let_def clamp_of_py_int)

lemma byte_channel_of_int: "0 \<le> k \<Longrightarrow> k \<le> 255 \<Longrightarrow> byte_channel (of_int k)"
  by (simp add: byte_channel_def)

lemma toBytes_byte_color: "is_byte_color (snd (toBytes c))"
  using py_int_clamp_range [of "cr c"] py_int_clamp_range [of "cg c"] py_int_clamp_range [of "cb c"]
  by (simp add: is_byte_color_def toBytes_def Let_def byte_channel_of_int)

text \<open>C20: Serialising a color mutates it to its clamped integer channels; serialising it again gives the same bytes and the same object, so a color shared by several pixels is written identically every time.\<close>

theorem toBytes_idem: "toBytes (snd (toBytes c)) = toBytes c"
  by (rule toBytes_snd)

lemma color_eq_iff_red:
  "color_eq c (Some d) \<longleftrightarrow> cr c = cr d \<and> cg c = cr d \<and> cb c = cr d"
  by (simp add: color_eq_def)

text \<open>Against a grey color (all channels equal, \<open>BLACK\<close> among them) \<open>__eq__\<close> is equality.\<close>

lemma color_eq_grey: "cg d = cr d \<Longrightarrow> cb d = cr d \<Longrightarrow> color_eq c (Some d) \<longleftrightarrow> c = d"
  by (cases c; cases d) (auto simp: color_eq_def)

text \<open>C22: Comparing with BLACK (the renderer background) the faulty __eq__ is still exact equality, so the tinting test of render is not affected by the bug.\<close>

theorem color_eq_BLACK: "color_eq c (Some BLACK) \<longleftrightarrow> c = BLACK"
  by (rule color_eq_grey) (simp_all add: BLACK_def)

text \<open>C21: color.__eq__ compares the three channels of self with the red channel of other, so a color equals itself exactly when it is grey (green and blue equal to red): the comparison is not reflexive, BACKGROUND == BACKGROUND being False among others.\<close>

theorem color_eq_refl_iff_grey: "color_eq c (Some c) \<longleftrightarrow> cg c = cr c \<and> cb c = cr c"
  by (auto simp: color_eq_iff_red)

theorem color_rdiv_swapped: "color_rdiv 2 (color 4 4 4) = Inr (color 2 2 2)"
  by (simp add: color_rdiv_def color_div_def)

end
