(* ===== verification/Scene.thy ===== *)
theory Scene
  imports Vec Color
begin

text \<open>
  The scene data of \<open>src/lib.py\<close> and \<open>src/ray.py\<close> (\<open>Light\<close>, \<open>Intersect\<close>,
  \<open>Material\<close>), the intersection protocol every scene object satisfies, the sphere
  (its module \<open>sphere.py\<close> is imported by \<open>ray.py\<close> but is not part of the sources,
  so it is modelled from the spec), and \<open>Raycaster.scene_intersect\<close>, the linear scan
  for the nearest hit. The scan is shown to refine an abstract specification: the first
  hit, in scene order, whose distance is not larger than any other hit's.
\<close>

section \<open>Scene data\<close>

record light =
  position :: V3
  intensity :: real

text \<open>\<open>Light(position=V3(0, 0, 0), intensity=1)\<close>.\<close>

definition Light :: "V3 \<Rightarrow> real \<Rightarrow> light" where
  "Light p i = \<lparr>position = p, intensity = i\<rparr>"

record intersect =
  distance :: real
  point :: V3
  normal :: V3

text \<open>
  \<open>Material(diffuse, albedo, spec)\<close>. The constructor sets no \<open>refractive_index\<close>;
  the attribute exists only if assigned later, so it is an option here.
\<close>

record material =
  diffuse :: color
  albedo :: "real \<times> real \<times> real \<times> real"
  spec :: real
  refractive_index :: "real option"

definition Material :: "color \<Rightarrow> real \<times> real \<times> real \<times> real \<Rightarrow> real \<Rightarrow> material" where
  "Material d a s = \<lparr>diffuse = d, albedo = a, spec = s, refractive_index = None\<rparr>"

text \<open>\<open>esferas\<close>, the material of the scene built in \<open>ray.py\<close>.\<close>

definition esferas :: material where
  "esferas = Material (color 255 0 0) (0.6, 0.3, 0.1, 0) 5"

section \<open>The intersection protocol\<close>

text \<open>
  What the renderer needs from a scene object: \<open>obj.ray_intersect(orig, direction)\<close>
  returning a hit or \<open>None\<close>, and \<open>obj.material\<close>. The renderer's theorems are
  stated over any \<open>'o obj_iface\<close>.
\<close>

record 'o obj_iface =
  ray_intersect :: "'o \<Rightarrow> V3 \<Rightarrow> V3 \<Rightarrow> intersect option"
  obj_material :: "'o \<Rightarrow> material"

subsection \<open>The sphere (from the spec)\<close>

record sphere =
  center :: V3
  radius :: real
  sphere_material :: material

definition sphere_ray_intersect :: "sphere \<Rightarrow> V3 \<Rightarrow> V3 \<Rightarrow> intersect option" where
  "sphere_ray_intersect s orig direction =
    (let L = sub (center s) orig; tca = dot L direction; l = vlength L;
         d2 = l\<^sup>2 - tca\<^sup>2
     in if (radius s)\<^sup>2 < d2 then None
        else (let thc = sqrt ((radius s)\<^sup>2 - d2); t0 = tca - thc; t1 = tca + thc;
                  t = (if t0 < 0 then t1 else t0)
              in if t < 0 then None
                 else (let hit = vsum orig (mul direction t)
                       in Some \<lparr>distance = t, point = hit, normal = vnorm (sub hit (center s))\<rparr>)))"

text \<open>\<open>Sphere(center, radius, material)\<close>.\<close>

definition Sphere :: "V3 \<Rightarrow> real \<Rightarrow> material \<Rightarrow> sphere" where
  "Sphere c r m = \<lparr>center = c, radius = r, sphere_material = m\<rparr>"

definition sphere_iface :: "sphere obj_iface" where
  "sphere_iface = \<lparr>ray_intersect = sphere_ray_intersect, obj_material = sphere_material\<rparr>"

section \<open>Nearest hit\<close>

text \<open>
  \<open>scene_intersect\<close>: \<open>zbuffer\<close> starts at \<open>float('inf')\<close> (here \<open>None\<close>) and
  each hit strictly closer than it replaces \<open>(zbuffer, material, intersect)\<close>.
\<close>

type_synonym scan_state = "real option \<times> material option \<times> intersect option"

definition closer :: "real \<Rightarrow> real option \<Rightarrow> bool" where
  "closer d zb = (case zb of None \<Rightarrow> True | Some z \<Rightarrow> d < z)"

fun scan :: "'o obj_iface \<Rightarrow> 'o list \<Rightarrow> V3 \<Rightarrow> V3 \<Rightarrow> scan_state \<Rightarrow> scan_state" where
  "scan ops [] orig direction st = st"
| "scan ops (obj # objs) orig direction (zbuffer, mat, isect) =
     (case ray_intersect ops obj orig direction of
        None \<Rightarrow> scan ops objs orig direction (zbuffer, mat, isect)
      | Some hit \<Rightarrow>
          if closer (distance hit) zbuffer
          then scan ops objs orig direction (Some (distance hit), Some (obj_material ops obj), Some hit)
          else scan ops objs orig direction (zbuffer, mat, isect))"

definition scene_intersect ::
  "'o obj_iface \<Rightarrow> 'o list \<Rightarrow> V3 \<Rightarrow> V3 \<Rightarrow> material option \<times> intersect option" where
  "scene_intersect ops sc orig direction =
     (case scan ops sc orig direction (None, None, None) of (zbuffer, mat, isect) \<Rightarrow> (mat, isect))"

subsection \<open>The abstract specification\<close>

text \<open>The hits of the scene along a ray, in scene order, each with its object's material.\<close>

definition hits :: "'o obj_iface \<Rightarrow> 'o list \<Rightarrow> V3 \<Rightarrow> V3 \<Rightarrow> (material \<times> intersect) list" where
  "hits ops sc orig direction =
     concat (map (\<lambda>obj. case ray_intersect ops obj orig direction of None \<Rightarrow> []
                         | Some h \<Rightarrow> [(obj_material ops obj, h)]) sc)"

text \<open>The contract: the first hit whose distance is minimal.\<close>

definition first_nearest :: "(material \<times> intersect) list \<Rightarrow> (material \<times> intersect) option" where
  "first_nearest hs = find (\<lambda>x. \<forall>y \<in> set hs. distance (snd x) \<le> distance (snd y)) hs"

text \<open>The same, computed from the right: a later hit wins only when strictly closer.\<close>

fun nearest :: "(material \<times> intersect) list \<Rightarrow> (material \<times> intersect) option" where
  "nearest [] = None"
| "nearest (x # xs) = (case nearest xs of None \<Rightarrow> Some x
                        | Some y \<Rightarrow> if distance (snd y) < distance (snd x) then Some y else Some x)"

text \<open>Abstraction of the scan state and its invariant.\<close>

definition scan_abs :: "scan_state \<Rightarrow> (material \<times> intersect) option" where
  "scan_abs st = (case st of (zb, Some m, Some h) \<Rightarrow> Some (m, h) | _ \<Rightarrow> None)"

definition scan_inv :: "scan_state \<Rightarrow> bool" where
  "scan_inv st = (case st of (zb, m, h) \<Rightarrow> zb = map_option distance h \<and> (m = None \<longleftrightarrow> h = None))"

text \<open>Combining the best hit so far with the best of the rest; the earlier wins ties.\<close>

definition prefer_hit :: "(material \<times> intersect) option \<Rightarrow> (material \<times> intersect) option \<Rightarrow> (material \<times> intersect) option" where
  "prefer_hit a b = (case a of None \<Rightarrow> b | Some x \<Rightarrow> (case b of None \<Rightarrow> Some x
                  | Some y \<Rightarrow> if distance (snd y) < distance (snd x) then Some y else Some x))"

section \<open>Lemmas\<close>

declare Light_def [model_simps] Material_def [model_simps] esferas_def [model_simps]
  Sphere_def [model_simps] sphere_iface_def [model_simps]


lemma hits_Cons:
  "hits ops (obj # objs) orig direction =
     (case ray_intersect ops obj orig direction of None \<Rightarrow> []
      | Some h \<Rightarrow> [(obj_material ops obj, h)]) @ hits ops objs orig direction"
  by (simp add: hits_def)

lemma scan_inv_scan: "scan_inv st \<Longrightarrow> scan_inv (scan ops objs orig direction st)"
proof (induction ops objs orig direction st rule: scan.induct)
  case (1 ops orig direction st)
  then show ?case by simp
next
  case (2 ops obj objs orig direction zbuffer mat isect)
  then show ?case by (auto simp: scan_inv_def split: option.splits)
qed

lemma scan_abs_simps [simp]:
  "scan_abs (zb, Some m, Some h) = Some (m, h)"
  "scan_abs (zb, None, h') = None"
  "scan_abs (zb, m', None) = None"
  by (simp_all add: scan_abs_def split: option.splits)

lemma scan_refines:
  "scan_inv st \<Longrightarrow>
   scan_abs (scan ops objs orig direction st) = prefer_hit (scan_abs st) (nearest (hits ops objs orig direction))"
proof (induction ops objs orig direction st rule: scan.induct)
  case (1 ops orig direction st)
  then show ?case by (simp add: hits_def prefer_hit_def split: option.splits)
next
  case (2 ops obj objs orig direction zbuffer mat isect)
  show ?case
  proof (cases "ray_intersect ops obj orig direction")
    case None
    with 2 show ?thesis by (simp add: hits_Cons)
  next
    case (Some hit)
    define x where "x = (obj_material ops obj, hit)"
    show ?thesis
    proof (cases "closer (distance hit) zbuffer")
      case True
      have "scan_inv (Some (distance hit), Some (obj_material ops obj), Some hit)"
        by (simp add: scan_inv_def)
      from "2.IH"(2) [OF Some True this]
      have ih: "scan_abs (scan ops (obj # objs) orig direction (zbuffer, mat, isect)) =
          prefer_hit (Some x) (nearest (hits ops objs orig direction))"
        using Some True by (simp add: x_def)
      show ?thesis using True "2.prems" unfolding ih
        by (auto simp: Some hits_Cons prefer_hit_def closer_def scan_inv_def x_def split: option.splits)
    next
      case False
      with Some have ih: "scan_abs (scan ops (obj # objs) orig direction (zbuffer, mat, isect)) =
          prefer_hit (scan_abs (zbuffer, mat, isect)) (nearest (hits ops objs orig direction))"
        using "2.IH"(3) "2.prems" by simp
      show ?thesis using False "2.prems" unfolding ih
        by (auto simp: Some hits_Cons prefer_hit_def closer_def scan_inv_def split: option.splits)
    qed
  qed
qed

lemma exists_min_list: "xs \<noteq> [] \<Longrightarrow> \<exists>z\<in>set xs. \<forall>y\<in>set xs. (f z :: real) \<le> f y"
proof (induction xs)
  case Nil
  then show ?case by simp
next
  case (Cons x xs)
  show ?case
  proof (cases "xs = []")
    case True
    then show ?thesis by simp
  next
    case False
    with Cons.IH obtain z where z: "z \<in> set xs" "\<forall>y\<in>set xs. f z \<le> f y" by blast
    then show ?thesis by (cases "f x \<le> f z") force+
  qed
qed

lemma nearest_first_nearest: "nearest xs = first_nearest xs"
proof (induction xs)
  case Nil
  then show ?case by (simp add: first_nearest_def)
next
  case (Cons x xs)
  let ?d = "\<lambda>p. distance (snd p)"
  show ?case
  proof (cases "xs = []")
    case True
    then show ?thesis by (simp add: first_nearest_def)
  next
    case False
    then obtain z where z: "z \<in> set xs" "\<forall>y\<in>set xs. ?d z \<le> ?d y"
      using exists_min_list [of xs ?d] by blast
    then have "first_nearest xs \<noteq> None"
      unfolding first_nearest_def find_None_iff by blast
    then obtain y where y: "first_nearest xs = Some y" by blast
    then have ymin: "\<forall>w\<in>set xs. ?d y \<le> ?d w" and yin: "y \<in> set xs"
      by (auto simp: first_nearest_def find_Some_iff)
    show ?thesis
    proof (cases "\<forall>w\<in>set xs. ?d x \<le> ?d w")
      case True
      then have "\<not> ?d y < ?d x" using yin by force
      with True y Cons.IH show ?thesis
        by (simp add: first_nearest_def)
    next
      case False
      then have lt: "?d y < ?d x" using ymin by force
      have "find (\<lambda>p. \<forall>w\<in>set (x # xs). ?d p \<le> ?d w) xs = find (\<lambda>p. \<forall>w\<in>set xs. ?d p \<le> ?d w) xs"
      proof (rule find_cong)
        fix p assume "p \<in> set xs"
        show "(\<forall>w\<in>set (x # xs). ?d p \<le> ?d w) = (\<forall>w\<in>set xs. ?d p \<le> ?d w)"
          using False by force
      qed simp
      with False y lt Cons.IH show ?thesis
        by (auto simp: first_nearest_def)
    qed
  qed
qed

lemma scene_intersect_eq_first_nearest:
  "scene_intersect ops sc orig direction =
     (case first_nearest (hits ops sc orig direction) of None \<Rightarrow> (None, None)
      | Some (m, h) \<Rightarrow> (Some m, Some h))"
proof -
  have inv0: "scan_inv (None, None, None)" by (simp add: scan_inv_def)
  obtain zb m h where st: "scan ops sc orig direction (None, None, None) = (zb, m, h)"
    by (cases "scan ops sc orig direction (None, None, None)") auto
  have "scan_inv (zb, m, h)" using scan_inv_scan [OF inv0, of ops sc orig direction] st by simp
  moreover have "first_nearest (hits ops sc orig direction) = scan_abs (zb, m, h)"
    using scan_refines [OF inv0, of ops sc orig direction] st
    by (simp add: prefer_hit_def nearest_first_nearest)
  ultimately show ?thesis using st
    by (auto simp: scene_intersect_def scan_inv_def scan_abs_def split: option.splits)
qed

text \<open>C35: A ray from distance d > r straight at the centre of a sphere of radius r meets it at distance d - r, at the near pole, with the outward unit normal.\<close>

theorem sphere_head_on:
  assumes "0 < r" "r < d"
  shows "sphere_ray_intersect \<lparr>center = V3 0 0 0, radius = r, sphere_material = m\<rparr> (V3 0 0 d) (V3 0 0 (-1)) =
         Some \<lparr>distance = d - r, point = V3 0 0 r, normal = V3 0 0 1\<rparr>"
proof -
  have l: "vlength (V3 0 0 (- d)) = d" using assms by (simp add: vlength_def)
  have n: "vnorm (V3 0 0 r) = V3 0 0 1" using assms by (simp add: vnorm_def vlength_def)
  show ?thesis using assms
    by (simp add: sphere_ray_intersect_def sub_def dot_def l vsum_def mul_def n Let_def)
qed

theorem sphere_head_on_witness:
  "(0::real) < 1 \<and> (1::real) < 3 \<and>
   sphere_ray_intersect \<lparr>center = V3 0 0 0, radius = 1, sphere_material = esferas\<rparr> (V3 0 0 3) (V3 0 0 (-1)) =
     Some \<lparr>distance = 2, point = V3 0 0 1, normal = V3 0 0 1\<rparr>"
proof -
  have h: "(0::real) < 1" "(1::real) < 3" by simp_all
  show ?thesis using h sphere_head_on [OF h, of esferas] by simp
qed

lemma hits_member:
  "(m, h) \<in> set (hits ops sc orig direction) \<Longrightarrow>
   \<exists>obj\<in>set sc. obj_material ops obj = m \<and> ray_intersect ops obj orig direction = Some h"
  by (auto simp: hits_def split: option.splits)

lemma scene_intersect_cases:
  "scene_intersect ops sc orig direction = (None, None) \<or>
   (\<exists>m h. scene_intersect ops sc orig direction = (Some m, Some h) \<and>
          (\<exists>obj\<in>set sc. obj_material ops obj = m \<and> ray_intersect ops obj orig direction = Some h))"
proof (cases "first_nearest (hits ops sc orig direction)")
  case None
  then show ?thesis by (simp add: scene_intersect_eq_first_nearest)
next
  case (Some p)
  then obtain m h where p: "p = (m, h)" by (cases p)
  with Some have "(m, h) \<in> set (hits ops sc orig direction)"
    by (auto simp: first_nearest_def find_Some_iff)
  with Some p show ?thesis by (auto simp: scene_intersect_eq_first_nearest dest: hits_member)
qed

lemma scene_intersect_no_hits:
  "hits ops sc orig direction = [] \<Longrightarrow> scene_intersect ops sc orig direction = (None, None)"
  by (simp add: scene_intersect_eq_first_nearest first_nearest_def)

text \<open>C2: scene_intersect, the linear scan with a z-buffer that starts at infinity and a strict comparison, returns the first hit in scene order whose distance is minimal among all hits, with its object's material, and (None, None) when nothing is hit.\<close>

theorem scene_intersect_first_nearest:
  "scene_intersect ops sc orig direction =
     (case first_nearest (hits ops sc orig direction) of None \<Rightarrow> (None, None)
      | Some (m, h) \<Rightarrow> (Some m, Some h))"
  by (rule scene_intersect_eq_first_nearest)

end
