(* ===== verification/Raycast.thy ===== *)
theory Raycast
  imports Scene
begin

text \<open>
  The renderer's state (\<open>Raycaster.__init__\<close>, \<open>glClear\<close>) and its shading core,
  \<open>Raycaster.cast_ray\<close> of \<open>src/ray.py\<close>: find the nearest hit, stop at
  \<open>MAX_RECURSION_DEPTH\<close>, recursively trace the reflected and the refracted ray, test
  for a shadow towards the light and combine the Phong terms with the material's albedo.
  Every attribute read that can fail in Python (\<open>self.light\<close> before it is assigned,
  \<open>material.refractive_index\<close>, which \<open>Material\<close> never sets) is an error branch.
  The recursion is a \<^theory_text>\<open>function\<close> whose termination measure is the remaining depth.
\<close>

section \<open>Renderer state\<close>

text \<open>
  \<open>light\<close> is not set by the constructor; the script assigns it afterwards, so it is an
  option. \<open>pixels\<close> is a list of \<open>height\<close> rows of \<open>width\<close> colors.
\<close>

record 'o raycaster =
  width :: nat
  height :: nat
  background_color :: color
  scene :: "'o list"
  light :: "light option"
  pixels :: "color list list"

definition glClear :: "'o raycaster \<Rightarrow> 'o raycaster" where
  "glClear rc = rc\<lparr>pixels := replicate (height rc) (replicate (width rc) (background_color rc))\<rparr>"

definition Raycaster :: "nat \<Rightarrow> nat \<Rightarrow> 'o raycaster" where
  "Raycaster w h = glClear \<lparr>width = w, height = h, background_color = BLACK, scene = [],
                            light = None, pixels = []\<rparr>"

definition MAX_RECURSION_DEPTH :: nat where
  "MAX_RECURSION_DEPTH = 3"

text \<open>
  The script at the end of \<open>ray.py\<close>: a 2000 by 2000 renderer, the light at
  \<open>(40, 20, 20)\<close> with intensity 1.5 and one sphere of material \<open>esferas\<close>.
\<close>

definition script_raycaster :: "sphere raycaster" where
  "script_raycaster = (Raycaster 2000 2000)\<lparr>light := Some (Light (V3 40 20 20) 1.5),
                          scene := [Sphere (V3 0 (-1) (-10)) 2 esferas]\<rparr>"

section \<open>Shading\<close>

text \<open>
  The origin of a secondary ray: the hit point pushed by \<open>offset_normal = normal * 1.1\<close>
  to the side of the surface the ray leaves towards (lines 105, 112 and 120).
\<close>

definition offset_orig :: "intersect \<Rightarrow> V3 \<Rightarrow> V3" where
  "offset_orig hit d = (let offset_normal = mul (normal hit) 1.1
                        in if dot d (normal hit) < 0 then sub (point hit) offset_normal
                           else vsum (point hit) offset_normal)"

text \<open>
  The shadow test: a hit on the way to the light, nearer than the light, attenuates by
  \<open>0.9\<close>. An object is always truthy, so \<open>shadow_material\<close> tests for \<open>None\<close>.
\<close>

definition shadow_intensity :: "'o obj_iface \<Rightarrow> 'o raycaster \<Rightarrow> light \<Rightarrow> intersect \<Rightarrow> real result" where
  "shadow_intensity ops rc lt hit =
    (let light_dir = vnorm (sub (position lt) (point hit));
         light_distance = vlength (sub (position lt) (point hit));
         shadow_orig = offset_orig hit light_dir
     in case scene_intersect ops (scene rc) shadow_orig light_dir of
          (None, _) \<Rightarrow> Inr 0
        | (Some _, None) \<Rightarrow> Inl AttributeError
        | (Some _, Some sh) \<Rightarrow>
            Inr (if vlength (sub (point sh) shadow_orig) < light_distance then 0.9 else 0))"

text \<open>
  Lines 127--138: the local terms and the weighted sum. \<open>max(0, _) ** material.spec\<close>
  raises ZeroDivisionError when the base is 0 and the exponent negative.
\<close>

definition shade :: "material \<Rightarrow> intersect \<Rightarrow> light \<Rightarrow> V3 \<Rightarrow> real \<Rightarrow> color \<Rightarrow> color \<Rightarrow> color result" where
  "shade mat hit lt direction shadow reflect_color refract_color =
    (let light_dir = vnorm (sub (position lt) (point hit));
         intens = intensity lt * max 0 (dot light_dir (normal hit)) * (1 - shadow);
         reflection = reflect light_dir (normal hit)
     in rbind (py_pow (max 0 (- dot reflection direction)) (spec mat)) (\<lambda>p.
        let specular_intensity = intensity lt * p;
            (a0, a1, a2, a3) = albedo mat;
            diffuse_c = color_mul (color_mul (diffuse mat) intens) a0;
            specular_c = color_mul (color_mul (color 255 255 255) specular_intensity) a1;
            reflection_c = color_mul reflect_color a2;
            refraction_c = color_mul refract_color a3
        in Inr (color_add (color_add (color_add diffuse_c specular_c) reflection_c) refraction_c)))"

section \<open>The recursive cast\<close>

function cast_ray :: "'o obj_iface \<Rightarrow> 'o raycaster \<Rightarrow> V3 \<Rightarrow> V3 \<Rightarrow> nat \<Rightarrow> color result" where
  "cast_ray ops rc orig direction recursion =
    (case scene_intersect ops (scene rc) orig direction of
       (None, _) \<Rightarrow> Inr (background_color rc)
     | (Some mat, isect) \<Rightarrow>
         if MAX_RECURSION_DEPTH \<le> recursion then Inr (background_color rc)
         else (case isect of
                 None \<Rightarrow> Inl AttributeError
               | Some hit \<Rightarrow>
                   rbind (if 0 < fst (snd (snd (albedo mat))) then
                            (let reverse_direction = mul direction (-1);
                                 reflect_dir = reflect reverse_direction (normal hit)
                             in cast_ray ops rc (offset_orig hit reflect_dir) reflect_dir (recursion + 1))
                          else Inr (color 0 0 0)) (\<lambda>reflect_color.
                   rbind (if 0 < snd (snd (snd (albedo mat))) then
                            (case refractive_index mat of
                               None \<Rightarrow> Inl AttributeError
                             | Some ri \<Rightarrow> rbind (refract direction (normal hit) ri) (\<lambda>refract_dir.
                                 cast_ray ops rc (offset_orig hit refract_dir) refract_dir (recursion + 1)))
                          else Inr (color 0 0 0)) (\<lambda>refract_color.
                   (case light rc of
                      None \<Rightarrow> Inl AttributeError
                    | Some lt \<Rightarrow> rbind (shadow_intensity ops rc lt hit) (\<lambda>shadow.
                        shade mat hit lt direction shadow reflect_color refract_color))))))"
  by pat_completeness auto
termination
  by (relation "measure (\<lambda>(ops, rc, orig, direction, recursion). MAX_RECURSION_DEPTH - recursion)")
     (auto simp: MAX_RECURSION_DEPTH_def)

text \<open>
  A scene on which \<open>cast_ray\<close> cannot raise: the light is assigned, every material has
  a non-negative specular exponent, and every material with a refractive weight has a
  nonzero \<open>refractive_index\<close>.
\<close>

definition scene_ok :: "'o obj_iface \<Rightarrow> 'o raycaster \<Rightarrow> bool" where
  "scene_ok ops rc \<longleftrightarrow> light rc \<noteq> None \<and>
     list_all (\<lambda>obj. 0 \<le> spec (obj_material ops obj) \<and>
                      (0 < snd (snd (snd (albedo (obj_material ops obj)))) \<longrightarrow>
                       (case refractive_index (obj_material ops obj) of None \<Rightarrow> False | Some ri \<Rightarrow> ri \<noteq> 0)))
              (scene rc)"

section \<open>Lemmas\<close>


declare cast_ray.simps [simp del] MAX_RECURSION_DEPTH_def [model_simps]

lemma Raycaster_fields [simp]:
  "width (Raycaster w h) = w" "height (Raycaster w h) = h" "background_color (Raycaster w h) = BLACK"
  "scene (Raycaster w h) = []" "light (Raycaster w h) = None"
  "pixels (Raycaster w h) = replicate h (replicate w BLACK)"
  by (simp_all add: Raycaster_def glClear_def)

lemma script_raycaster_fields [simp]:
  "width script_raycaster = 2000" "height script_raycaster = 2000" "background_color script_raycaster = BLACK"
  "light script_raycaster = Some (Light (V3 40 20 20) 1.5)"
  "scene script_raycaster = [Sphere (V3 0 (-1) (-10)) 2 esferas]"
  "pixels script_raycaster = replicate 2000 (replicate 2000 BLACK)"
  by (simp_all add: script_raycaster_def)

lemma script_scene_ok: "scene_ok sphere_iface script_raycaster"
  by (simp add: scene_ok_def model_simps)

text \<open>C5: A ray that hits no object of the scene (in particular any ray in an empty scene) gets exactly the background color, at any depth.\<close>

theorem cast_ray_miss:
  "hits ops (scene rc) orig direction = [] \<Longrightarrow> cast_ray ops rc orig direction recursion = Inr (background_color rc)"
  by (simp add: cast_ray.simps scene_intersect_no_hits)

theorem cast_ray_miss_witness:
  "hits sphere_iface (scene (Raycaster 1 1 :: sphere raycaster)) (V3 0 0 0) (V3 0 0 (-1)) = [] \<and>
   cast_ray sphere_iface (Raycaster 1 1 :: sphere raycaster) (V3 0 0 0) (V3 0 0 (-1)) 0 = Inr BLACK"
proof -
  have h: "hits sphere_iface (scene (Raycaster 1 1 :: sphere raycaster)) (V3 0 0 0) (V3 0 0 (-1)) = []"
    by (simp add: hits_def)
  show ?thesis using h cast_ray_miss [OF h] by (simp add:)
qed

lemma cast_ray_at_depth_limit:
  "MAX_RECURSION_DEPTH \<le> recursion \<Longrightarrow> cast_ray ops rc orig direction recursion = Inr (background_color rc)"
  by (simp add: cast_ray.simps split: prod.splits option.splits)

text \<open>The hit branch, below the depth limit, in the order the code evaluates it.\<close>

lemma cast_ray_hit:
  "scene_intersect ops (scene rc) orig direction = (Some mat, Some hit) \<Longrightarrow> recursion < MAX_RECURSION_DEPTH \<Longrightarrow>
   cast_ray ops rc orig direction recursion =
     rbind (if 0 < fst (snd (snd (albedo mat))) then
              cast_ray ops rc (offset_orig hit (reflect (mul direction (-1)) (normal hit)))
                (reflect (mul direction (-1)) (normal hit)) (recursion + 1)
            else Inr (color 0 0 0)) (\<lambda>reflect_color.
     rbind (if 0 < snd (snd (snd (albedo mat))) then
              (case refractive_index mat of None \<Rightarrow> Inl AttributeError
               | Some ri \<Rightarrow> rbind (refract direction (normal hit) ri) (\<lambda>refract_dir.
                   cast_ray ops rc (offset_orig hit refract_dir) refract_dir (recursion + 1)))
            else Inr (color 0 0 0)) (\<lambda>refract_color.
     (case light rc of None \<Rightarrow> Inl AttributeError
      | Some lt \<Rightarrow> rbind (shadow_intensity ops rc lt hit) (\<lambda>shadow.
          shade mat hit lt direction shadow reflect_color refract_color))))"
  by (subst cast_ray.simps) (simp add: Let_def)

text \<open>C6: A material with a positive refractive weight built by the Material constructor has no refractive_index attribute, so a ray that hits it below the depth limit raises AttributeError (when the reflective weight is zero, nothing is raised before).\<close>

theorem cast_ray_refractive_crash:
  assumes "scene_intersect ops (scene rc) orig direction = (Some mat, Some hit)"
    and "recursion < MAX_RECURSION_DEPTH"
    and "albedo mat = (a0, a1, 0, a3)" and "0 < a3" and "refractive_index mat = None"
  shows "cast_ray ops rc orig direction recursion = Inl AttributeError"
  using assms by (simp add: cast_ray_hit)

theorem cast_ray_refractive_crash_witness:
  "scene_intersect \<lparr>ray_intersect = (\<lambda>(u::unit) orig d. Some \<lparr>distance = 1, point = V3 0 0 0, normal = V3 0 0 1\<rparr>),
          obj_material = (\<lambda>u. Material (color 1 1 1) (1, 0, 0, 1) 1)\<rparr>
     [()] (V3 0 0 0) (V3 0 0 (-1)) =
     (Some (Material (color 1 1 1) (1, 0, 0, 1) 1), Some \<lparr>distance = 1, point = V3 0 0 0, normal = V3 0 0 1\<rparr>) \<and>
   0 < MAX_RECURSION_DEPTH \<and> albedo (Material (color 1 1 1) (1, 0, 0, 1) 1) = (1, 0, 0, 1) \<and> (0::real) < 1 \<and>
   refractive_index (Material (color 1 1 1) (1, 0, 0, 1) 1) = None \<and>
   cast_ray \<lparr>ray_intersect = (\<lambda>(u::unit) orig d. Some \<lparr>distance = 1, point = V3 0 0 0, normal = V3 0 0 1\<rparr>),
          obj_material = (\<lambda>u. Material (color 1 1 1) (1, 0, 0, 1) 1)\<rparr>
     ((Raycaster 1 1)\<lparr>scene := [()]\<rparr>) (V3 0 0 0) (V3 0 0 (-1)) 0 = Inl AttributeError"
proof -
  have si: "scene_intersect \<lparr>ray_intersect = (\<lambda>(u::unit) orig d. Some \<lparr>distance = 1, point = V3 0 0 0, normal = V3 0 0 1\<rparr>),
          obj_material = (\<lambda>u. Material (color 1 1 1) (1, 0, 0, 1) 1)\<rparr>
     (scene ((Raycaster 1 1)\<lparr>scene := [()]\<rparr>)) (V3 0 0 0) (V3 0 0 (-1)) =
     (Some (Material (color 1 1 1) (1, 0, 0, 1) 1), Some \<lparr>distance = 1, point = V3 0 0 0, normal = V3 0 0 1\<rparr>)"
    by (simp add: scene_intersect_def closer_def)
  have m: "0 < MAX_RECURSION_DEPTH" "albedo (Material (color 1 1 1) (1, 0, 0, 1) 1) = (1, 0, 0, 1)"
    "refractive_index (Material (color 1 1 1) (1, 0, 0, 1) 1) = None"
    by (simp_all add: model_simps)
  show ?thesis using si m cast_ray_refractive_crash [OF si m(1) m(2) _ m(3)] by simp
qed

text \<open>C7: Raycaster() never assigns self.light: a ray that hits a non-reflective, non-refractive object below the depth limit of a renderer whose light was not set raises AttributeError.\<close>

theorem cast_ray_no_light:
  assumes "scene_intersect ops (scene rc) orig direction = (Some mat, Some hit)"
    and "recursion < MAX_RECURSION_DEPTH"
    and "albedo mat = (a0, a1, 0, 0)" and "light rc = None"
  shows "cast_ray ops rc orig direction recursion = Inl AttributeError"
  using assms by (simp add: cast_ray_hit)

theorem cast_ray_no_light_witness:
  "scene_intersect \<lparr>ray_intersect = (\<lambda>(u::unit) orig d. Some \<lparr>distance = 1, point = V3 0 0 0, normal = V3 0 0 1\<rparr>),
          obj_material = (\<lambda>u. Material (color 1 1 1) (1, 0, 0, 0) 1)\<rparr>
     [()] (V3 0 0 0) (V3 0 0 (-1)) =
     (Some (Material (color 1 1 1) (1, 0, 0, 0) 1), Some \<lparr>distance = 1, point = V3 0 0 0, normal = V3 0 0 1\<rparr>) \<and>
   0 < MAX_RECURSION_DEPTH \<and> albedo (Material (color 1 1 1) (1, 0, 0, 0) 1) = (1, 0, 0, 0) \<and>
   light ((Raycaster 1 1)\<lparr>scene := [()]\<rparr>) = None \<and>
   cast_ray \<lparr>ray_intersect = (\<lambda>(u::unit) orig d. Some \<lparr>distance = 1, point = V3 0 0 0, normal = V3 0 0 1\<rparr>),
          obj_material = (\<lambda>u. Material (color 1 1 1) (1, 0, 0, 0) 1)\<rparr>
     ((Raycaster 1 1)\<lparr>scene := [()]\<rparr>) (V3 0 0 0) (V3 0 0 (-1)) 0 = Inl AttributeError"
proof -
  have si: "scene_intersect \<lparr>ray_intersect = (\<lambda>(u::unit) orig d. Some \<lparr>distance = 1, point = V3 0 0 0, normal = V3 0 0 1\<rparr>),
          obj_material = (\<lambda>u. Material (color 1 1 1) (1, 0, 0, 0) 1)\<rparr>
     (scene ((Raycaster 1 1)\<lparr>scene := [()]\<rparr>)) (V3 0 0 0) (V3 0 0 (-1)) =
     (Some (Material (color 1 1 1) (1, 0, 0, 0) 1), Some \<lparr>distance = 1, point = V3 0 0 0, normal = V3 0 0 1\<rparr>)"
    by (simp add: scene_intersect_def closer_def)
  have m: "0 < MAX_RECURSION_DEPTH" "albedo (Material (color 1 1 1) (1, 0, 0, 0) 1) = (1, 0, 0, 0)"
    "light ((Raycaster 1 1 :: unit raycaster)\<lparr>scene := [()]\<rparr>) = None"
    by (simp_all add: model_simps)
  show ?thesis using si m cast_ray_no_light [OF si m(1) m(2) m(3)] by simp
qed

lemma shadow_intensity_defined: "\<exists>s. shadow_intensity ops rc lt hit = Inr s"
  using scene_intersect_cases [of ops "scene rc" "offset_orig hit (vnorm (sub (position lt) (point hit)))"
                                  "vnorm (sub (position lt) (point hit))"]
  by (auto simp: shadow_intensity_def Let_def)

lemma scene_ok_light: "scene_ok ops rc \<Longrightarrow> \<exists>lt. light rc = Some lt"
  by (auto simp: scene_ok_def)

lemma scene_ok_refractive:
  "scene_ok ops rc \<Longrightarrow> obj \<in> set (scene rc) \<Longrightarrow> 0 < snd (snd (snd (albedo (obj_material ops obj)))) \<Longrightarrow>
   \<exists>ri. refractive_index (obj_material ops obj) = Some ri \<and> ri \<noteq> 0"
  by (auto simp: scene_ok_def list_all_iff split: option.splits)

lemma scene_ok_spec: "scene_ok ops rc \<Longrightarrow> obj \<in> set (scene rc) \<Longrightarrow> 0 \<le> spec (obj_material ops obj)"
  by (auto simp: scene_ok_def list_all_iff)

lemma shade_defined: "0 \<le> spec mat \<Longrightarrow> \<exists>c. shade mat hit lt direction s rc fc = Inr c"
  by (simp add: shade_def Let_def py_pow_defined split_beta)

text \<open>With a negative exponent and no specular highlight (base 0), line 131 raises.\<close>

lemma shade_negative_spec:
  "max 0 (- dot (reflect (vnorm (sub (position lt) (point hit))) (normal hit)) direction) = 0 \<Longrightarrow> spec mat < 0 \<Longrightarrow>
   shade mat hit lt direction s rc fc = Inl ZeroDivisionError"
  by (simp add: shade_def Let_def py_pow_zero_neg)

lemma cast_ray_Inr:
  "scene_ok ops rc \<Longrightarrow> \<exists>c. cast_ray ops rc orig direction recursion = Inr c"
proof (induction ops rc orig direction recursion rule: cast_ray.induct)
  case (1 ops rc orig direction recursion)
  consider (miss) "scene_intersect ops (scene rc) orig direction = (None, None)"
    | (hit) mat hit obj where "scene_intersect ops (scene rc) orig direction = (Some mat, Some hit)"
        "obj \<in> set (scene rc)" "obj_material ops obj = mat"
    using scene_intersect_cases [of ops "scene rc" orig direction] by blast
  then show ?case
  proof cases
    case miss
    then show ?thesis by (simp add: cast_ray.simps)
  next
    case hit
    show ?thesis
    proof (cases "recursion < MAX_RECURSION_DEPTH")
      case False
      then show ?thesis by (simp add: cast_ray_at_depth_limit)
    next
      case True
      obtain lt where lt: "light rc = Some lt" using scene_ok_light [OF "1.prems"] by blast
      have refl_ok: "\<exists>c. (if 0 < fst (snd (snd (albedo mat))) then
              cast_ray ops rc (offset_orig hit (reflect (mul direction (-1)) (normal hit)))
                (reflect (mul direction (-1)) (normal hit)) (recursion + 1)
            else Inr (color 0 0 0)) = Inr c"
        using "1.IH"(1) [OF hit(1) [symmetric] HOL.refl _ HOL.refl _ HOL.refl HOL.refl] True "1.prems" by auto
      have refr_ok: "\<exists>c. (if 0 < snd (snd (snd (albedo mat))) then
              (case refractive_index mat of None \<Rightarrow> Inl AttributeError
               | Some ri \<Rightarrow> rbind (refract direction (normal hit) ri) (\<lambda>refract_dir.
                   cast_ray ops rc (offset_orig hit refract_dir) refract_dir (recursion + 1)))
            else Inr (color 0 0 0)) = Inr c"
      proof (cases "0 < snd (snd (snd (albedo mat)))")
        case True
        then obtain ri v where ri: "refractive_index mat = Some ri" "refract direction (normal hit) ri = Inr v"
          using scene_ok_refractive [OF "1.prems" hit(2)] hit(3) refract_defined by blast
        with True ri "1.IH"(2) [OF hit(1) [symmetric] HOL.refl _ HOL.refl True ri(1)]
          \<open>recursion < MAX_RECURSION_DEPTH\<close> "1.prems"
        show ?thesis by auto
      qed simp
      have sp: "0 \<le> spec mat" using scene_ok_spec [OF "1.prems" hit(2)] hit(3) by simp
      from refl_ok refr_ok lt True hit(1) shadow_intensity_defined [of ops rc lt hit] shade_defined [OF sp]
      show ?thesis by (auto simp: cast_ray_hit)
    qed
  qed
qed

text \<open>C8: The shadow term: with a lit surface (light in front of it, positive intensity, positive diffuse weight and red channel) and a non-negative specular exponent, shade returns a color whether or not the shadow ray is blocked, and the shaded red channel when it is blocked (attenuation 0.9) is strictly below the unblocked one, all other inputs equal.\<close>

theorem shade_shadow_darker:
  assumes "0 < intensity lt" and "0 < dot (vnorm (sub (position lt) (point hit))) (normal hit)"
    and "albedo mat = (a0, a1, a2, a3)" and "0 < a0" and "0 < cr (diffuse mat)" and "0 \<le> spec mat"
  shows "\<exists>c9 c0. shade mat hit lt direction 0.9 rc fc = Inr c9 \<and> shade mat hit lt direction 0 rc fc = Inr c0 \<and>
                 cr c9 < cr c0"
proof -
  define X where "X = cr (diffuse mat) * (intensity lt * dot (vnorm (sub (position lt) (point hit))) (normal hit)) * a0"
  have X: "0 < X" using assms by (simp add: X_def)
  obtain p where p: "py_pow (max 0 (- dot (reflect (vnorm (sub (position lt) (point hit))) (normal hit)) direction)) (spec mat) = Inr p"
    using py_pow_defined [OF assms(6)] by blast
  define R where "R = cr (color_mul (color_mul (color 255 255 255) (intensity lt * p)) a1) + cr rc * a2 + cr fc * a3"
  have s9: "shade mat hit lt direction 0.9 rc fc = Inr (color (X / 10 + R) (cg (projr (shade mat hit lt direction 0.9 rc fc)))
                                                             (cb (projr (shade mat hit lt direction 0.9 rc fc))))"
    using assms(2,3) p by (simp add: shade_def Let_def color_add_def color_mul_def X_def R_def algebra_simps)
  have s0: "shade mat hit lt direction 0 rc fc = Inr (color (X + R) (cg (projr (shade mat hit lt direction 0 rc fc)))
                                                           (cb (projr (shade mat hit lt direction 0 rc fc))))"
    using assms(2,3) p by (simp add: shade_def Let_def color_add_def color_mul_def X_def R_def algebra_simps)
  show ?thesis using X by (subst s9, subst s0) simp
qed

theorem shade_shadow_darker_witness:
  "0 < intensity (Light (V3 0 0 1) 1) \<and>
   0 < dot (vnorm (sub (position (Light (V3 0 0 1) 1)) (point \<lparr>distance = 1, point = V3 0 0 0, normal = V3 0 0 1\<rparr>)))
           (normal \<lparr>distance = 1, point = V3 0 0 0, normal = V3 0 0 1\<rparr>) \<and>
   albedo esferas = (0.6, 0.3, 0.1, 0) \<and> (0::real) < 0.6 \<and> 0 < cr (diffuse esferas) \<and> 0 \<le> spec esferas \<and>
   (\<exists>c9 c0. shade esferas \<lparr>distance = 1, point = V3 0 0 0, normal = V3 0 0 1\<rparr> (Light (V3 0 0 1) 1) (V3 0 0 (-1)) 0.9 BLACK BLACK = Inr c9 \<and>
            shade esferas \<lparr>distance = 1, point = V3 0 0 0, normal = V3 0 0 1\<rparr> (Light (V3 0 0 1) 1) (V3 0 0 (-1)) 0 BLACK BLACK = Inr c0 \<and>
            cr c9 < cr c0)"
proof -
  have h: "0 < intensity (Light (V3 0 0 1) 1)"
    "0 < dot (vnorm (sub (position (Light (V3 0 0 1) 1)) (point \<lparr>distance = 1, point = V3 0 0 0, normal = V3 0 0 1\<rparr>)))
           (normal \<lparr>distance = 1, point = V3 0 0 0, normal = V3 0 0 1\<rparr>)"
    "albedo esferas = (0.6, 0.3, 0.1, 0)" "0 < cr (diffuse esferas)" "0 \<le> spec esferas"
    by (simp_all add: Light_def sub_def vnorm_def vlength_def dot_def esferas_def Material_def)
  show ?thesis using h shade_shadow_darker [OF h(1) h(2) h(3) _ h(4) h(5)] by simp
qed

text \<open>C1: On a well-formed scene (the light assigned, every material with a non-negative specular exponent, every material with a refractive weight carrying a nonzero refractive index) cast_ray raises no exception: it returns a color for every ray and every depth.\<close>

theorem cast_ray_no_exception:
  "scene_ok ops rc \<Longrightarrow> \<exists>c. cast_ray ops rc orig direction recursion = Inr c"
  by (rule cast_ray_Inr)

theorem cast_ray_no_exception_witness:
  "scene_ok sphere_iface script_raycaster \<and>
   (\<exists>c. cast_ray sphere_iface script_raycaster (V3 0 0 0) (V3 0 0 (-1)) 0 = Inr c)"
  using script_scene_ok cast_ray_no_exception [OF script_scene_ok] by blast

text \<open>C4: At recursion depth MAX_RECURSION_DEPTH (3) or more, cast_ray returns the background color without tracing further, whatever the materials: the recursion is at most three bounces deep.\<close>

theorem cast_ray_depth_limit:
  "MAX_RECURSION_DEPTH \<le> recursion \<Longrightarrow> cast_ray ops rc orig direction recursion = Inr (background_color rc)"
  by (rule cast_ray_at_depth_limit)

theorem cast_ray_depth_limit_witness:
  "MAX_RECURSION_DEPTH \<le> 3 \<and> cast_ray sphere_iface script_raycaster (V3 0 0 0) (V3 0 0 (-1)) 3 = Inr BLACK"
  using cast_ray_depth_limit [of 3 sphere_iface script_raycaster "V3 0 0 0" "V3 0 0 (-1)"]
  by (simp add: MAX_RECURSION_DEPTH_def)

end
