(* ===== verification/Render.thy ===== *)
theory Render
  imports Raycast
begin

text \<open>
  The frame buffer operations of \<open>Raycaster\<close> in \<open>src/ray.py\<close>: \<open>point\<close> (a guarded
  pixel write whose exceptions are swallowed), the camera of \<open>render\<close> (field of view,
  aspect ratio, one normalised direction per pixel) and the render loop itself, which
  casts two rays per pixel from eye points \<open>0.3\<close> apart, tints a hit red or blue and
  stores the sum. The lemmas give the shape invariant of the buffer, what \<open>point\<close>
  writes (and that a negative index wraps around, as Python lists do), and that
  \<open>render\<close> stores at every pixel the color its two casts produce.
\<close>

section \<open>Pixel writes\<close>

text \<open>
  \<open>point(x, y, color=None)\<close>: \<open>color or self.background_color\<close> (a color object is
  always truthy), then \<open>self.pixels[y][x] = ...\<close>; any exception is swallowed and
  leaves the buffer as it was.
\<close>

definition point :: "'o raycaster \<Rightarrow> int \<Rightarrow> int \<Rightarrow> color option \<Rightarrow> 'o raycaster" where
  "point rc x y c =
    (let v = (case c of None \<Rightarrow> background_color rc | Some col \<Rightarrow> col)
     in case py_get (pixels rc) y of
          Inl _ \<Rightarrow> rc
        | Inr row \<Rightarrow> (case py_set row x v of
                        Inl _ \<Rightarrow> rc
                      | Inr row' \<Rightarrow> (case py_set (pixels rc) y row' of
                                      Inl _ \<Rightarrow> rc
                                    | Inr px \<Rightarrow> rc\<lparr>pixels := px\<rparr>)))"

text \<open>The shape the constructor gives the buffer: \<open>height\<close> rows of \<open>width\<close> colors.\<close>

definition frame_ok :: "'o raycaster \<Rightarrow> bool" where
  "frame_ok rc \<longleftrightarrow> length (pixels rc) = height rc \<and> list_all (\<lambda>row. length row = width rc) (pixels rc)"

section \<open>Camera\<close>

text \<open>\<open>fov = int(pi/2)\<close>: \<open>int\<close> truncates, so the field of view is one radian.\<close>

definition fov :: real where
  "fov = of_int (py_int (pi / 2))"

definition camera_dir :: "nat \<Rightarrow> nat \<Rightarrow> nat \<Rightarrow> nat \<Rightarrow> V3" where
  "camera_dir w h x y =
    (let i = (2 * (real x + 0.5) / real w - 1) * tan (fov / 2) * real w / real h;
         j = (2 * (real y + 0.5) / real h - 1) * tan (fov / 2)
     in vnorm (V3 i j (-1)))"

section \<open>Rendering\<close>

text \<open>
  One pixel: the casts from \<open>V3(0.3, 0, 0)\<close> and \<open>V3(-0.3, 0, 0)\<close>; a cast that is not
  the background (by \<open>color.__ne__\<close>) is halved and tinted.
\<close>

definition render_pixel :: "'o obj_iface \<Rightarrow> 'o raycaster \<Rightarrow> nat \<Rightarrow> nat \<Rightarrow> color result" where
  "render_pixel ops rc x y =
    (let direction = camera_dir (width rc) (height rc) x y
     in rbind (cast_ray ops rc (V3 0.3 0 0) direction 0) (\<lambda>ver_rojo.
        let luz_roja = (if color_ne ver_rojo (Some (background_color rc))
                        then color_add (color_mul ver_rojo 0.5) (color 100 0 0) else ver_rojo)
        in rbind (cast_ray ops rc (V3 (-0.3) 0 0) direction 0) (\<lambda>ver_azul.
        let luz_azul = (if color_ne ver_azul (Some (background_color rc))
                        then color_add (color_mul ver_azul 0.5) (color 0 0 100) else ver_azul)
        in Inr (color_add luz_roja luz_azul))))"

fun render_row :: "'o obj_iface \<Rightarrow> 'o raycaster \<Rightarrow> nat \<Rightarrow> nat list \<Rightarrow> 'o raycaster result" where
  "render_row ops rc y [] = Inr rc"
| "render_row ops rc y (x # xs) =
     rbind (render_pixel ops rc x y) (\<lambda>luz_total.
     rbind (py_get (pixels rc) (int y)) (\<lambda>row.
     rbind (py_set row (int x) luz_total) (\<lambda>row'.
     rbind (py_set (pixels rc) (int y) row') (\<lambda>px.
     render_row ops (rc\<lparr>pixels := px\<rparr>) y xs))))"

fun render_rows :: "'o obj_iface \<Rightarrow> 'o raycaster \<Rightarrow> nat list \<Rightarrow> 'o raycaster result" where
  "render_rows ops rc [] = Inr rc"
| "render_rows ops rc (y # ys) =
     rbind (render_row ops rc y [0..<width rc]) (\<lambda>rc'. render_rows ops rc' ys)"

definition render :: "'o obj_iface \<Rightarrow> 'o raycaster \<Rightarrow> 'o raycaster result" where
  "render ops rc = render_rows ops rc [0..<height rc]"

section \<open>Lemmas\<close>


lemma frame_ok_glClear: "frame_ok (glClear rc)"
  by (simp add: frame_ok_def glClear_def list_all_iff)

lemma frame_ok_Raycaster: "frame_ok (Raycaster w h)"
  by (simp add: Raycaster_def frame_ok_glClear)

lemma frame_ok_iff: "frame_ok rc \<longleftrightarrow> map length (pixels rc) = replicate (height rc) (width rc)"
proof -
  have "map length px = replicate n w \<longleftrightarrow> length px = n \<and> list_all (\<lambda>r. length r = w) px" for px :: "color list list" and n w
  proof (induction px arbitrary: n)
    case (Cons r px)
    then show ?case by (cases n) auto
  qed auto
  then show ?thesis by (simp add: frame_ok_def)
qed

lemma frame_ok_same_shape:
  "frame_ok rc \<Longrightarrow> map length px = map length (pixels rc) \<Longrightarrow> frame_ok (rc\<lparr>pixels := px\<rparr>)"
  by (simp add: frame_ok_iff)

lemma point_shape: "\<exists>px. point rc x y c = rc\<lparr>pixels := px\<rparr> \<and> map length px = map length (pixels rc)"
  by (auto simp: point_def Let_def intro: exI [of _ "pixels rc"] dest: py_set_after_get [OF _ py_set_length]
           split: sum.splits)

lemma render_row_shape:
  "render_row ops rc y xs = Inr rc' \<Longrightarrow> \<exists>px. rc' = rc\<lparr>pixels := px\<rparr> \<and> map length px = map length (pixels rc)"
proof (induction xs arbitrary: rc)
  case Nil
  then show ?case by (intro exI [of _ "pixels rc"]) simp
next
  case (Cons x xs)
  then obtain c row row' px where
    g: "py_get (pixels rc) (int y) = Inr row" and s1: "py_set row (int x) c = Inr row'"
    and s2: "py_set (pixels rc) (int y) row' = Inr px" and r: "render_row ops (rc\<lparr>pixels := px\<rparr>) y xs = Inr rc'"
    by auto
  have "map length px = map length (pixels rc)"
    using py_set_after_get [OF g py_set_length [OF s1] s2] .
  then show ?case using Cons.IH [OF r] by auto
qed

lemma render_rows_shape:
  "render_rows ops rc ys = Inr rc' \<Longrightarrow> \<exists>px. rc' = rc\<lparr>pixels := px\<rparr> \<and> map length px = map length (pixels rc)"
proof (induction ys arbitrary: rc)
  case Nil
  then show ?case by (intro exI [of _ "pixels rc"]) simp
next
  case (Cons y ys)
  then obtain rc1 where r1: "render_row ops rc y [0..<width rc] = Inr rc1" and r: "render_rows ops rc1 ys = Inr rc'"
    by auto
  obtain px1 where p1: "rc1 = rc\<lparr>pixels := px1\<rparr>" "map length px1 = map length (pixels rc)"
    using render_row_shape [OF r1] by blast
  then show ?case using Cons.IH [OF r] by auto
qed

lemma frame_ok_render: "frame_ok rc \<Longrightarrow> render ops rc = Inr rc' \<Longrightarrow> frame_ok rc'"
  using render_rows_shape [of ops rc "[0..<height rc]" rc'] by (auto simp: render_def frame_ok_same_shape)

lemma script_frame_ok: "frame_ok script_raycaster"
  by (simp add: frame_ok_def list_all_iff)

text \<open>C27: point keeps the frame buffer a list of height rows of width colors, whatever indices it is given.\<close>

theorem frame_ok_point: "frame_ok rc \<Longrightarrow> frame_ok (point rc x y c)"
  by (auto simp: point_def frame_ok_def Let_def py_get_def py_set_def list_all_length nth_list_update
           split: option.splits sum.splits dest: py_idx_Some_less)

theorem frame_ok_point_witness:
  "frame_ok (Raycaster 2 2 :: sphere raycaster) \<and> frame_ok (point (Raycaster 2 2 :: sphere raycaster) (-7) 1 None)"
proof -
  have h: "frame_ok (Raycaster 2 2 :: sphere raycaster)" by (simp add: frame_ok_def numeral_eq_Suc)
  show ?thesis using h frame_ok_point [OF h, of "-7" 1 None] by simp
qed

text \<open>C24: point(x, y, color) with 0 <= x < width and 0 <= y < height writes the color (the background when None) at pixels[y][x] and changes nothing else.\<close>

theorem point_in_range:
  assumes "frame_ok rc" and "x < width rc" and "y < height rc"
  shows "pixels (point rc (int x) (int y) c) =
           (pixels rc)[y := (pixels rc ! y)[x := (case c of None \<Rightarrow> background_color rc | Some col \<Rightarrow> col)]]"
  using assms by (simp add: point_def frame_ok_def Let_def list_all_length)

theorem point_in_range_witness:
  "frame_ok (Raycaster 2 2 :: sphere raycaster) \<and> 1 < width (Raycaster 2 2 :: sphere raycaster) \<and> 0 < height (Raycaster 2 2 :: sphere raycaster) \<and>
   pixels (point (Raycaster 2 2 :: sphere raycaster) (int 1) (int 0) (Some WHITE)) = [[BLACK, WHITE], [BLACK, BLACK]]"
proof -
  have h: "frame_ok (Raycaster 2 2 :: sphere raycaster)" "1 < width (Raycaster 2 2 :: sphere raycaster)" "0 < height (Raycaster 2 2 :: sphere raycaster)"
    by (simp_all add: frame_ok_def numeral_eq_Suc)
  show ?thesis using h point_in_range [OF h, of "Some WHITE"]
    by (simp add: numeral_eq_Suc)
qed

text \<open>C25: A write at a non-negative index past the width or the height raises IndexError inside point, which swallows it: the renderer is unchanged.\<close>

theorem point_out_of_range:
  assumes "frame_ok rc" and "height rc \<le> y \<or> width rc \<le> x"
  shows "point rc (int x) (int y) c = rc"
  using assms by (auto simp: point_def frame_ok_def Let_def list_all_length)

theorem point_out_of_range_witness:
  "frame_ok (Raycaster 2 2 :: sphere raycaster) \<and> (height (Raycaster 2 2 :: sphere raycaster) \<le> 5 \<or> width (Raycaster 2 2 :: sphere raycaster) \<le> 0) \<and>
   point (Raycaster 2 2 :: sphere raycaster) (int 0) (int 5) (Some WHITE) = (Raycaster 2 2 :: sphere raycaster)"
proof -
  have h: "frame_ok (Raycaster 2 2 :: sphere raycaster)" "height (Raycaster 2 2 :: sphere raycaster) \<le> 5 \<or> width (Raycaster 2 2 :: sphere raycaster) \<le> 0"
    by (simp_all add: frame_ok_def numeral_eq_Suc)
  show ?thesis using h point_out_of_range [OF h, of "Some WHITE"] by simp
qed

text \<open>C26: A negative row index is not ignored: point(x, -1, c) writes into the last row, as Python list indexing wraps negative indices.\<close>

theorem point_negative_wraps:
  assumes "frame_ok rc" and "0 < height rc" and "x < width rc"
  shows "pixels (point rc (int x) (-1) c) =
           (pixels rc)[height rc - 1 := (pixels rc ! (height rc - 1))[x := (case c of None \<Rightarrow> background_color rc | Some col \<Rightarrow> col)]]"
proof -
  have "py_idx (length (pixels rc)) (-1) = Some (height rc - 1)"
    using assms by (simp add: frame_ok_def of_nat_diff)
  moreover have "nat (int (height rc) - 1) = height rc - 1" using assms(2) by linarith
  ultimately show ?thesis using assms
    by (simp add: point_def frame_ok_def Let_def list_all_length py_get_def py_set_def)
qed

theorem point_negative_wraps_witness:
  "frame_ok (Raycaster 2 2 :: sphere raycaster) \<and> 0 < height (Raycaster 2 2 :: sphere raycaster) \<and> 0 < width (Raycaster 2 2 :: sphere raycaster) \<and>
   pixels (point (Raycaster 2 2 :: sphere raycaster) (int 0) (-1) (Some WHITE)) = [[BLACK, BLACK], [WHITE, BLACK]]"
proof -
  have h: "frame_ok (Raycaster 2 2 :: sphere raycaster)" "0 < height (Raycaster 2 2 :: sphere raycaster)" "0 < width (Raycaster 2 2 :: sphere raycaster)"
    by (simp_all add: frame_ok_def numeral_eq_Suc)
  show ?thesis using h point_negative_wraps [OF h, of "Some WHITE"]
    by (simp add: numeral_eq_Suc)
qed

text \<open>\<open>fov = int(pi/2)\<close> truncates to 1: one radian, not the quarter turn \<open>pi/2\<close>.\<close>

lemma fov_eq_1: "fov = 1"
proof -
  have "2 \<le> pi" by (rule pi_ge_two)
  moreover have "pi / 2 < 2" by (rule pi_half_less_two)
  ultimately have "\<lfloor>pi / 2\<rfloor> = 1" by (simp add: floor_eq_iff)
  then show ?thesis by (simp add: fov_def py_int_def)
qed

lemma camera_half: "x < n \<Longrightarrow> \<bar>2 * (real x + 0.5) / real n - 1\<bar> < 1"
proof -
  assume "x < n"
  then have n: "0 < real n" "real x + 1 \<le> real n" by simp_all
  have "0 < 2 * (real x + 0.5) / real n" using n by simp
  moreover have "2 * (real x + 0.5) / real n < 2" using n by (simp add: divide_less_eq)
  ultimately show ?thesis by linarith
qed

lemma tan_half_pos: "0 < tan (1 / 2 :: real)"
  by (rule tan_gt_zero) (use pi_ge_two in simp_all)

text \<open>C28: Every primary ray render casts through a pixel (x < width, y < height) points away from the camera (negative z) and lies strictly inside the cone that fov = int(pi/2) = 1 radian gives: its vertical slope |y/z| is below tan(1/2), its horizontal slope |x/z| below tan(1/2) * width / height. With the intended fov = pi/2 the edge pixels would reach slope tan(pi/4) = 1.\<close>

theorem camera_fov_cone:
  assumes "x < w" and "y < h"
  shows "vz (camera_dir w h x y) < 0 \<and>
         \<bar>vy (camera_dir w h x y)\<bar> < tan (1 / 2) * - vz (camera_dir w h x y) \<and>
         \<bar>vx (camera_dir w h x y)\<bar> < tan (1 / 2) * (real w / real h) * - vz (camera_dir w h x y)"
proof -
  define i where "i = (2 * (real x + 0.5) / real w - 1) * tan (1 / 2) * real w / real h"
  define j where "j = (2 * (real y + 0.5) / real h - 1) * tan (1 / 2 :: real)"
  define l where "l = vlength (V3 i j (-1))"
  have l: "0 < l" using vlength_nonneg [of "V3 i j (-1)"] vlength_eq_0_iff [of "V3 i j (-1)"]
    by (auto simp: l_def V3_eq_iff)
  have d: "camera_dir w h x y = V3 (i / l) (j / l) (-1 / l)"
    using l by (simp add: camera_dir_def Let_def fov_eq_1 vnorm_def i_def j_def l_def)
  have wh: "0 < real w" "0 < real h" using assms by simp_all
  have jb: "\<bar>j\<bar> < tan (1 / 2)"
    using camera_half [OF assms(2)] tan_half_pos by (simp add: j_def abs_mult)
  have c: "0 < tan (1 / 2) * (real w / real h)" using tan_half_pos wh by simp
  have "\<bar>i\<bar> = \<bar>2 * (real x + 0.5) / real w - 1\<bar> * (tan (1 / 2) * (real w / real h))"
    using tan_half_pos wh by (simp add: i_def abs_mult)
  also have "\<dots> < 1 * (tan (1 / 2) * (real w / real h))"
    using camera_half [OF assms(1)] c by (rule mult_strict_right_mono)
  finally have ib: "\<bar>i\<bar> < tan (1 / 2) * (real w / real h)" by simp
  have a: "\<bar>i\<bar> / l < tan (1 / 2) * (real w / real h) / l" using ib l by (rule divide_strict_right_mono)
  have b: "\<bar>j\<bar> / l < tan (1 / 2) / l" using jb l by (rule divide_strict_right_mono)
  have e: "tan (1 / 2) * (real w / real h) * - (- 1 / l) = tan (1 / 2) * (real w / real h) / l"
          "tan (1 / 2) * - (- 1 / l) = tan (1 / 2) / l" by simp_all
  show ?thesis
    unfolding d V3.sel e using a b l by (simp add: abs_div)
qed

theorem camera_fov_cone_witness:
  "(0::nat) < 2 \<and> (0::nat) < 2 \<and>
   vz (camera_dir 2 2 0 0) < 0 \<and>
   \<bar>vy (camera_dir 2 2 0 0)\<bar> < tan (1 / 2) * - vz (camera_dir 2 2 0 0) \<and>
   \<bar>vx (camera_dir 2 2 0 0)\<bar> < tan (1 / 2) * (real 2 / real 2) * - vz (camera_dir 2 2 0 0)"
proof -
  have h: "(0::nat) < 2" by simp
  show ?thesis using camera_fov_cone [OF h h] by simp
qed

text \<open>Every primary ray direction the camera produces has length 1.\<close>

theorem camera_dir_unit: "vlength (camera_dir w h x y) = 1"
  by (simp add: camera_dir_def Let_def vlength_vnorm)

lemma shadow_intensity_pixels: "shadow_intensity ops (rc\<lparr>pixels := p\<rparr>) lt hit = shadow_intensity ops rc lt hit"
  by (simp add: shadow_intensity_def)

lemma cast_ray_pixels: "cast_ray ops (rc\<lparr>pixels := p\<rparr>) orig direction r = cast_ray ops rc orig direction r"
proof (induction ops rc orig direction r rule: cast_ray.induct)
  case (1 ops rc orig direction recursion)
  show ?case
  proof (cases "scene_intersect ops (scene rc) orig direction")
    case (Pair m isect)
    show ?thesis
    proof (cases "m = None \<or> isect = None \<or> MAX_RECURSION_DEPTH \<le> recursion")
      case True
      then show ?thesis by (subst (1 2) cast_ray.simps) (auto simp: Pair split: option.splits)
    next
      case False
      then obtain mat hit where mh: "m = Some mat" "isect = Some hit" "\<not> MAX_RECURSION_DEPTH \<le> recursion"
        by auto
      note r1 = "1.IH"(1) [OF Pair [symmetric] mh(1) mh(3) mh(2) _ HOL.refl HOL.refl, simplified]
      note r2 = "1.IH"(2) [OF Pair [symmetric] mh(1) mh(3) mh(2), simplified]
      show ?thesis
        by (subst (1 2) cast_ray.simps)
           (simp add: Pair mh r1 r2 shadow_intensity_pixels Let_def cong: if_cong split: option.split)
    qed
  qed
qed

lemma render_pixel_pixels: "render_pixel ops (rc\<lparr>pixels := p\<rparr>) x y = render_pixel ops rc x y"
  by (simp add: render_pixel_def cast_ray_pixels)

lemma foldl_update_upt:
  "k \<le> length row \<Longrightarrow> foldl (\<lambda>r i. r[i := f i]) row [0..<k] = map f [0..<k] @ drop k row"
proof (induction k)
  case 0
  then show ?case by simp
next
  case (Suc k)
  then have "drop k row = row ! k # drop (Suc k) row" by (simp add: Cons_nth_drop_Suc)
  with Suc show ?case by (simp add: list_update_append)
qed

lemma foldl_update_all: "length row = n \<Longrightarrow> foldl (\<lambda>r i. r[i := f i]) row [0..<n] = map f [0..<n]"
  using foldl_update_upt [of n row f] by simp

lemma render_row_ok:
  "frame_ok rc \<Longrightarrow> y < height rc \<Longrightarrow>
   \<forall>x\<in>set xs. x < width rc \<and> render_pixel ops rc x y = Inr (f x) \<Longrightarrow>
   render_row ops rc y xs = Inr (rc\<lparr>pixels := (pixels rc)[y := foldl (\<lambda>r i. r[i := f i]) (pixels rc ! y) xs]\<rparr>)"
proof (induction xs arbitrary: rc)
  case Nil
  then show ?case by simp
next
  case (Cons x xs)
  let ?rc1 = "rc\<lparr>pixels := (pixels rc)[y := (pixels rc ! y)[x := f x]]\<rparr>"
  have len: "length (pixels rc) = height rc" "length (pixels rc ! y) = width rc"
    using Cons.prems by (auto simp: frame_ok_def list_all_length)
  have ok1: "frame_ok ?rc1" using Cons.prems len
    by (auto simp: frame_ok_def list_all_length nth_list_update)
  have "\<forall>x\<in>set xs. x < width ?rc1 \<and> render_pixel ops ?rc1 x y = Inr (f x)"
    using Cons.prems by (simp add: render_pixel_pixels)
  with ok1 Cons.prems have "render_row ops ?rc1 y xs =
      Inr (?rc1\<lparr>pixels := (pixels ?rc1)[y := foldl (\<lambda>r i. r[i := f i]) (pixels ?rc1 ! y) xs]\<rparr>)"
    by (intro Cons.IH) simp_all
  then show ?case using Cons.prems len by simp
qed

lemma render_rows_ok:
  "frame_ok rc \<Longrightarrow> \<forall>y\<in>set ys. y < height rc \<Longrightarrow>
   \<forall>y\<in>set ys. \<forall>x<width rc. render_pixel ops rc x y = Inr (f x y) \<Longrightarrow>
   render_rows ops rc ys =
     Inr (rc\<lparr>pixels := foldl (\<lambda>p y. p[y := map (\<lambda>x. f x y) [0..<width rc]]) (pixels rc) ys\<rparr>)"
proof (induction ys arbitrary: rc)
  case Nil
  then show ?case by simp
next
  case (Cons y ys)
  let ?rc1 = "rc\<lparr>pixels := (pixels rc)[y := map (\<lambda>x. f x y) [0..<width rc]]\<rparr>"
  have len: "length (pixels rc ! y) = width rc"
    using Cons.prems by (auto simp: frame_ok_def list_all_length)
  have row: "render_row ops rc y [0..<width rc] = Inr ?rc1"
    using Cons.prems len render_row_ok [of rc y "[0..<width rc]" ops "\<lambda>x. f x y"]
    by (simp add: foldl_update_all)
  have ok1: "frame_ok ?rc1" using Cons.prems
    by (auto simp: frame_ok_def list_all_length nth_list_update)
  have "render_rows ops ?rc1 ys =
      Inr (?rc1\<lparr>pixels := foldl (\<lambda>p y. p[y := map (\<lambda>x. f x y) [0..<width ?rc1]]) (pixels ?rc1) ys\<rparr>)"
    using Cons.prems ok1 by (intro Cons.IH) (simp_all add: render_pixel_pixels)
  then show ?case using row by simp
qed

lemma render_pixel_defined:
  assumes "scene_ok ops rc" shows "\<exists>c. render_pixel ops rc x y = Inr c"
proof -
  let ?d = "camera_dir (width rc) (height rc) x y"
  obtain c1 where c1: "cast_ray ops rc (V3 0.3 0 0) ?d 0 = Inr c1"
    using cast_ray_Inr [OF assms] by blast
  obtain c2 where c2: "cast_ray ops rc (V3 (-0.3) 0 0) ?d 0 = Inr c2"
    using cast_ray_Inr [OF assms] by blast
  show ?thesis by (simp add: render_pixel_def Let_def c1 c2)
qed

lemma render_result:
  assumes "frame_ok rc" and "scene_ok ops rc"
  shows "render ops rc =
           Inr (rc\<lparr>pixels := map (\<lambda>y. map (\<lambda>x. projr (render_pixel ops rc x y)) [0..<width rc]) [0..<height rc]\<rparr>)"
proof -
  have px: "render_pixel ops rc x y = Inr (projr (render_pixel ops rc x y))" for x y
    using render_pixel_defined [OF assms(2), of x y] by auto
  have "length (pixels rc) = height rc" using assms(1) by (simp add: frame_ok_def)
  then show ?thesis
    using assms(1) px render_rows_ok [of rc "[0..<height rc]" ops "\<lambda>x y. projr (render_pixel ops rc x y)"]
    by (simp add: render_def foldl_update_all)
qed

text \<open>C3: On a renderer whose buffer has its constructed shape and whose scene is well formed, render raises nothing and leaves at every pixel (x, y) the composite of the red-tinted cast from V3(0.3, 0, 0) and the blue-tinted cast from V3(-0.3, 0, 0); the other fields are unchanged.\<close>

theorem render_correct:
  assumes "frame_ok rc" and "scene_ok ops rc"
  shows "render ops rc =
           Inr (rc\<lparr>pixels := map (\<lambda>y. map (\<lambda>x. projr (render_pixel ops rc x y)) [0..<width rc]) [0..<height rc]\<rparr>)"
  using assms by (rule render_result)

theorem render_correct_witness:
  "frame_ok script_raycaster \<and> scene_ok sphere_iface script_raycaster \<and>
   render sphere_iface script_raycaster =
     Inr (script_raycaster\<lparr>pixels := map (\<lambda>y. map (\<lambda>x. projr (render_pixel sphere_iface script_raycaster x y))
            [0..<width script_raycaster]) [0..<height script_raycaster]\<rparr>)"
  using script_frame_ok script_scene_ok render_correct [OF script_frame_ok script_scene_ok] by blast

end
