(* ===== verification/Bytes.thy ===== *)
theory Bytes
  imports Prelude
begin

text \<open>
  The \<open>struct\<close> packers of \<open>src/lib.py\<close>: \<open>char\<close> (\<open>'=c'\<close>), \<open>word\<close>
  (\<open>'=h'\<close>, signed 16 bit) and \<open>dword\<close> (\<open>'=l'\<close>, signed 32 bit). The \<open>'='\<close>
  prefix means standard sizes in the host's byte order; the model fixes a little-endian
  host, the one the bitmap format needs. A value out of range raises \<open>struct.error\<close>,
  a non-ASCII string raises UnicodeEncodeError. The decoders are the inverse reading of
  the same layout; the round-trip lemmas state that they invert the packers.
\<close>

type_synonym byte = "8 word"

section \<open>Packing\<close>

text \<open>The \<open>n\<close> low bytes of the two's complement of \<open>v\<close>, least significant first.\<close>

fun le_bytes :: "nat \<Rightarrow> int \<Rightarrow> byte list" where
  "le_bytes 0 v = []"
| "le_bytes (Suc n) v = word_of_int v # le_bytes n (v div 256)"

text \<open>\<open>struct.pack\<close> of a signed integer of \<open>n\<close> bytes.\<close>

definition pack_signed :: "nat \<Rightarrow> int \<Rightarrow> byte list result" where
  "pack_signed n c = (if - (2 ^ (8 * n - 1)) \<le> c \<and> c < 2 ^ (8 * n - 1)
                      then Inr (le_bytes n c) else Inl StructError)"

definition word :: "int \<Rightarrow> byte list result" where
  "word c = pack_signed 2 c"

definition dword :: "int \<Rightarrow> byte list result" where
  "dword c = pack_signed 4 c"

text \<open>
  \<open>char(c)\<close>: \<open>c.encode('ascii')\<close> raises on a non-ASCII character; \<open>'=c'\<close>
  raises unless the encoded string has exactly one byte.
\<close>

definition char :: "string \<Rightarrow> byte list result" where
  "char c = (if list_ex (\<lambda>ch. (128::nat) \<le> of_char ch) c then Inl UnicodeEncodeError
             else if length c \<noteq> 1 then Inl StructError
             else Inr [word_of_int (of_char (hd c))])"

section \<open>Unpacking\<close>

definition le_uint :: "byte list \<Rightarrow> int" where
  "le_uint bs = horner_sum uint 256 bs"

definition unpack_signed :: "nat \<Rightarrow> byte list \<Rightarrow> int" where
  "unpack_signed n bs = (let u = le_uint bs in if 2 ^ (8 * n - 1) \<le> u then u - 2 ^ (8 * n) else u)"

section \<open>Lemmas\<close>

lemma le_bytes_numeral [simp]:
  "le_bytes (numeral k) v = word_of_int v # le_bytes (pred_numeral k) (v div 256)"
  by (simp add: numeral_eq_Suc)

lemma length_le_bytes [simp]: "length (le_bytes n v) = n"
  by (induction n arbitrary: v) auto

lemma le_uint_le_bytes: "le_uint (le_bytes n v) = v mod 256 ^ n"
proof (induction n arbitrary: v)
  case 0
  then show ?case by (simp add: le_uint_def)
next
  case (Suc n)
  have "le_uint (le_bytes (Suc n) v) = v mod 256 + 256 * ((v div 256) mod 256 ^ n)"
    using Suc.IH [of "v div 256"] by (simp add: le_uint_def uint_word_of_int_eq take_bit_eq_mod)
  also have "\<dots> = v mod 256 ^ Suc n"
    using zmod_zmult2_eq [where a = v and b = 256 and c = "256 ^ n"] by simp
  finally show ?case .
qed

lemma pack_signed_length: "pack_signed n c = Inr bs \<Longrightarrow> length bs = n"
  by (auto simp: pack_signed_def split: if_splits)

text \<open>Reading back what \<open>struct.pack\<close> wrote gives the value packed.\<close>

lemma unpack_le_bytes:
  assumes "0 < n" and "pack_signed n c = Inr bs"
  shows "unpack_signed n bs = c"
proof -
  have r: "- (2 ^ (8 * n - 1)) \<le> c" "c < 2 ^ (8 * n - 1)" and bs: "bs = le_bytes n c"
    using assms(2) by (auto simp: pack_signed_def split: if_splits)
  have q: "(2::int) ^ (8 * n) = 2 * 2 ^ (8 * n - 1)"
  proof -
    have "8 * n = Suc (8 * n - 1)" using assms(1) by simp
    then show ?thesis by (metis power_Suc)
  qed
  have p: "(256::int) ^ n = 2 * 2 ^ (8 * n - 1)"
    using q by (simp add: power_mult)
  show ?thesis
  proof (cases "0 \<le> c")
    case True
    then have "c mod 256 ^ n = c" using r p by simp
    then show ?thesis using r p
      by (simp add: unpack_signed_def bs le_uint_le_bytes Let_def q)
  next
    case False
    have "c mod 256 ^ n = (c + 256 ^ n) mod 256 ^ n" by simp
    also have "\<dots> = c + 256 ^ n" using r p False by (intro mod_pos_pos_trivial) simp_all
    finally have "c mod 256 ^ n = c + 256 ^ n" .
    then show ?thesis using r p False
      by (simp add: unpack_signed_def bs le_uint_le_bytes Let_def q)
  qed
qed

lemma pack_signed_in_range:
  "- (2 ^ (8 * n - 1)) \<le> c \<Longrightarrow> c < 2 ^ (8 * n - 1) \<Longrightarrow> pack_signed n c = Inr (le_bytes n c)"
  by (simp add: pack_signed_def)

lemma unpack_signed_le_bytes:
  "0 < n \<Longrightarrow> - (2 ^ (8 * n - 1)) \<le> c \<Longrightarrow> c < 2 ^ (8 * n - 1) \<Longrightarrow> unpack_signed n (le_bytes n c) = c"
  by (rule unpack_le_bytes) (simp_all add: pack_signed_def)

text \<open>C23: Every value that struct.pack accepts for a signed n-byte field (n > 0) reads back unchanged from the little-endian bytes it writes.\<close>

theorem unpack_pack_signed:
  assumes "0 < n" and "pack_signed n c = Inr bs"
  shows "unpack_signed n bs = c"
  using assms by (rule unpack_le_bytes)

theorem unpack_pack_signed_witness:
  "(0::nat) < 4 \<and> pack_signed 4 (-1) = Inr [255, 255, 255, 255] \<and> unpack_signed 4 [255, 255, 255, 255] = -1"
proof -
  have h: "(0::nat) < 4" "pack_signed 4 (-1) = Inr [255, 255, 255, 255]"
    by (simp_all add: pack_signed_def)
  show ?thesis using h unpack_pack_signed [OF h] by simp
qed

end
