(* ===== verification/Bitmap.thy ===== *)
theory Bitmap
  imports Render Bytes
begin

text \<open>
  \<open>Raycaster.finish\<close> of \<open>src/ray.py\<close>: the 24-bit bitmap writer. The file is the
  sequence of byte strings passed to \<open>f.write\<close>; an exception stops the sequence and
  leaves what was written so far in the file (the handle is never closed on that path).
  The pixel loop runs \<open>x\<close> over \<open>range(width)\<close> and \<open>y\<close> over \<open>range(height)\<close>
  and writes \<open>self.pixels[x][y].toBytes()\<close>, each call clamping that pixel object in
  place. The result of \<open>finish\<close> is the bytes written, the exception if any, and the
  renderer with the mutated buffer. Opening and closing the file are not modelled.
\<close>

section \<open>The writer\<close>

text \<open>The header writes of lines 42--60, in order.\<close>

definition header_chunks :: "'o raycaster \<Rightarrow> byte list result list" where
  "header_chunks rc =
     (let w = int (width rc); h = int (height rc) in
      [char ''B'', char ''M'', dword (14 + 40 + w * h * 3), dword 0, dword (14 + 40),
       dword 40, dword w, dword h, word 1, word 24, dword 0, dword (w * h * 3),
       dword 0, dword 0, dword 0, dword 0])"

text \<open>\<open>f.write\<close> of each chunk in turn; the first exception stops the writes.\<close>

fun emit :: "byte list result list \<Rightarrow> byte list \<Rightarrow> byte list \<times> py_error option" where
  "emit [] acc = (acc, None)"
| "emit (Inl e # cs) acc = (acc, Some e)"
| "emit (Inr bs # cs) acc = emit cs (acc @ bs)"

text \<open>The inner loop over \<open>y\<close> for one \<open>x\<close>: read \<open>pixels[x][y]\<close>, serialise it, store the clamped object back.\<close>

fun finish_col :: "color list list \<Rightarrow> nat \<Rightarrow> nat list \<Rightarrow> byte list \<Rightarrow> byte list \<times> py_error option \<times> color list list" where
  "finish_col px x [] acc = (acc, None, px)"
| "finish_col px x (y # ys) acc =
     (case py_get px (int x) of
        Inl e \<Rightarrow> (acc, Some e, px)
      | Inr row \<Rightarrow> (case py_get row (int y) of
          Inl e \<Rightarrow> (acc, Some e, px)
        | Inr c \<Rightarrow> (case toBytes c of (bs, c') \<Rightarrow>
            finish_col (px[x := row[y := c']]) x ys (acc @ bs))))"

fun finish_cols :: "color list list \<Rightarrow> nat list \<Rightarrow> nat list \<Rightarrow> byte list \<Rightarrow> byte list \<times> py_error option \<times> color list list" where
  "finish_cols px [] ys acc = (acc, None, px)"
| "finish_cols px (x # xs) ys acc =
     (case finish_col px x ys acc of
        (acc', Some e, px') \<Rightarrow> (acc', Some e, px')
      | (acc', None, px') \<Rightarrow> finish_cols px' xs ys acc')"

definition finish :: "'o raycaster \<Rightarrow> byte list \<times> py_error option \<times> 'o raycaster" where
  "finish rc =
     (case emit (header_chunks rc) [] of
        (hdr, Some e) \<Rightarrow> (hdr, Some e, rc)
      | (hdr, None) \<Rightarrow> (case finish_cols (pixels rc) [0..<width rc] [0..<height rc] hdr of
          (file, err, px) \<Rightarrow> (file, err, rc\<lparr>pixels := px\<rparr>)))"

text \<open>The sizes for which every header field fits its signed 32-bit slot.\<close>

definition bmp_fits :: "nat \<Rightarrow> nat \<Rightarrow> bool" where
  "bmp_fits w h \<longleftrightarrow> w < 2 ^ 31 \<and> h < 2 ^ 31 \<and> 54 + w * h * 3 < 2 ^ 31"

section \<open>The format, from the spec\<close>

text \<open>
  The 54-byte header of a \<open>w \<times> h\<close> 24-bit bitmap as section 6 of the spec lays it out,
  and a reader of its fields (file size, data offset, width, height, bits per pixel).
\<close>

definition bmp_header :: "nat \<Rightarrow> nat \<Rightarrow> byte list" where
  "bmp_header w h =
     [66, 77] @ le_bytes 4 (54 + int (w * h * 3)) @ le_bytes 4 0 @ le_bytes 4 54 @
     le_bytes 4 40 @ le_bytes 4 (int w) @ le_bytes 4 (int h) @ le_bytes 2 1 @ le_bytes 2 24 @
     le_bytes 4 0 @ le_bytes 4 (int (w * h * 3)) @ le_bytes 4 0 @ le_bytes 4 0 @ le_bytes 4 0 @ le_bytes 4 0"

definition field :: "nat \<Rightarrow> nat \<Rightarrow> byte list \<Rightarrow> int" where
  "field off n bs = unpack_signed n (take n (drop off bs))"

definition parse_header :: "byte list \<Rightarrow> (int \<times> int \<times> int \<times> int \<times> int) option" where
  "parse_header bs =
     (if length bs < 54 \<or> take 2 bs \<noteq> [66, 77] then None
      else Some (field 2 4 bs, field 10 4 bs, field 18 4 bs, field 22 4 bs, field 28 2 bs))"

section \<open>Lemmas\<close>

lemma char_B: "char ''B'' = Inr [66]" and char_M: "char ''M'' = Inr [77]"
  by (simp_all add: char_def)

lemma dword_fits: "0 \<le> c \<Longrightarrow> c < 2 ^ 31 \<Longrightarrow> dword c = Inr (le_bytes 4 c)"
  by (simp add: dword_def pack_signed_def)

lemma header_emit:
  assumes "bmp_fits (width rc) (height rc)"
  shows "emit (header_chunks rc) [] = (bmp_header (width rc) (height rc), None)"
proof -
  have n: "width rc < 2 ^ 31" "height rc < 2 ^ 31" "width rc * height rc * 3 + 54 < 2 ^ 31"
    using assms by (simp_all add: bmp_fits_def)
  have "int (width rc * height rc * 3 + 54) < int (2 ^ 31)" using n(3) by (simp only: of_nat_less_iff)
  then have p: "int (width rc) * int (height rc) * 3 + 54 < 2 ^ 31" by simp
  have f1: "int (width rc) < 2 ^ 31" using n(1) by simp
  have f2: "int (height rc) < 2 ^ 31" using n(2) by simp
  have f3: "54 + int (width rc) * int (height rc) * 3 < 2 ^ 31" using p by linarith
  have f4: "int (width rc) * int (height rc) * 3 < 2 ^ 31" using p by linarith
  note f = f1 f2 f3 f4
  show ?thesis using f
    by (simp add: header_chunks_def Let_def char_B char_M dword_fits word_def pack_signed_def bmp_header_def
             del: le_bytes_numeral)
qed

lemma finish_col_ok:
  "x < length px \<Longrightarrow> \<forall>y\<in>set ys. y < length (px ! x) \<Longrightarrow> distinct ys \<Longrightarrow>
   \<exists>px'. finish_col px x ys acc = (acc @ concat (map (\<lambda>y. fst (toBytes (px ! x ! y))) ys), None, px') \<and>
         length px' = length px \<and> (\<forall>i. i \<noteq> x \<longrightarrow> px' ! i = px ! i) \<and> length (px' ! x) = length (px ! x)"
proof (induction ys arbitrary: px acc)
  case Nil
  then show ?case by simp
next
  case (Cons y ys)
  define px1 where "px1 = px[x := (px ! x)[y := snd (toBytes (px ! x ! y))]]"
  have l1: "length px1 = length px" "length (px1 ! x) = length (px ! x)" and
    o1: "\<forall>i. i \<noteq> x \<longrightarrow> px1 ! i = px ! i" and
    r1: "\<forall>y'\<in>set ys. px1 ! x ! y' = px ! x ! y'"
    using Cons.prems by (auto simp: px1_def nth_list_update)
  obtain px' where ih: "finish_col px1 x ys (acc @ fst (toBytes (px ! x ! y))) =
      (acc @ fst (toBytes (px ! x ! y)) @ concat (map (\<lambda>y. fst (toBytes (px1 ! x ! y))) ys), None, px')"
    and p': "length px' = length px1" "\<forall>i. i \<noteq> x \<longrightarrow> px' ! i = px1 ! i" "length (px' ! x) = length (px1 ! x)"
    using Cons.IH [of px1 "acc @ fst (toBytes (px ! x ! y))"] Cons.prems l1 by auto
  have m: "map (\<lambda>y. fst (toBytes (px1 ! x ! y))) ys = map (\<lambda>y. fst (toBytes (px ! x ! y))) ys"
    using r1 by simp
  have step: "finish_col px x (y # ys) acc = finish_col px1 x ys (acc @ fst (toBytes (px ! x ! y)))"
    using Cons.prems by (simp add: px1_def split: prod.splits)
  show ?case using ih p' l1 o1 m step by auto
qed

lemma finish_cols_ok:
  "\<forall>x\<in>set xs. x < length px \<and> (\<forall>y\<in>set ys. y < length (px ! x)) \<Longrightarrow> distinct xs \<Longrightarrow> distinct ys \<Longrightarrow>
   \<exists>px'. finish_cols px xs ys acc =
           (acc @ concat (map (\<lambda>x. concat (map (\<lambda>y. fst (toBytes (px ! x ! y))) ys)) xs), None, px') \<and>
         length px' = length px"
proof (induction xs arbitrary: px acc)
  case Nil
  then show ?case by simp
next
  case (Cons x xs)
  obtain px1 where c: "finish_col px x ys acc = (acc @ concat (map (\<lambda>y. fst (toBytes (px ! x ! y))) ys), None, px1)"
    and l: "length px1 = length px" "\<forall>i. i \<noteq> x \<longrightarrow> px1 ! i = px ! i"
    using finish_col_ok [of x px ys acc] Cons.prems by auto
  have same: "\<forall>x'\<in>set xs. px1 ! x' = px ! x'" using l Cons.prems by auto
  obtain px' where ih: "finish_cols px1 xs ys (acc @ concat (map (\<lambda>y. fst (toBytes (px ! x ! y))) ys)) =
      (acc @ concat (map (\<lambda>y. fst (toBytes (px ! x ! y))) ys) @
       concat (map (\<lambda>x. concat (map (\<lambda>y. fst (toBytes (px1 ! x ! y))) ys)) xs), None, px')"
    and l': "length px' = length px1"
    using Cons.IH [of px1 "acc @ concat (map (\<lambda>y. fst (toBytes (px ! x ! y))) ys)"] Cons.prems l same by auto
  have m: "map (\<lambda>x. concat (map (\<lambda>y. fst (toBytes (px1 ! x ! y))) ys)) xs =
           map (\<lambda>x. concat (map (\<lambda>y. fst (toBytes (px ! x ! y))) ys)) xs"
    using same by simp
  show ?case using c ih l l' m by simp
qed

lemma finish_cols_append:
  "finish_cols px (xs @ xs') ys acc =
     (case finish_cols px xs ys acc of (a, Some e, p) \<Rightarrow> (a, Some e, p) | (a, None, p) \<Rightarrow> finish_cols p xs' ys a)"
  by (induction xs arbitrary: px acc) (auto split: prod.splits option.splits)

lemma finish_col_append:
  "finish_col px x (ys @ ys') acc =
     (case finish_col px x ys acc of (a, Some e, p) \<Rightarrow> (a, Some e, p) | (a, None, p) \<Rightarrow> finish_col p x ys' a)"
proof (induction ys arbitrary: px acc)
  case (Cons y ys)
  show ?case
  proof (cases "py_get px (int x)")
    case (Inr row)
    then show ?thesis using Cons.IH by (cases "py_get row (int y)") (simp_all split: prod.split)
  qed simp
qed simp

lemma map_upt_nth: "map (\<lambda>i. f (xs ! i)) [0..<length xs] = map f xs"
  by (rule nth_equalityI) simp_all

lemma toBytes_length: "length (fst (toBytes c)) = 3"
  by (simp add: toBytes_def Let_def)

lemma finish_square_bytes:
  assumes "frame_ok rc" and "width rc = height rc" and "bmp_fits (width rc) (height rc)"
  shows "fst (finish rc) = bmp_header (width rc) (height rc) @
                           concat (map (\<lambda>row. concat (map (\<lambda>c. fst (toBytes c)) row)) (pixels rc)) \<and>
         fst (snd (finish rc)) = None"
proof -
  define n where "n = width rc"
  define px where "px = pixels rc"
  have len: "length px = n" and rows: "\<forall>x<n. length (px ! x) = n"
    using assms(1,2) by (auto simp: frame_ok_def n_def px_def list_all_length)
  obtain px' where c: "finish_cols px [0..<n] [0..<n] (bmp_header n n) =
      (bmp_header n n @ concat (map (\<lambda>x. concat (map (\<lambda>y. fst (toBytes (px ! x ! y))) [0..<n])) [0..<n]), None, px')"
    using finish_cols_ok [of "[0..<n]" px "[0..<n]" "bmp_header n n"] len rows by auto
  have inner: "\<forall>x\<in>set [0..<n]. map (\<lambda>y. fst (toBytes (px ! x ! y))) [0..<n] = map (\<lambda>c. fst (toBytes c)) (px ! x)"
    using rows map_upt_nth [of "\<lambda>c. fst (toBytes c)" "px ! x" for x] by auto
  have "map (\<lambda>x. concat (map (\<lambda>y. fst (toBytes (px ! x ! y))) [0..<n])) [0..<n] =
        map (\<lambda>x. concat (map (\<lambda>c. fst (toBytes c)) (px ! x))) [0..<length px]"
    using inner len by simp
  also have "\<dots> = map (\<lambda>row. concat (map (\<lambda>c. fst (toBytes c)) row)) px"
    by (rule map_upt_nth)
  finally have m: "map (\<lambda>x. concat (map (\<lambda>y. fst (toBytes (px ! x ! y))) [0..<n])) [0..<n] =
                   map (\<lambda>row. concat (map (\<lambda>c. fst (toBytes c)) row)) px" .
  show ?thesis
    using header_emit [OF assms(3)] c m assms(2) by (simp add: finish_def n_def px_def)
qed

lemma upt_split: "a < b \<Longrightarrow> [0..<b] = [0..<a] @ a # [Suc a..<b]"
  using upt_add_eq_append [of 0 a "b - a"] upt_conv_Cons [of a b] by simp

lemma finish_nonsquare_error:
  assumes "frame_ok rc" and "bmp_fits (width rc) (height rc)"
    and "0 < width rc" and "0 < height rc" and "width rc \<noteq> height rc"
  shows "fst (snd (finish rc)) = Some IndexError"
proof -
  define w where "w = width rc"
  define h where "h = height rc"
  define px where "px = pixels rc"
  have len: "length px = h" and rows: "\<forall>x<h. length (px ! x) = w"
    using assms(1) by (auto simp: frame_ok_def w_def h_def px_def list_all_length)
  have "fst (snd (finish_cols px [0..<w] [0..<h] (bmp_header w h))) = Some IndexError"
  proof (cases "h < w")
    case True
    have split: "[0..<w] = [0..<h] @ h # [Suc h..<w]"
      using True by (rule upt_split)
    obtain px' where c: "finish_cols px [0..<h] [0..<h] (bmp_header w h) =
        (bmp_header w h @ concat (map (\<lambda>x. concat (map (\<lambda>y. fst (toBytes (px ! x ! y))) [0..<h])) [0..<h]), None, px')"
      and l: "length px' = h"
      using finish_cols_ok [of "[0..<h]" px "[0..<h]" "bmp_header w h"] len rows True by auto
    have ys: "[0..<h] = 0 # [1..<h]" using assms(4) h_def by (simp add: upt_conv_Cons del: upt_Suc)
    have "finish_col px' h [0..<h] acc = (acc, Some IndexError, px')" for acc
      using l by (subst ys) (simp add: py_get_def)
    then show ?thesis using c by (simp add: split finish_cols_append)
  next
    case False
    then have lt: "w < h" using assms(5) w_def h_def by simp
    have split: "[0..<h] = [0..<w] @ w # [Suc w..<h]"
      using lt by (rule upt_split)
    have r0: "length (px ! 0) = w" using rows assms(4) h_def by simp
    obtain px' where c: "finish_col px 0 [0..<w] (bmp_header w h) =
        (bmp_header w h @ concat (map (\<lambda>y. fst (toBytes (px ! 0 ! y))) [0..<w]), None, px')"
      and l: "length px' = length px" "length (px' ! 0) = w"
      using finish_col_ok [of 0 px "[0..<w]" "bmp_header w h"] len r0 assms(4) h_def by auto
    have "fst (snd (finish_col px 0 [0..<h] (bmp_header w h))) = Some IndexError"
      using c l len assms(4) h_def unfolding split by (simp add: finish_col_append py_get_def)
    moreover have xs: "[0..<w] = 0 # [1..<w]" using assms(3) w_def by (simp add: upt_conv_Cons del: upt_Suc)
    ultimately show ?thesis by (auto simp: xs split: prod.splits option.splits)
  qed
  then show ?thesis
    using header_emit [OF assms(2)] by (simp add: finish_def w_def h_def px_def split_beta)
qed

lemma bmp_header_length: "length (bmp_header w h) = 54"
  by (simp add: bmp_header_def del: le_bytes_numeral)

lemma parse_header_append:
  "54 \<le> length bs \<Longrightarrow> parse_header (bs @ rest) = parse_header bs"
  by (simp add: parse_header_def field_def)

lemma parse_bmp_header:
  assumes "bmp_fits w h"
  shows "parse_header (bmp_header w h) = Some (54 + int (w * h * 3), 54, int w, int h, 24)"
proof -
  have n: "w < 2 ^ 31" "h < 2 ^ 31" "w * h * 3 + 54 < 2 ^ 31"
    using assms by (simp_all add: bmp_fits_def)
  have "int (w * h * 3 + 54) < int (2 ^ 31)" using n(3) by (simp only: of_nat_less_iff)
  then have p: "54 + int (w * h * 3) < 2 ^ 31" by simp
  have f1: "int w < 2 ^ 31" using n(1) by simp
  have f2: "int h < 2 ^ 31" using n(2) by simp
  have u: "\<And>c. 0 \<le> c \<Longrightarrow> c < 2 ^ 31 \<Longrightarrow> unpack_signed 4 (le_bytes 4 c) = c"
    by (rule unpack_signed_le_bytes) simp_all
  have u2: "unpack_signed 2 (le_bytes 2 24) = 24"
    by (rule unpack_signed_le_bytes) simp_all
  show ?thesis
    using u [of "54 + int (w * h * 3)"] u [of 54] u [of "int w"] u [of "int h"] u2 p f1 f2
    by (simp add: parse_header_def field_def bmp_header_def del: le_bytes_numeral)
qed

lemma finish_length:
  assumes "frame_ok rc" and "width rc = height rc" and "bmp_fits (width rc) (height rc)"
  shows "length (fst (finish rc)) = 54 + width rc * height rc * 3"
proof -
  have "length (concat (map (\<lambda>row. concat (map (\<lambda>c. fst (toBytes c)) row)) (pixels rc))) =
        sum_list (map (\<lambda>row. length row * 3) (pixels rc))"
    by (simp add: length_concat comp_def toBytes_length sum_list_triv)
  also have "\<dots> = sum_list (map (\<lambda>row. 3 * width rc) (pixels rc))"
    using assms(1) by (intro arg_cong [where f = sum_list] map_cong) (auto simp: frame_ok_def list_all_iff)
  also have "\<dots> = width rc * height rc * 3"
    using assms(1) by (simp add: frame_ok_def sum_list_triv)
  finally show ?thesis
    using finish_square_bytes [OF assms] by (simp add: bmp_header_length)
qed

lemma finish_header_parse:
  assumes "frame_ok rc" and "width rc = height rc" and "bmp_fits (width rc) (height rc)"
  shows "parse_header (fst (finish rc)) =
           Some (int (length (fst (finish rc))), 54, int (width rc), int (height rc), 24)"
proof -
  have "parse_header (fst (finish rc)) = parse_header (bmp_header (width rc) (height rc))"
    using finish_square_bytes [OF assms] by (simp add: parse_header_append bmp_header_length)
  then show ?thesis
    using parse_bmp_header [OF assms(3)] finish_length [OF assms] by simp
qed

lemma finish_col_shape:
  "finish_col px x ys acc = (a, e, px') \<Longrightarrow> map length px' = map length px"
proof (induction ys arbitrary: px acc)
  case Nil
  then show ?case by simp
next
  case (Cons y ys)
  show ?case
  proof (cases "x < length px \<and> y < length (px ! x)")
    case True
    let ?px1 = "px[x := (px ! x)[y := snd (toBytes (px ! x ! y))]]"
    have "map length ?px1 = map length px"
      using True by (simp add: map_length_update)
    then show ?thesis using Cons True by (simp split: prod.splits)
  next
    case False
    then show ?thesis using Cons.prems by (auto split: if_splits)
  qed
qed

lemma finish_cols_shape:
  "finish_cols px xs ys acc = (a, e, px') \<Longrightarrow> map length px' = map length px"
proof (induction xs arbitrary: px acc)
  case (Cons x xs)
  then show ?case using finish_col_shape
    by (auto split: prod.splits option.splits)
qed simp

lemma frame_ok_finish: "frame_ok rc \<Longrightarrow> frame_ok (snd (snd (finish rc)))"
  by (auto simp: finish_def frame_ok_same_shape dest: finish_cols_shape split: prod.splits option.splits)

lemma map_bytes_update:
  assumes "x < length px" and "y < length (px ! x)"
  shows "map (map (\<lambda>c. fst (toBytes c))) (px[x := (px ! x)[y := snd (toBytes (px ! x ! y))]]) =
         map (map (\<lambda>c. fst (toBytes c))) px"
proof -
  have "map (\<lambda>c. fst (toBytes c)) ((px ! x)[y := snd (toBytes (px ! x ! y))]) = map (\<lambda>c. fst (toBytes c)) (px ! x)"
    using assms(2) map_update_self [of y "px ! x" "\<lambda>c. fst (toBytes c)"] by (simp add: map_update toBytes_snd)
  then show ?thesis using assms(1) map_update_self [of x px "map (\<lambda>c. fst (toBytes c))"]
    by (simp add: map_update)
qed

lemma finish_col_byte_image:
  "finish_col px x ys acc = (a, e, px') \<Longrightarrow> map (map (\<lambda>c. fst (toBytes c))) px' = map (map (\<lambda>c. fst (toBytes c))) px"
proof (induction ys arbitrary: px acc)
  case (Cons y ys)
  show ?case
  proof (cases "x < length px \<and> y < length (px ! x)")
    case True
    then show ?thesis using Cons map_bytes_update [of x px y] by (simp split: prod.splits)
  next
    case False
    then show ?thesis using Cons.prems by (auto split: if_splits)
  qed
qed simp

lemma finish_cols_byte_image:
  "finish_cols px xs ys acc = (a, e, px') \<Longrightarrow> map (map (\<lambda>c. fst (toBytes c))) px' = map (map (\<lambda>c. fst (toBytes c))) px"
proof (induction xs arbitrary: px acc)
  case (Cons x xs)
  then show ?case using finish_col_byte_image by (auto split: prod.splits option.splits)
qed simp

lemma finish_byte_image:
  "map (map (\<lambda>c. fst (toBytes c))) (pixels (snd (snd (finish rc)))) = map (map (\<lambda>c. fst (toBytes c))) (pixels rc)"
  by (auto simp: finish_def dest: finish_cols_byte_image split: prod.splits option.splits)

lemma finish_fields: "width (snd (snd (finish rc))) = width rc" "height (snd (snd (finish rc))) = height rc"
  by (auto simp: finish_def split: prod.splits option.splits)

lemma finish_repeat_bytes:
  assumes "frame_ok rc" and "width rc = height rc" and "bmp_fits (width rc) (height rc)"
  shows "fst (finish (snd (snd (finish rc)))) = fst (finish rc) \<and> fst (snd (finish (snd (snd (finish rc))))) = None"
proof -
  define rc' where "rc' = snd (snd (finish rc))"
  have f: "frame_ok rc'" "width rc' = height rc'" "bmp_fits (width rc') (height rc')"
    using frame_ok_finish [OF assms(1)] finish_fields [of rc] assms(2,3) by (simp_all add: rc'_def)
  have "concat (map concat (map (map (\<lambda>c. fst (toBytes c))) (pixels rc'))) =
        concat (map concat (map (map (\<lambda>c. fst (toBytes c))) (pixels rc)))"
    using finish_byte_image [of rc] by (simp only: rc'_def)
  then have img: "concat (map (\<lambda>row. concat (map (\<lambda>c. fst (toBytes c)) row)) (pixels rc')) =
                  concat (map (\<lambda>row. concat (map (\<lambda>c. fst (toBytes c)) row)) (pixels rc))"
    by (simp add: comp_def)
  show ?thesis
    using finish_square_bytes [OF f] finish_square_bytes [OF assms] img finish_fields [of rc]
    by (simp add: rc'_def)
qed

lemma finish_col_state:
  "x < length px \<Longrightarrow> \<forall>y\<in>set ys. y < length (px ! x) \<Longrightarrow> distinct ys \<Longrightarrow>
   snd (snd (finish_col px x ys acc)) = px[x := foldl (\<lambda>r y. r[y := snd (toBytes (px ! x ! y))]) (px ! x) ys]"
proof (induction ys arbitrary: px acc)
  case Nil
  then show ?case by simp
next
  case (Cons y ys)
  define px1 where "px1 = px[x := (px ! x)[y := snd (toBytes (px ! x ! y))]]"
  have x1: "x < length px1" "\<forall>y'\<in>set ys. y' < length (px1 ! x)" "distinct ys"
    using Cons.prems by (auto simp: px1_def)
  have same: "\<forall>y'\<in>set ys. px1 ! x ! y' = px ! x ! y'"
    using Cons.prems by (auto simp: px1_def nth_list_update)
  have f: "foldl (\<lambda>r y'. r[y' := snd (toBytes (px1 ! x ! y'))]) (px1 ! x) ys =
           foldl (\<lambda>r y'. r[y' := snd (toBytes (px ! x ! y'))]) ((px ! x)[y := snd (toBytes (px ! x ! y))]) ys"
    using same Cons.prems(1) by (intro foldl_cong) (simp_all add: px1_def)
  have "snd (snd (finish_col px x (y # ys) acc)) = snd (snd (finish_col px1 x ys (acc @ fst (toBytes (px ! x ! y)))))"
    using Cons.prems by (simp add: px1_def split: prod.splits)
  also have "\<dots> = px1[x := foldl (\<lambda>r y'. r[y' := snd (toBytes (px1 ! x ! y'))]) (px1 ! x) ys]"
    using Cons.IH [OF x1] .
  finally show ?case using f by (simp add: px1_def)
qed

lemma finish_cols_state:
  "\<forall>x\<in>set xs. x < length px \<and> (\<forall>y\<in>set ys. y < length (px ! x)) \<Longrightarrow> distinct xs \<Longrightarrow> distinct ys \<Longrightarrow>
   snd (snd (finish_cols px xs ys acc)) =
     foldl (\<lambda>p x. p[x := foldl (\<lambda>r y. r[y := snd (toBytes (px ! x ! y))]) (px ! x) ys]) px xs"
proof (induction xs arbitrary: px acc)
  case Nil
  then show ?case by simp
next
  case (Cons x xs)
  obtain px1 where c: "finish_col px x ys acc = (acc @ concat (map (\<lambda>y. fst (toBytes (px ! x ! y))) ys), None, px1)"
    using finish_col_ok [of x px ys acc] Cons.prems by auto
  have p1: "px1 = px[x := foldl (\<lambda>r y. r[y := snd (toBytes (px ! x ! y))]) (px ! x) ys]"
    using finish_col_state [of x px ys acc] c Cons.prems by simp
  have same: "\<forall>x'\<in>set xs. px1 ! x' = px ! x'" using p1 Cons.prems by (auto simp: nth_list_update)
  have pre: "\<forall>x'\<in>set xs. x' < length px1 \<and> (\<forall>y\<in>set ys. y < length (px1 ! x'))"
    using Cons.prems same by (simp add: p1)
  have "snd (snd (finish_cols px (x # xs) ys acc)) = snd (snd (finish_cols px1 xs ys (acc @ concat (map (\<lambda>y. fst (toBytes (px ! x ! y))) ys))))"
    using c by simp
  also have "\<dots> = foldl (\<lambda>p x. p[x := foldl (\<lambda>r y. r[y := snd (toBytes (px1 ! x ! y))]) (px1 ! x) ys]) px1 xs"
    using Cons.IH [OF pre] Cons.prems by simp
  also have "\<dots> = foldl (\<lambda>p x. p[x := foldl (\<lambda>r y. r[y := snd (toBytes (px ! x ! y))]) (px ! x) ys]) px1 xs"
    using same by (intro foldl_cong) simp_all
  finally show ?case by (simp add: p1)
qed

lemma finish_square_state:
  assumes "frame_ok rc" and "width rc = height rc" and "bmp_fits (width rc) (height rc)"
  shows "pixels (snd (snd (finish rc))) = map (map (\<lambda>c. snd (toBytes c))) (pixels rc)"
proof -
  define n where "n = width rc"
  define px where "px = pixels rc"
  have len: "length px = n" and rows: "\<forall>x<n. length (px ! x) = n"
    using assms(1,2) by (auto simp: frame_ok_def n_def px_def list_all_length)
  have row: "foldl (\<lambda>r y. r[y := snd (toBytes (px ! x ! y))]) (px ! x) [0..<n] = map (\<lambda>c. snd (toBytes c)) (px ! x)"
    if "x < n" for x
    using foldl_update_all [of "px ! x" n "\<lambda>y. snd (toBytes (px ! x ! y))"] rows that
      map_upt_nth [of "\<lambda>c. snd (toBytes c)" "px ! x"] by simp
  have "snd (snd (finish_cols px [0..<n] [0..<n] (bmp_header n n))) =
        foldl (\<lambda>p x. p[x := foldl (\<lambda>r y. r[y := snd (toBytes (px ! x ! y))]) (px ! x) [0..<n]]) px [0..<n]"
    using finish_cols_state [of "[0..<n]" px "[0..<n]"] len rows by simp
  also have "\<dots> = map (\<lambda>x. foldl (\<lambda>r y. r[y := snd (toBytes (px ! x ! y))]) (px ! x) [0..<n]) [0..<n]"
    using len by (rule foldl_update_all)
  also have "\<dots> = map (\<lambda>x. map (\<lambda>c. snd (toBytes c)) (px ! x)) [0..<length px]"
    using row len by simp
  also have "\<dots> = map (map (\<lambda>c. snd (toBytes c))) px"
    by (rule map_upt_nth)
  finally show ?thesis
    using header_emit [OF assms(3)] assms(2) by (simp add: finish_def n_def px_def split_beta)
qed

lemma finish_byte_colors:
  assumes "frame_ok rc" and "width rc = height rc" and "bmp_fits (width rc) (height rc)"
  shows "list_all (list_all is_byte_color) (pixels (snd (snd (finish rc))))"
  using finish_square_state [OF assms] by (simp add: list_all_iff toBytes_byte_color)

section \<open>Properties\<close>

text \<open>C30: For a square frame buffer whose sizes fit the header, finish writes the 54-byte header of section 6 followed by the 3 bytes (b, g, r) of every pixel, pixels[0][0], pixels[0][1], ..., pixels[h-1][w-1], and raises nothing.\<close>

theorem finish_square:
  assumes "frame_ok rc" and "width rc = height rc" and "bmp_fits (width rc) (height rc)"
  shows "fst (finish rc) = bmp_header (width rc) (height rc) @
                           concat (map (\<lambda>row. concat (map (\<lambda>c. fst (toBytes c)) row)) (pixels rc)) \<and>
         fst (snd (finish rc)) = None"
  using assms by (rule finish_square_bytes)

theorem finish_square_witness:
  "frame_ok (Raycaster 2 2 :: sphere raycaster) \<and> width (Raycaster 2 2 :: sphere raycaster) = height (Raycaster 2 2 :: sphere raycaster) \<and> bmp_fits (width (Raycaster 2 2 :: sphere raycaster)) (height (Raycaster 2 2 :: sphere raycaster)) \<and>
   fst (finish (Raycaster 2 2 :: sphere raycaster)) = bmp_header (width (Raycaster 2 2 :: sphere raycaster)) (height (Raycaster 2 2 :: sphere raycaster)) @
                    concat (map (\<lambda>row. concat (map (\<lambda>c. fst (toBytes c)) row)) (pixels (Raycaster 2 2 :: sphere raycaster))) \<and>
   fst (snd (finish (Raycaster 2 2 :: sphere raycaster))) = None"
proof -
  have h: "frame_ok (Raycaster 2 2 :: sphere raycaster)" "width (Raycaster 2 2 :: sphere raycaster) = height (Raycaster 2 2 :: sphere raycaster)" "bmp_fits (width (Raycaster 2 2 :: sphere raycaster)) (height (Raycaster 2 2 :: sphere raycaster))"
    by (simp_all add: frame_ok_def bmp_fits_def list_all_iff)
  show ?thesis using h finish_square [OF h] by blast
qed

text \<open>C31: For a non-empty frame buffer that is not square, finish raises IndexError in its pixel loop: it indexes pixels[x][y] with x up to width and y up to height, the transpose of the buffer's shape.\<close>

theorem finish_nonsquare:
  assumes "frame_ok rc" and "bmp_fits (width rc) (height rc)"
    and "0 < width rc" and "0 < height rc" and "width rc \<noteq> height rc"
  shows "fst (snd (finish rc)) = Some IndexError"
  using assms by (rule finish_nonsquare_error)

theorem finish_nonsquare_witness:
  "frame_ok (Raycaster 2 1 :: sphere raycaster) \<and> bmp_fits 2 1 \<and> fst (snd (finish (Raycaster 2 1 :: sphere raycaster))) = Some IndexError"
proof -
  have h: "frame_ok (Raycaster 2 1 :: sphere raycaster)" "bmp_fits (width (Raycaster 2 1 :: sphere raycaster)) (height (Raycaster 2 1 :: sphere raycaster))"
    "0 < width (Raycaster 2 1 :: sphere raycaster)" "0 < height (Raycaster 2 1 :: sphere raycaster)"
    "width (Raycaster 2 1 :: sphere raycaster) \<noteq> height (Raycaster 2 1 :: sphere raycaster)"
    by (simp_all add: frame_ok_def bmp_fits_def list_all_iff)
  show ?thesis using h finish_nonsquare [OF h] by (simp only: h) (simp add: Raycaster_def bmp_fits_def)
qed

text \<open>C32: For a square frame buffer that fits, reading the header back from the file finish writes gives the signature BM, a file-size field equal to the file's length, the data offset 54, the width, the height and 24 bits per pixel.\<close>

theorem finish_header_roundtrip:
  assumes "frame_ok rc" and "width rc = height rc" and "bmp_fits (width rc) (height rc)"
  shows "parse_header (fst (finish rc)) =
           Some (int (length (fst (finish rc))), 54, int (width rc), int (height rc), 24)"
  using assms by (rule finish_header_parse)

theorem finish_header_roundtrip_witness:
  "frame_ok (Raycaster 3 3 :: sphere raycaster) \<and> width (Raycaster 3 3 :: sphere raycaster) = height (Raycaster 3 3 :: sphere raycaster) \<and> bmp_fits (width (Raycaster 3 3 :: sphere raycaster)) (height (Raycaster 3 3 :: sphere raycaster)) \<and>
   parse_header (fst (finish (Raycaster 3 3 :: sphere raycaster))) = Some (int (length (fst (finish (Raycaster 3 3 :: sphere raycaster)))), 54, 3, 3, 24)"
proof -
  have h: "frame_ok (Raycaster 3 3 :: sphere raycaster)" "width (Raycaster 3 3 :: sphere raycaster) = height (Raycaster 3 3 :: sphere raycaster)" "bmp_fits (width (Raycaster 3 3 :: sphere raycaster)) (height (Raycaster 3 3 :: sphere raycaster))"
    by (simp_all add: frame_ok_def bmp_fits_def list_all_iff)
  show ?thesis using h finish_header_roundtrip [OF h] by (simp add:)
qed

text \<open>C33: When the image data does not fit the signed 32-bit file-size field (54 + 3wh >= 2^31), finish writes only the two signature bytes BM and raises struct.error, leaving the frame buffer untouched.\<close>

theorem finish_too_large:
  assumes "2 ^ 31 \<le> 54 + width rc * height rc * 3"
  shows "finish rc = ([66, 77], Some StructError, rc)"
proof -
  have "int (2 ^ 31) \<le> int (54 + width rc * height rc * 3)" using assms by (simp only: of_nat_le_iff)
  then have "2 ^ 31 \<le> 14 + 40 + int (width rc) * int (height rc) * 3" by simp
  then show ?thesis
    by (simp add: finish_def header_chunks_def Let_def char_B char_M dword_def pack_signed_def)
qed

theorem finish_too_large_witness:
  "(2::nat) ^ 31 \<le> 54 + width ((Raycaster 1 1 :: sphere raycaster)\<lparr>width := 65536, height := 65536\<rparr>) * height ((Raycaster 1 1 :: sphere raycaster)\<lparr>width := 65536, height := 65536\<rparr>) * 3 \<and> finish ((Raycaster 1 1 :: sphere raycaster)\<lparr>width := 65536, height := 65536\<rparr>) = ([66, 77], Some StructError, ((Raycaster 1 1 :: sphere raycaster)\<lparr>width := 65536, height := 65536\<rparr>))"
proof -
  have h: "(2::nat) ^ 31 \<le> 54 + width ((Raycaster 1 1 :: sphere raycaster)\<lparr>width := 65536, height := 65536\<rparr>) * height ((Raycaster 1 1 :: sphere raycaster)\<lparr>width := 65536, height := 65536\<rparr>) * 3" by (simp add:)
  show ?thesis using h finish_too_large [OF h] by simp
qed

text \<open>C39: Calling finish again on the renderer a successful finish left behind (its pixel objects clamped in place by toBytes) writes the same file and raises nothing: the in-place mutation does not change the image.\<close>

theorem finish_repeatable:
  assumes "frame_ok rc" and "width rc = height rc" and "bmp_fits (width rc) (height rc)"
  shows "fst (finish (snd (snd (finish rc)))) = fst (finish rc) \<and> fst (snd (finish (snd (snd (finish rc))))) = None"
  using assms by (rule finish_repeat_bytes)

theorem finish_repeatable_witness:
  "frame_ok ((Raycaster 2 2 :: sphere raycaster)\<lparr>pixels := [[color 300 (-5) 7.5, color 1 2 3], [color 0 0 0, color 255 255 255]]\<rparr>) \<and> width ((Raycaster 2 2 :: sphere raycaster)\<lparr>pixels := [[color 300 (-5) 7.5, color 1 2 3], [color 0 0 0, color 255 255 255]]\<rparr>) = height ((Raycaster 2 2 :: sphere raycaster)\<lparr>pixels := [[color 300 (-5) 7.5, color 1 2 3], [color 0 0 0, color 255 255 255]]\<rparr>) \<and> bmp_fits (width ((Raycaster 2 2 :: sphere raycaster)\<lparr>pixels := [[color 300 (-5) 7.5, color 1 2 3], [color 0 0 0, color 255 255 255]]\<rparr>)) (height ((Raycaster 2 2 :: sphere raycaster)\<lparr>pixels := [[color 300 (-5) 7.5, color 1 2 3], [color 0 0 0, color 255 255 255]]\<rparr>)) \<and>
   fst (finish (snd (snd (finish ((Raycaster 2 2 :: sphere raycaster)\<lparr>pixels := [[color 300 (-5) 7.5, color 1 2 3], [color 0 0 0, color 255 255 255]]\<rparr>))))) = fst (finish ((Raycaster 2 2 :: sphere raycaster)\<lparr>pixels := [[color 300 (-5) 7.5, color 1 2 3], [color 0 0 0, color 255 255 255]]\<rparr>)) \<and> fst (snd (finish (snd (snd (finish ((Raycaster 2 2 :: sphere raycaster)\<lparr>pixels := [[color 300 (-5) 7.5, color 1 2 3], [color 0 0 0, color 255 255 255]]\<rparr>)))))) = None"
proof -
  have h: "frame_ok ((Raycaster 2 2 :: sphere raycaster)\<lparr>pixels := [[color 300 (-5) 7.5, color 1 2 3], [color 0 0 0, color 255 255 255]]\<rparr>)" "width ((Raycaster 2 2 :: sphere raycaster)\<lparr>pixels := [[color 300 (-5) 7.5, color 1 2 3], [color 0 0 0, color 255 255 255]]\<rparr>) = height ((Raycaster 2 2 :: sphere raycaster)\<lparr>pixels := [[color 300 (-5) 7.5, color 1 2 3], [color 0 0 0, color 255 255 255]]\<rparr>)" "bmp_fits (width ((Raycaster 2 2 :: sphere raycaster)\<lparr>pixels := [[color 300 (-5) 7.5, color 1 2 3], [color 0 0 0, color 255 255 255]]\<rparr>)) (height ((Raycaster 2 2 :: sphere raycaster)\<lparr>pixels := [[color 300 (-5) 7.5, color 1 2 3], [color 0 0 0, color 255 255 255]]\<rparr>))"
    by (simp_all add: frame_ok_def bmp_fits_def list_all_iff)
  show ?thesis using h finish_repeatable [OF h] by blast
qed

text \<open>C29: After a successful finish of a square frame buffer every pixel object holds integer channels in [0, 255]: toBytes has replaced each float channel by int(max(min(v, 255), 0)).\<close>

theorem finish_pixels_byte_colors:
  assumes "frame_ok rc" and "width rc = height rc" and "bmp_fits (width rc) (height rc)"
  shows "list_all (list_all is_byte_color) (pixels (snd (snd (finish rc))))"
  using assms by (rule finish_byte_colors)

theorem finish_pixels_byte_colors_witness:
  "frame_ok ((Raycaster 2 2 :: sphere raycaster)\<lparr>pixels := [[color 300 (-5) 7.5, color 1 2 3], [color 0 0 0, color 255 255 255]]\<rparr>) \<and> width ((Raycaster 2 2 :: sphere raycaster)\<lparr>pixels := [[color 300 (-5) 7.5, color 1 2 3], [color 0 0 0, color 255 255 255]]\<rparr>) = height ((Raycaster 2 2 :: sphere raycaster)\<lparr>pixels := [[color 300 (-5) 7.5, color 1 2 3], [color 0 0 0, color 255 255 255]]\<rparr>) \<and> bmp_fits (width ((Raycaster 2 2 :: sphere raycaster)\<lparr>pixels := [[color 300 (-5) 7.5, color 1 2 3], [color 0 0 0, color 255 255 255]]\<rparr>)) (height ((Raycaster 2 2 :: sphere raycaster)\<lparr>pixels := [[color 300 (-5) 7.5, color 1 2 3], [color 0 0 0, color 255 255 255]]\<rparr>)) \<and>
   list_all (list_all is_byte_color) (pixels (snd (snd (finish ((Raycaster 2 2 :: sphere raycaster)\<lparr>pixels := [[color 300 (-5) 7.5, color 1 2 3], [color 0 0 0, color 255 255 255]]\<rparr>)))))"
proof -
  have h: "frame_ok ((Raycaster 2 2 :: sphere raycaster)\<lparr>pixels := [[color 300 (-5) 7.5, color 1 2 3], [color 0 0 0, color 255 255 255]]\<rparr>)" "width ((Raycaster 2 2 :: sphere raycaster)\<lparr>pixels := [[color 300 (-5) 7.5, color 1 2 3], [color 0 0 0, color 255 255 255]]\<rparr>) = height ((Raycaster 2 2 :: sphere raycaster)\<lparr>pixels := [[color 300 (-5) 7.5, color 1 2 3], [color 0 0 0, color 255 255 255]]\<rparr>)" "bmp_fits (width ((Raycaster 2 2 :: sphere raycaster)\<lparr>pixels := [[color 300 (-5) 7.5, color 1 2 3], [color 0 0 0, color 255 255 255]]\<rparr>)) (height ((Raycaster 2 2 :: sphere raycaster)\<lparr>pixels := [[color 300 (-5) 7.5, color 1 2 3], [color 0 0 0, color 255 255 255]]\<rparr>))"
    by (simp_all add: frame_ok_def bmp_fits_def list_all_iff)
  show ?thesis using h finish_pixels_byte_colors [OF h] by blast
qed

end
