(* ===== verification/Session.thy ===== *)
theory Session
  imports Bitmap
begin

text \<open>
  The life of a \<open>Raycaster\<close> object. A client, such as the script at the end of
  \<open>src/ray.py\<close>, drives it by a sequence of method calls and attribute assignments:
  \<open>glClear()\<close>, assigning \<open>light\<close> or \<open>scene\<close>, \<open>point(x, y, color)\<close>, \<open>render()\<close>
  and \<open>finish(filename)\<close>. The session state is the renderer together with the files
  written so far; an exception ends the session. \<open>reachable\<close> is the set of states a
  client can reach from the constructor, and the invariant proved over it is the shape of
  the frame buffer that \<open>render\<close> and \<open>finish\<close> depend on.
\<close>

datatype 'o rc_op =
    Clear
  | SetLight light
  | SetScene "'o list"
  | Point int int "color option"
  | Render
  | Finish

type_synonym 'o session = "'o raycaster \<times> byte list list"

fun rc_step :: "'o obj_iface \<Rightarrow> 'o rc_op \<Rightarrow> 'o session \<Rightarrow> 'o session result" where
  "rc_step ops Clear (rc, fs) = Inr (glClear rc, fs)"
| "rc_step ops (SetLight l) (rc, fs) = Inr (rc\<lparr>light := Some l\<rparr>, fs)"
| "rc_step ops (SetScene sc) (rc, fs) = Inr (rc\<lparr>scene := sc\<rparr>, fs)"
| "rc_step ops (Point x y c) (rc, fs) = Inr (point rc x y c, fs)"
| "rc_step ops Render (rc, fs) = rbind (render ops rc) (\<lambda>rc'. Inr (rc', fs))"
| "rc_step ops Finish (rc, fs) =
     (case finish rc of (bs, None, rc') \<Rightarrow> Inr (rc', fs @ [bs]) | (bs, Some e, rc') \<Rightarrow> Inl e)"

text \<open>Statements run in order; the first exception stops the script.\<close>

fun run :: "'o obj_iface \<Rightarrow> 'o rc_op list \<Rightarrow> 'o session \<Rightarrow> 'o session result" where
  "run ops [] s = Inr s"
| "run ops (op # rest) s = rbind (rc_step ops op s) (run ops rest)"

text \<open>The statements of the script after the constructor call \<open>Raycaster(2000, 2000)\<close>.\<close>

definition script :: "sphere rc_op list" where
  "script = [SetLight (Light (V3 40 20 20) 1.5), SetScene [Sphere (V3 0 (-1) (-10)) 2 esferas], Render, Finish]"

inductive reachable :: "'o obj_iface \<Rightarrow> 'o session \<Rightarrow> bool" for ops where
  init: "reachable ops (Raycaster w h, [])"
| step: "reachable ops s \<Longrightarrow> rc_step ops op s = Inr s' \<Longrightarrow> reachable ops s'"

section \<open>Lemmas\<close>

lemma run_append: "run ops (xs @ ys) s = rbind (run ops xs s) (run ops ys)"
proof (induction xs arbitrary: s)
  case (Cons op xs)
  have "run ops (xs @ ys) = (\<lambda>s. rbind (run ops xs s) (run ops ys))"
    using Cons.IH by (rule ext)
  then show ?case by (simp add: rbind_assoc)
qed simp

lemma run_reachable: "reachable ops s \<Longrightarrow> run ops xs s = Inr s' \<Longrightarrow> reachable ops s'"
  by (induction xs arbitrary: s) (auto intro: reachable.step)

lemma rc_step_frame_ok:
  assumes "frame_ok (fst s)" and "rc_step ops op s = Inr s'"
  shows "frame_ok (fst s')"
proof (cases op)
  case (Point x y c)
  then show ?thesis using assms point_shape [of "fst s" x y c]
    by (cases s) (auto simp: frame_ok_same_shape)
next
  case Render
  then show ?thesis using assms by (cases s) (auto simp: frame_ok_render)
next
  case Finish
  then show ?thesis using assms frame_ok_finish [of "fst s"]
    by (cases s) (auto simp: split_beta split: option.splits)
next
  case Clear
  then show ?thesis using assms by (cases s) (auto simp: frame_ok_glClear)
next
  case (SetLight l)
  then show ?thesis using assms by (cases s) (auto simp: frame_ok_def)
next
  case (SetScene sc)
  then show ?thesis using assms by (cases s) (auto simp: frame_ok_def)
qed

lemma reachable_frame_ok_inv: "reachable ops s \<Longrightarrow> frame_ok (fst s)"
proof (induction rule: reachable.induct)
  case (init w h)
  then show ?case by (simp add: frame_ok_Raycaster)
next
  case (step s op s')
  then show ?case using rc_step_frame_ok by blast
qed

lemma reachable_finish:
  assumes "reachable ops s" and "width (fst s) = height (fst s)" and "bmp_fits (width (fst s)) (height (fst s))"
  shows "\<exists>s'. rc_step ops Finish s = Inr s'"
proof -
  have "fst (snd (finish (fst s))) = None"
    using finish_square_bytes [OF reachable_frame_ok_inv [OF assms(1)] assms(2,3)] by simp
  then show ?thesis by (cases s) (simp add: split_beta)
qed

section \<open>Properties\<close>

text \<open>C38: Every state a client can reach from the constructor Raycaster(w, h) by glClear, assigning light or scene, point, render and finish (each call that returns) has a frame buffer of height rows of width colors.\<close>

theorem reachable_frame_ok: "reachable ops s \<Longrightarrow> frame_ok (fst s)"
  by (rule reachable_frame_ok_inv)

theorem reachable_frame_ok_witness:
  "reachable sphere_iface ((Raycaster 2 2)\<lparr>light := Some (Light (V3 40 20 20) 1.5)\<rparr>, []) \<and>
   frame_ok ((Raycaster 2 2 :: sphere raycaster)\<lparr>light := Some (Light (V3 40 20 20) 1.5)\<rparr>)"
proof -
  have h: "reachable sphere_iface ((Raycaster 2 2)\<lparr>light := Some (Light (V3 40 20 20) 1.5)\<rparr>, [])"
    by (rule reachable.step [OF reachable.init, of _ "SetLight (Light (V3 40 20 20) 1.5)"]) simp
  show ?thesis using h reachable_frame_ok [OF h] by simp
qed

text \<open>C18: A renderer reached from the constructor by any sequence of calls that return can always still write its file: if its sizes are square and fit the header, the next finish() succeeds.\<close>

theorem reachable_can_finish:
  assumes "reachable ops s" and "width (fst s) = height (fst s)" and "bmp_fits (width (fst s)) (height (fst s))"
  shows "\<exists>s'. rc_step ops Finish s = Inr s'"
  using assms by (rule reachable_finish)

theorem reachable_can_finish_witness:
  "reachable sphere_iface (Raycaster 2 2, []) \<and> width (Raycaster 2 2 :: sphere raycaster) = height (Raycaster 2 2 :: sphere raycaster) \<and>
   bmp_fits (width (Raycaster 2 2 :: sphere raycaster)) (height (Raycaster 2 2 :: sphere raycaster)) \<and>
   (\<exists>s'. rc_step sphere_iface Finish (Raycaster 2 2, []) = Inr s')"
proof -
  have h: "reachable sphere_iface (Raycaster 2 2, [])" by (rule reachable.init)
  have w: "width (fst (Raycaster 2 2 :: sphere raycaster, [] :: byte list list)) = height (fst (Raycaster 2 2 :: sphere raycaster, [] :: byte list list))"
    "bmp_fits (width (fst (Raycaster 2 2 :: sphere raycaster, [] :: byte list list))) (height (fst (Raycaster 2 2 :: sphere raycaster, [] :: byte list list)))"
    by (simp_all add: bmp_fits_def)
  show ?thesis using h w reachable_can_finish [OF h w] by simp
qed

end
