(* ===== verification/Store.thy ===== *)
theory Store
  imports Bitmap
begin

text \<open>
  The frame buffer as Python holds it: a list of lists of references to \<open>color\<close>
  objects. \<open>glClear\<close> makes every cell refer to the one \<open>background_color\<close> object,
  \<open>point\<close> stores a reference to the color passed (or to the background object), and
  \<open>toBytes\<close> in \<open>finish\<close> mutates the object a cell refers to, so the mutation is seen
  through every other cell that refers to it. The store maps addresses to objects. The
  value model of \<open>Bitmap\<close> writes the clamped value back to the one cell read; the lemmas
  here show it writes the same bytes and raises the same exception as the store model,
  whatever the sharing.
\<close>

type_synonym addr = nat

record heap_fb =
  store :: "addr \<Rightarrow> color"
  cells :: "addr list list"

definition heap_abs :: "heap_fb \<Rightarrow> color list list" where
  "heap_abs hb = map (map (store hb)) (cells hb)"

definition hglClear :: "nat \<Rightarrow> nat \<Rightarrow> addr \<Rightarrow> heap_fb \<Rightarrow> heap_fb" where
  "hglClear w h bg hb = hb\<lparr>cells := replicate h (replicate w bg)\<rparr>"

text \<open>\<open>point(x, y, color)\<close>: \<open>self.pixels[y][x] = color or self.background_color\<close> stores a reference.\<close>

definition hpoint :: "heap_fb \<Rightarrow> addr \<Rightarrow> int \<Rightarrow> int \<Rightarrow> addr option \<Rightarrow> heap_fb" where
  "hpoint hb bg x y c =
    (let v = (case c of None \<Rightarrow> bg | Some a \<Rightarrow> a)
     in case py_get (cells hb) y of
          Inl _ \<Rightarrow> hb
        | Inr row \<Rightarrow> (case py_set row x v of
                        Inl _ \<Rightarrow> hb
                      | Inr row' \<Rightarrow> (case py_set (cells hb) y row' of
                                      Inl _ \<Rightarrow> hb
                                    | Inr cs \<Rightarrow> hb\<lparr>cells := cs\<rparr>)))"

fun hfinish_col :: "(addr \<Rightarrow> color) \<Rightarrow> addr list list \<Rightarrow> nat \<Rightarrow> nat list \<Rightarrow> byte list \<Rightarrow>
                    byte list \<times> py_error option \<times> (addr \<Rightarrow> color)" where
  "hfinish_col st cs x [] acc = (acc, None, st)"
| "hfinish_col st cs x (y # ys) acc =
     (case py_get cs (int x) of
        Inl e \<Rightarrow> (acc, Some e, st)
      | Inr row \<Rightarrow> (case py_get row (int y) of
          Inl e \<Rightarrow> (acc, Some e, st)
        | Inr r \<Rightarrow> (case toBytes (st r) of (bs, c') \<Rightarrow>
            hfinish_col (st(r := c')) cs x ys (acc @ bs))))"

fun hfinish_cols :: "(addr \<Rightarrow> color) \<Rightarrow> addr list list \<Rightarrow> nat list \<Rightarrow> nat list \<Rightarrow> byte list \<Rightarrow>
                     byte list \<times> py_error option \<times> (addr \<Rightarrow> color)" where
  "hfinish_cols st cs [] ys acc = (acc, None, st)"
| "hfinish_cols st cs (x # xs) ys acc =
     (case hfinish_col st cs x ys acc of
        (acc', Some e, st') \<Rightarrow> (acc', Some e, st')
      | (acc', None, st') \<Rightarrow> hfinish_cols st' cs xs ys acc')"

definition hfinish :: "'o raycaster \<Rightarrow> heap_fb \<Rightarrow> byte list \<times> py_error option \<times> heap_fb" where
  "hfinish rc hb =
     (case emit (header_chunks rc) [] of
        (hdr, Some e) \<Rightarrow> (hdr, Some e, hb)
      | (hdr, None) \<Rightarrow> (case hfinish_cols (store hb) (cells hb) [0..<width rc] [0..<height rc] hdr of
          (file, err, st) \<Rightarrow> (file, err, hb\<lparr>store := st\<rparr>)))"

section \<open>Lemmas\<close>

text \<open>Clamping an object in place changes no cell's bytes, whichever cells share it.\<close>

lemma store_clamp_bytes:
  "(\<lambda>r. fst (toBytes ((st(a := snd (toBytes (st a)))) r))) = (\<lambda>r. fst (toBytes (st r)))"
  by (simp add: fun_eq_iff toBytes_snd)

lemma py_get_map: "py_get (map f xs) i = (case py_get xs i of Inl e \<Rightarrow> Inl e | Inr v \<Rightarrow> Inr (f v))"
  by (auto simp: py_get_def dest: py_idx_Some_less split: option.splits)

lemma py_set_map:
  "py_set (map f xs) i (f v) = (case py_set xs i v of Inl e \<Rightarrow> Inl e | Inr ys \<Rightarrow> Inr (map f ys))"
  by (simp add: py_set_def map_update split: option.splits)

lemma hglClear_abs:
  "store hb bg = background_color rc \<Longrightarrow> heap_abs (hglClear (width rc) (height rc) bg hb) = pixels (glClear rc)"
  by (simp add: heap_abs_def hglClear_def glClear_def)

lemma hpoint_abs:
  assumes "heap_abs hb = pixels rc" and "store hb bg = background_color rc"
  shows "heap_abs (hpoint hb bg x y c) = pixels (point rc x y (map_option (store hb) c))"
proof -
  define v where "v = (case c of None \<Rightarrow> bg | Some a \<Rightarrow> a)"
  have V: "(case map_option (store hb) c of None \<Rightarrow> background_color rc | Some col \<Rightarrow> col) = store hb v"
    using assms(2) by (cases c) (simp_all add: v_def)
  have pix: "pixels rc = map (map (store hb)) (cells hb)" using assms(1) by (simp add: heap_abs_def)
  note defs = pix py_get_map
  show ?thesis
  proof (cases "py_get (cells hb) y")
    case (Inl e)
    then show ?thesis unfolding Render.point_def hpoint_def Let_def V v_def [symmetric] by (simp add: defs heap_abs_def)
  next
    case (Inr row)
    show ?thesis
    proof (cases "py_set row x v")
      case (Inl e)
      then show ?thesis unfolding Render.point_def hpoint_def Let_def V v_def [symmetric] using Inr py_set_map [of "store hb" row x v] by (simp add: defs heap_abs_def)
    next
      case row': (Inr row')
      then show ?thesis unfolding Render.point_def hpoint_def Let_def V v_def [symmetric]
        using Inr py_set_map [of "store hb" row x v] py_set_map [of "map (store hb)" "cells hb" y row']
        by (simp add: defs heap_abs_def split: sum.splits)
    qed
  qed
qed

lemma hfinish_col_agree:
  assumes "map (map (\<lambda>r. fst (toBytes (st r)))) cs = map (map (\<lambda>c. fst (toBytes c))) px"
    and "hfinish_col st cs x ys acc = (a, e, st')" and "finish_col px x ys acc = (a', e', px')"
  shows "a = a' \<and> e = e' \<and> map (map (\<lambda>r. fst (toBytes (st' r)))) cs = map (map (\<lambda>c. fst (toBytes c))) px'"
  using assms
proof (induction ys arbitrary: st px acc)
  case Nil
  then show ?case by simp
next
  case (Cons y ys)
  have len: "length cs = length px" using arg_cong [OF Cons.prems(1), of length] by simp
  show ?case
  proof (cases "x < length px")
    case x: True
    have lrow: "length (cs ! x) = length (px ! x)"
      using arg_cong [OF Cons.prems(1), of "\<lambda>l. length (l ! x)"] x len by simp
    show ?thesis
    proof (cases "y < length (px ! x)")
      case y: True
      have b: "fst (toBytes (st (cs ! x ! y))) = fst (toBytes (px ! x ! y))"
        using arg_cong [OF Cons.prems(1), of "\<lambda>l. l ! x ! y"] x y len lrow by simp
      have agree: "map (map (\<lambda>r. fst (toBytes ((st(cs ! x ! y := snd (toBytes (st (cs ! x ! y))))) r)))) cs =
                   map (map (\<lambda>c. fst (toBytes c))) (px[x := (px ! x)[y := snd (toBytes (px ! x ! y))]])"
        using Cons.prems(1) x y by (simp only: store_clamp_bytes map_bytes_update)
      have hs: "hfinish_col st cs x (y # ys) acc =
                hfinish_col (st(cs ! x ! y := snd (toBytes (st (cs ! x ! y))))) cs x ys (acc @ fst (toBytes (px ! x ! y)))"
        using x y len lrow b by (simp add: split_beta)
      have ps: "finish_col px x (y # ys) acc =
                finish_col (px[x := (px ! x)[y := snd (toBytes (px ! x ! y))]]) x ys (acc @ fst (toBytes (px ! x ! y)))"
        using x y by (simp add: split_beta)
      have h2: "hfinish_col (st(cs ! x ! y := snd (toBytes (st (cs ! x ! y))))) cs x ys (acc @ fst (toBytes (px ! x ! y))) = (a, e, st')"
        using Cons.prems(2) hs by simp
      have p2: "finish_col (px[x := (px ! x)[y := snd (toBytes (px ! x ! y))]]) x ys (acc @ fst (toBytes (px ! x ! y))) = (a', e', px')"
        using Cons.prems(3) ps by simp
      show ?thesis by (rule Cons.IH [OF agree h2 p2])
    next
      case False
      then show ?thesis using Cons.prems x len lrow by simp
    qed
  next
    case False
    then show ?thesis using Cons.prems len by simp
  qed
qed

lemma hfinish_cols_agree:
  assumes "map (map (\<lambda>r. fst (toBytes (st r)))) cs = map (map (\<lambda>c. fst (toBytes c))) px"
    and "hfinish_cols st cs xs ys acc = (a, e, st')" and "finish_cols px xs ys acc = (a', e', px')"
  shows "a = a' \<and> e = e' \<and> map (map (\<lambda>r. fst (toBytes (st' r)))) cs = map (map (\<lambda>c. fst (toBytes c))) px'"
  using assms
proof (induction xs arbitrary: st px acc)
  case Nil
  then show ?case by simp
next
  case (Cons x xs)
  obtain a1 e1 st1 where h1: "hfinish_col st cs x ys acc = (a1, e1, st1)" by (cases "hfinish_col st cs x ys acc") auto
  obtain a1' e1' px1 where p1: "finish_col px x ys acc = (a1', e1', px1)" by (cases "finish_col px x ys acc") auto
  have c: "a1 = a1'" "e1 = e1'" "map (map (\<lambda>r. fst (toBytes (st1 r)))) cs = map (map (\<lambda>c. fst (toBytes c))) px1"
    using hfinish_col_agree [OF Cons.prems(1) h1 p1] by simp_all
  show ?case
  proof (cases e1)
    case None
    then show ?thesis using Cons.IH [OF c(3)] Cons.prems(2,3) h1 p1 c by simp
  next
    case (Some err)
    then show ?thesis using Cons.prems(2,3) h1 p1 c by auto
  qed
qed

lemma hfinish_finish:
  assumes "heap_abs hb = pixels rc"
  shows "fst (hfinish rc hb) = fst (finish rc) \<and> fst (snd (hfinish rc hb)) = fst (snd (finish rc))"
proof -
  have agree: "map (map (\<lambda>r. fst (toBytes (store hb r)))) (cells hb) = map (map (\<lambda>c. fst (toBytes c))) (pixels rc)"
    using assms [symmetric] by (simp add: heap_abs_def comp_def)
  show ?thesis
  proof (cases "snd (emit (header_chunks rc) [])")
    case None
    obtain a e st where h: "hfinish_cols (store hb) (cells hb) [0..<width rc] [0..<height rc] (fst (emit (header_chunks rc) [])) = (a, e, st)"
      by (cases "hfinish_cols (store hb) (cells hb) [0..<width rc] [0..<height rc] (fst (emit (header_chunks rc) []))") auto
    obtain a' e' px' where p: "finish_cols (pixels rc) [0..<width rc] [0..<height rc] (fst (emit (header_chunks rc) [])) = (a', e', px')"
      by (cases "finish_cols (pixels rc) [0..<width rc] [0..<height rc] (fst (emit (header_chunks rc) []))") auto
    show ?thesis using hfinish_cols_agree [OF agree h p] h p None
      by (simp add: hfinish_def finish_def split_beta)
  next
    case (Some e)
    then show ?thesis by (simp add: hfinish_def finish_def split_beta)
  qed
qed

section \<open>Properties\<close>

text \<open>C34: Whatever color objects the cells of the frame buffer share (glClear makes every cell refer to the one background object), finish with toBytes mutating each object in place writes the same bytes and raises the same exception as the value model of finish, whenever the buffer's cells hold the same colors.\<close>

theorem finish_store_refines:
  assumes "heap_abs hb = pixels rc"
  shows "fst (hfinish rc hb) = fst (finish rc) \<and> fst (snd (hfinish rc hb)) = fst (snd (finish rc))"
  using assms by (rule hfinish_finish)

theorem finish_store_refines_witness:
  "heap_abs (hglClear 2 2 0 \<lparr>store = (\<lambda>a. color 300 (-5) 7.5), cells = []\<rparr>) = pixels (glClear ((Raycaster 2 2 :: sphere raycaster)\<lparr>background_color := color 300 (-5) 7.5\<rparr>)) \<and>
   fst (hfinish (glClear ((Raycaster 2 2 :: sphere raycaster)\<lparr>background_color := color 300 (-5) 7.5\<rparr>)) (hglClear 2 2 0 \<lparr>store = (\<lambda>a. color 300 (-5) 7.5), cells = []\<rparr>)) = fst (finish (glClear ((Raycaster 2 2 :: sphere raycaster)\<lparr>background_color := color 300 (-5) 7.5\<rparr>))) \<and> fst (snd (hfinish (glClear ((Raycaster 2 2 :: sphere raycaster)\<lparr>background_color := color 300 (-5) 7.5\<rparr>)) (hglClear 2 2 0 \<lparr>store = (\<lambda>a. color 300 (-5) 7.5), cells = []\<rparr>))) = fst (snd (finish (glClear ((Raycaster 2 2 :: sphere raycaster)\<lparr>background_color := color 300 (-5) 7.5\<rparr>))))"
proof -
  have h: "heap_abs (hglClear 2 2 0 \<lparr>store = (\<lambda>a. color 300 (-5) 7.5), cells = []\<rparr>) = pixels (glClear ((Raycaster 2 2 :: sphere raycaster)\<lparr>background_color := color 300 (-5) 7.5\<rparr>))"
    by (simp add: heap_abs_def hglClear_def glClear_def)
  show ?thesis using h finish_store_refines [OF h] by blast
qed

end
