(* ===== verification/Spec2Isabelle.thy ===== *)
theory Spec2Isabelle
  imports Session Store
begin

text \<open>
  \<^bold>\<open>A verification model of the lab-3 ray tracer.\<close>

  The program is \<open>src/lib.py\<close> (vector algebra, colors, the \<open>struct\<close> byte packers)
  and \<open>src/ray.py\<close> (the \<open>Raycaster\<close> class and the script at its end). The script builds
  a 2000 x 2000 renderer, one red sphere and one light, calls \<open>render()\<close>, which casts two
  rays per pixel through \<open>cast_ray\<close> (recursive reflection and refraction, bounded by
  \<open>MAX_RECURSION_DEPTH = 3\<close>) and writes the frame buffer through \<open>point\<close>, and then
  \<open>finish(name)\<close>, which writes the buffer as a 24-bit bitmap. The sphere class is imported
  from \<open>sphere.py\<close>, which is not under \<open>src/\<close>: it is modelled from the spec.

  \<^bold>\<open>Theories and correspondence.\<close>
  \<^item> \<open>Prelude\<close>: Python's exceptions as the datatype \<open>py_error\<close>, a fallible result as
    \<open>py_error + 'a\<close> (\<open>Inl\<close> the exception) with the bind \<open>rbind\<close>; list indexing with
    negative indices and IndexError (\<open>py_get\<close>, \<open>py_set\<close>); \<open>int()\<close> as \<open>py_int\<close>
    (truncation toward zero); \<open>**\<close> on a non-negative float base as \<open>py_pow\<close>
    (ZeroDivisionError for \<open>0 ** e\<close> with \<open>e < 0\<close>); the clamp
    \<open>max(min(v, hi), lo)\<close>.
  \<^item> \<open>Vec\<close> (\<open>lib.py\<close> lines 5--118): \<open>V3\<close>, \<open>V2\<close> and the functions \<open>sum\<close>,
    \<open>sub\<close>, \<open>mul\<close>, \<open>dot\<close>, \<open>length\<close>, \<open>norm\<close>, \<open>bbox\<close>, \<open>cross\<close>,
    \<open>barycentric\<close>, \<open>multMatriz\<close>, \<open>reflect\<close>, \<open>refract\<close>, one definition each
    (\<open>vsum\<close>, \<open>vlength\<close>, \<open>vnorm\<close> where the name clashes). Lemmas: normalisation gives
    a unit vector; reflection is an involution (via the Householder form); Snell refraction
    on entry, total internal reflection and the ZeroDivisionError of a zero index;
    barycentric weights recombine the point; the triple loop of \<open>multMatriz\<close> computes the
    matrix product; \<open>bbox\<close> returns the maxima and minima of the coordinates.
  \<^item> \<open>Color\<close> (\<open>lib.py\<close> lines 129--172): the module function \<open>color(r, g, b)\<close> as
    \<open>color_fn\<close> (unreachable: the class of line 132 rebinds its name), the \<open>color\<close> class,
    its operators, and \<open>toBytes\<close>, which returns the bytes and the object as the call
    mutates it. Lemmas: the bytes are the clamped channels, built as \<open>color_fn\<close> builds
    them but never reaching its ValueError; \<open>toBytes\<close> is idempotent (so writing a pixel
    twice is harmless); \<open>__eq__\<close> compares every channel with the other's red one,
    so a color equals itself exactly when it is grey.
  \<^item> \<open>Bytes\<close> (\<open>lib.py\<close> lines 120--127): \<open>char\<close>, \<open>word\<close>, \<open>dword\<close> as
    \<open>pack_signed\<close> over \<open>8 word\<close> bytes, a little-endian host fixed; the decoder
    \<open>unpack_signed\<close> and the round trip.
  \<^item> \<open>Scene\<close> (\<open>ray.py\<close> \<open>scene_intersect\<close>, \<open>lib.py\<close> \<open>Light\<close>, \<open>Material\<close>,
    \<open>Intersect\<close>): the scene objects are accessed through the interface record
    \<open>obj_iface\<close> (\<open>ray_intersect\<close>, \<open>material\<close>), so every lemma of the renderer holds
    for any object type; \<open>sphere_iface\<close> implements it with the spec's sphere. The
    z-buffer loop \<open>scan\<close> refines the abstract specification \<open>first_nearest\<close> (the
    first object of least distance) by a simulation invariant.
  \<^item> \<open>Raycast\<close> (\<open>ray.py\<close> lines 13--137): the \<open>Raycaster\<close> state as a record
    (\<open>width\<close>, \<open>height\<close>, \<open>background_color\<close>, \<open>scene\<close>, \<open>light\<close>, \<open>pixels\<close>),
    \<open>glClear\<close>, and \<open>cast_ray\<close> as a \<open>function\<close> whose every attribute read that can
    fail is an \<open>Inl\<close> branch. It terminates by the measure
    \<open>MAX_RECURSION_DEPTH - recursion\<close>: each recursive call adds one to the depth and the
    guard \<open>recursion >= MAX_RECURSION_DEPTH\<close> returns first, which is the bound the spec
    names; no fuel is needed. The material's specular exponent is a float (\<open>real\<close>),
    and \<open>shade\<close> (the lighting of \<open>cast_ray\<close>'s last lines) is fallible: the
    \<open>**\<close> of line 131 raises ZeroDivisionError when the base is 0 and the exponent
    negative. Lemmas: misses and the depth limit give the background, the
    two attribute errors, the ZeroDivisionError of a negative exponent, shadowing only
    darkens, and on a well-formed scene (\<open>scene_ok\<close>: a light is set, every
    specular exponent is non-negative, every refractive material has a non-zero index)
    \<open>cast_ray\<close> raises nothing.
  \<^item> \<open>Render\<close> (\<open>ray.py\<close> lines 71--156): \<open>point\<close>, the camera, \<open>render\<close> as nested
    loops of \<open>point\<close> calls, and the script's renderer \<open>script_raycaster\<close>. Lemmas:
    \<open>point\<close> writes in range, ignores indices past the end and wraps negative ones;
    the camera's rays are unit vectors pointing into the screen and stay inside the cone
    of the field of view \<open>fov = int(pi/2) = 1\<close> radian (scaled by the aspect ratio
    horizontally); \<open>render\<close> fills every pixel with its two-ray composite.
  \<^item> \<open>Bitmap\<close> (\<open>ray.py\<close> lines 38--69): \<open>finish\<close> as the list of bytes passed to
    \<open>f.write\<close> up to the first exception, the exception, and the renderer with the pixel
    objects clamped by \<open>toBytes\<close>; the spec's header layout \<open>bmp_header\<close> and a header
    reader. Lemmas: the header is the spec's; a square image is written whole, row by row;
    a non-square one raises IndexError; an oversized one raises struct.error after two bytes;
    the in-place clamping leaves the byte image of the buffer unchanged, so a second
    \<open>finish\<close> writes the same file, and after a square \<open>finish\<close> every pixel object holds
    int channels in [0, 255] (\<open>is_byte_color\<close> of \<open>Color\<close>).
  \<^item> \<open>Store\<close> (\<open>ray.py\<close> lines 32--76 and 38--69 again): the buffer as Python holds it,
    lists of references (\<open>cells\<close>) into a store of \<open>color\<close> objects (\<open>heap_fb\<close>);
    \<open>hglClear\<close> makes every cell refer to the background object, \<open>hpoint\<close> stores a
    reference, \<open>hfinish\<close> runs \<open>toBytes\<close> on the referenced object and writes the
    mutation to the store, where every cell sharing the object sees it. Lemmas: through the
    abstraction \<open>heap_abs\<close> (each cell replaced by the object it refers to), \<open>hglClear\<close> and
    \<open>hpoint\<close> simulate \<open>glClear\<close> and \<open>point\<close>, and \<open>hfinish\<close> writes the same bytes
    and raises the same exception as \<open>finish\<close> whatever the sharing. The proof keeps the
    byte images of the two buffers equal, which holds because \<open>toBytes\<close> is idempotent.
  \<^item> \<open>Session\<close> (\<open>ray.py\<close> lines 158--173): the calls a client makes on a \<open>Raycaster\<close>
    as the datatype \<open>rc_op\<close> (\<open>glClear\<close>, assigning \<open>light\<close> or \<open>scene\<close>,
    \<open>point\<close>, \<open>render\<close>, \<open>finish\<close>), one step function \<open>rc_step\<close> over the state
    (renderer, files written), \<open>run\<close> for a statement sequence (the first exception
    ends it), the script's statements \<open>script\<close>, and the inductive set \<open>reachable\<close>
    of states reachable from the constructor. Lemmas: by rule induction, every reachable
    state has a buffer of \<open>height\<close> rows of \<open>width\<close> colors; hence from every reachable
    square state that fits the header, \<open>finish()\<close> succeeds.
  \<^item> This theory: \<open>render\<close> then \<open>finish\<close> on any square well-formed renderer, and the
    script itself, run from \<open>Raycaster(2000, 2000)\<close>: no exception, a file of
    12000054 bytes whose header reads back with its own size.

  \<^bold>\<open>Modelling choices.\<close> Python floats are exact reals (rounding is not modelled; the
  properties are those of the real-number algorithm). Python ints are \<open>int\<close>; bytes are
  \<open>8 word\<close>. The file is the sequence of written bytes; opening and closing it are not
  modelled. Aliasing: \<open>glClear\<close> fills the buffer with one shared \<open>color\<close> object, and
  \<open>toBytes\<close> mutates the object it is called on. The component theories store colors by
  value and write the clamped value back to the one cell read; \<open>Store\<close> models the
  sharing exactly and proves that the value model writes the same file.

  \<^bold>\<open>Not modelled.\<close> The \<open>numpy.matrix\<close> branch of the vector constructors (never
  used, and it depends on numpy); the \<open>__repr__\<close> methods (debug output whose text is
  Python's float formatting, which exact reals do not determine); the sphere of
  \<open>sphere.py\<close>, absent from the sources and modelled from the spec; file-system effects
  (opening, naming and closing the file); negative sizes: \<open>width\<close> and \<open>height\<close> are
  natural numbers here, while Python would accept \<open>Raycaster(-2, 3)\<close>, build rows of no
  pixels and write a header with a negative width.
\<close>

section \<open>The script: render, then finish\<close>

lemma render_frame_fields:
  assumes "frame_ok rc" and "scene_ok ops rc" and "render ops rc = Inr rc'"
  shows "frame_ok rc'" and "width rc' = width rc" and "height rc' = height rc"
  using assms render_result [OF assms(1,2)] by (auto simp: frame_ok_def list_all_iff)

lemma render_finish_bytes:
  assumes "frame_ok rc" and "scene_ok ops rc" and "width rc = height rc" and "bmp_fits (width rc) (height rc)"
  shows "\<exists>rc'. render ops rc = Inr rc' \<and>
           fst (finish rc') = bmp_header (width rc) (height rc) @
             concat (map (\<lambda>y. concat (map (\<lambda>x. fst (toBytes (projr (render_pixel ops rc x y)))) [0..<width rc])) [0..<height rc]) \<and>
           fst (snd (finish rc')) = None"
proof -
  define rc' where "rc' = rc\<lparr>pixels := map (\<lambda>y. map (\<lambda>x. projr (render_pixel ops rc x y)) [0..<width rc]) [0..<height rc]\<rparr>"
  have r: "render ops rc = Inr rc'" using render_result [OF assms(1,2)] by (simp add: rc'_def)
  note f = render_frame_fields [OF assms(1,2) r]
  show ?thesis
    using r finish_square_bytes [of rc'] f assms(3,4) by (auto simp: rc'_def comp_def)
qed

lemmas script_ok = script_frame_ok script_scene_ok

text \<open>C36: On a square, well-formed renderer whose sizes fit the header, render followed by finish raises nothing and writes the spec's header followed by the (b, g, r) bytes of each pixel's two-ray composite, row by row.\<close>

theorem render_then_finish:
  assumes "frame_ok rc" and "scene_ok ops rc" and "width rc = height rc" and "bmp_fits (width rc) (height rc)"
  shows "\<exists>rc'. render ops rc = Inr rc' \<and>
           fst (finish rc') = bmp_header (width rc) (height rc) @
             concat (map (\<lambda>y. concat (map (\<lambda>x. fst (toBytes (projr (render_pixel ops rc x y)))) [0..<width rc])) [0..<height rc]) \<and>
           fst (snd (finish rc')) = None"
  using assms by (rule render_finish_bytes)

theorem render_then_finish_witness:
  "frame_ok script_raycaster \<and> scene_ok sphere_iface script_raycaster \<and>
   width script_raycaster = height script_raycaster \<and> bmp_fits (width script_raycaster) (height script_raycaster) \<and>
   (\<exists>rc'. render sphere_iface script_raycaster = Inr rc' \<and>
      fst (finish rc') = bmp_header 2000 2000 @
        concat (map (\<lambda>y. concat (map (\<lambda>x. fst (toBytes (projr (render_pixel sphere_iface script_raycaster x y)))) [0..<2000])) [0..<2000]) \<and>
      fst (snd (finish rc')) = None)"
proof -
  have h: "width script_raycaster = height script_raycaster" "bmp_fits (width script_raycaster) (height script_raycaster)"
    by (simp_all add: bmp_fits_def)
  have w: "width script_raycaster = 2000" "height script_raycaster = 2000"
    by simp_all
  show ?thesis using script_ok h render_then_finish [OF script_ok h] by (simp only: w)
qed

text \<open>C37: The script at the end of ray.py, run as its sequence of statements from the constructor Raycaster(2000, 2000) (assign the light, assign the scene of one sphere, render(), finish()), raises nothing and writes one file of 54 + 2000 * 2000 * 3 = 12000054 bytes whose header reads back as BM, that size, offset 54, 2000 x 2000, 24 bpp.\<close>

theorem script_output:
  "\<exists>rc' file. run sphere_iface script (Raycaster 2000 2000, []) = Inr (rc', [file]) \<and>
     length file = 12000054 \<and> parse_header file = Some (12000054, 54, 2000, 2000, 24)"
proof -
  obtain rc' where r: "render sphere_iface script_raycaster = Inr rc'"
    using render_result [OF script_ok] by blast
  note f = render_frame_fields [OF script_ok r]
  have sq: "width rc' = height rc'" "bmp_fits (width rc') (height rc')"
    using f by (simp_all add: bmp_fits_def)
  have e: "fst (snd (finish rc')) = None" using finish_square_bytes [OF f(1) sq] by simp
  have run: "run sphere_iface script (Raycaster 2000 2000, []) = Inr (snd (snd (finish rc')), [fst (finish rc')])"
    using r [unfolded script_raycaster_def] e by (simp add: script_def split_beta)
  show ?thesis
    using run finish_length [OF f(1) sq] finish_header_parse [OF f(1) sq] f by simp
qed

end
